theory Spec2Isabelle
  imports Complex_Main
begin

section \<open>JavaScript strings and the platform functions the matchers call\<close>

text \<open>
  A JavaScript string is a sequence of UTF-16 code units; \<open>length\<close>, indexing,
  \<open>includes\<close>, \<open>indexOf\<close>, \<open>split\<close> and regular expressions without the \<open>u\<close>
  flag all work on code units. A code unit is modelled as a natural number.
  JavaScript numbers that hold scores are modelled as exact rationals. The code computes
  them in binary floating point, which agrees with the exact value up to the last place
  of the double; the two can fall on different sides only where the exact value lies on
  a rounding tie of \<open>toFixed\<close> or exactly on a threshold that a score is compared
  with.
\<close>

type_synonym jstr = "nat list"

text \<open>
  What the matchers take from the JavaScript platform and not from this repository:
  \<open>String.prototype.toLowerCase\<close>, the Unicode property tables behind \<open>\p{L}\<close>
  and \<open>\p{N}\<close> (on code points), the conversion of a number to a string, and the
  simple case folding of a code point, by which a regular expression with the flags
  \<open>iu\<close> compares characters.
\<close>

record platform =
  toLowerCase :: "jstr \<Rightarrow> jstr"
  isLetter :: "nat \<Rightarrow> bool"
  isNumber :: "nat \<Rightarrow> bool"
  numToString :: "rat \<Rightarrow> jstr"
  caseFold :: "nat \<Rightarrow> nat"

text \<open>
  \<open>s.toLowerCase()\<close>: the empty string stays empty, whatever the tables are.
\<close>

definition lowerCase :: "platform \<Rightarrow> jstr \<Rightarrow> jstr" where
  "lowerCase P s = (if s = [] then [] else toLowerCase P s)"

definition asc :: "string \<Rightarrow> jstr" where
  "asc s = map of_char s"

text \<open>
  The characters matched by \<open>\s\<close> and removed by \<open>String.prototype.trim\<close>:
  WhiteSpace and LineTerminator of ECMAScript.
\<close>

definition isWhite :: "nat \<Rightarrow> bool" where
  "isWhite c \<longleftrightarrow>
     (9 \<le> c \<and> c \<le> 13) \<or> c = 32 \<or> c = 160 \<or> c = 5760 \<or> (8192 \<le> c \<and> c \<le> 8202) \<or>
     c = 8232 \<or> c = 8233 \<or> c = 8239 \<or> c = 8287 \<or> c = 12288 \<or> c = 65279"

definition trim :: "jstr \<Rightarrow> jstr" where
  "trim s = rev (dropWhile isWhite (rev (dropWhile isWhite s)))"

text \<open>\<open>s.replace(/c/g, d)\<close> for a single code unit \<open>c\<close>.\<close>

definition replaceUnit :: "nat \<Rightarrow> nat \<Rightarrow> jstr \<Rightarrow> jstr" where
  "replaceUnit c d s = map (\<lambda>x. if x = c then d else x) s"

fun startsWith :: "jstr \<Rightarrow> jstr \<Rightarrow> bool" where
  "startsWith s [] = True"
| "startsWith [] (p # ps) = False"
| "startsWith (c # cs) (p # ps) = (c = p \<and> startsWith cs ps)"

text \<open>\<open>hay.includes(needle)\<close>, also \<open>hay.indexOf(needle) !== -1\<close>.\<close>

fun jsIncludes :: "jstr \<Rightarrow> jstr \<Rightarrow> bool" where
  "jsIncludes [] n = (n = [])"
| "jsIncludes (c # cs) n = (startsWith (c # cs) n \<or> jsIncludes cs n)"

text \<open>
  \<open>s.replace(/\s+/g, ' ')\<close>: every maximal run of white space becomes one space.
  The flag tells whether the code unit before the rest was white space.
\<close>

fun collapseRun :: "bool \<Rightarrow> jstr \<Rightarrow> jstr" where
  "collapseRun b [] = []"
| "collapseRun b (c # cs) =
     (if isWhite c then (if b then collapseRun True cs else 32 # collapseRun True cs)
      else c # collapseRun False cs)"

definition collapseWs :: "jstr \<Rightarrow> jstr" where
  "collapseWs s = collapseRun False s"

text \<open>\<open>s.split(' ')\<close>: the pieces between single spaces, empty pieces included.\<close>

fun splitSp :: "jstr \<Rightarrow> jstr list" where
  "splitSp [] = [[]]"
| "splitSp (c # cs) =
     (if c = 32 then [] # splitSp cs
      else (case splitSp cs of [] \<Rightarrow> [[c]] | t # ts \<Rightarrow> (c # t) # ts))"

text \<open>\<open>parts.join(' ')\<close>.\<close>

fun joinSp :: "jstr list \<Rightarrow> jstr" where
  "joinSp [] = []"
| "joinSp [t] = t"
| "joinSp (t # u # ts) = t @ 32 # joinSp (u # ts)"

text \<open>
  \<open>Number(x.toFixed(3))\<close>: the nearest multiple of one thousandth, the larger one on
  a tie. This is the rule of \<open>toFixed\<close> on the value it is given; the code gives it a
  double, so that a product such as \<open>0.875 * 0.9\<close>, whose exact value 0.7875 is a tie,
  is the double just below and prints as 0.787 where the exact value rounds to 0.788.
\<close>

definition toFixed3 :: "rat \<Rightarrow> rat" where
  "toFixed3 x = of_int \<lfloor>x * 1000 + 1 / 2\<rfloor> / 1000"

text \<open>
  \<open>Array.prototype.sort(cmp)\<close>, as a stable insertion sort: an element stays behind
  every earlier element that the comparator does not put after it.
\<close>

fun insortCmp :: "('a \<Rightarrow> 'a \<Rightarrow> rat) \<Rightarrow> 'a \<Rightarrow> 'a list \<Rightarrow> 'a list" where
  "insortCmp cmp x [] = [x]"
| "insortCmp cmp x (y # ys) =
     (if cmp y x \<le> 0 then y # insortCmp cmp x ys else x # y # ys)"

definition sortCmp :: "('a \<Rightarrow> 'a \<Rightarrow> rat) \<Rightarrow> 'a list \<Rightarrow> 'a list" where
  "sortCmp cmp xs = foldl (\<lambda>acc x. insortCmp cmp x acc) [] xs"

text \<open>\<open>xs.slice(0, n)\<close>; a negative \<open>n\<close> counts from the end.\<close>

definition slice0 :: "int \<Rightarrow> 'a list \<Rightarrow> 'a list" where
  "slice0 n xs = (if n < 0 then take (nat (int (length xs) + n)) xs else take (nat n) xs)"

text \<open>\<open>a > b\<close> on strings: the lexicographic order of the code units.\<close>

fun strGreater :: "jstr \<Rightarrow> jstr \<Rightarrow> bool" where
  "strGreater [] b = False"
| "strGreater (x # xs) [] = True"
| "strGreater (x # xs) (y # ys) = (x > y \<or> (x = y \<and> strGreater xs ys))"

section \<open>ProductMatcher (rule-based recommender)\<close>

text \<open>
  A catalog product as the seed catalog declares it; \<open>std_raw\<close> and \<open>std_en388\<close> are
  empty when the \<open>std\<close> object or the field is absent. \<open>init\<close> adds the fields
  \<open>_tags\<close>, \<open>_id\<close> and \<open>_cutLevel\<close>.
\<close>

record catalog_product =
  pid :: jstr
  title_fa :: jstr
  title_en :: jstr
  url :: jstr
  tags :: "jstr list"
  std_en388 :: jstr
  std_raw :: jstr
  why :: jstr

record iproduct = catalog_product +
  p_tags :: "jstr list"
  p_id :: jstr
  p_cutLevel :: "nat option"

record pquery =
  hazard :: jstr
  env :: jstr
  pref :: jstr
  industry :: jstr
  industryCode :: jstr

text \<open>
  \<open>norm\<close> of ProductMatcher.
\<close>

definition normTag :: "platform \<Rightarrow> jstr \<Rightarrow> jstr" where
  "normTag P s =
     (if s = [] then [] else replaceUnit 1603 1705 (replaceUnit 1610 1740 (lowerCase P (trim s))))"

definition isDigit :: "nat \<Rightarrow> bool" where
  "isDigit c \<longleftrightarrow> 48 \<le> c \<and> c \<le> 57"

text \<open>\<open>\w\<close> without the \<open>u\<close> flag.\<close>

definition isWordChar :: "nat \<Rightarrow> bool" where
  "isWordChar c \<longleftrightarrow> isDigit c \<or> (65 \<le> c \<and> c \<le> 90) \<or> (97 \<le> c \<and> c \<le> 122) \<or> c = 95"

text \<open>
  A pattern letter under the \<open>i\<close> flag (no \<open>u\<close> flag): it matches itself and its
  ASCII upper-case form; no code unit from 128 on is canonicalised to an ASCII one.
\<close>

definition ciUnit :: "nat \<Rightarrow> nat \<Rightarrow> bool" where
  "ciUnit p c \<longleftrightarrow> c = p \<or> (97 \<le> p \<and> p \<le> 122 \<and> c + 32 = p)"

fun startsCI :: "jstr \<Rightarrow> jstr \<Rightarrow> bool" where
  "startsCI s [] = True"
| "startsCI [] (p # ps) = False"
| "startsCI (c # cs) (p # ps) = (ciUnit p c \<and> startsCI cs ps)"

text \<open>What follows \<open>cut\<close> in \<open>/cut\s*[:\-]?\s*([0-9])/i\<close>; the result is the digit.\<close>

definition cutTail1 :: "jstr \<Rightarrow> nat option" where
  "cutTail1 s =
     (let s1 = dropWhile isWhite s;
          s2 = (case s1 of [] \<Rightarrow> s1 | c # r \<Rightarrow> if c = 58 \<or> c = 45 then r else s1);
          s3 = dropWhile isWhite s2
      in case s3 of [] \<Rightarrow> None | c # r \<Rightarrow> if isDigit c then Some (c - 48) else None)"

text \<open>What follows \<open>cut\<close> in \<open>/cut\s*([0-9])/i\<close>.\<close>

definition cutTail2 :: "jstr \<Rightarrow> nat option" where
  "cutTail2 s =
     (case dropWhile isWhite s of [] \<Rightarrow> None
      | c # r \<Rightarrow> if isDigit c then Some (c - 48) else None)"

text \<open>The leftmost match of \<open>cut\<close> followed by the given tail.\<close>

fun findCut :: "(jstr \<Rightarrow> nat option) \<Rightarrow> jstr \<Rightarrow> nat option" where
  "findCut rest [] = None"
| "findCut rest (c # cs) =
     (case (if startsCI (c # cs) (asc ''cut'') then rest (drop 3 (c # cs)) else None) of
        Some v \<Rightarrow> Some v
      | None \<Rightarrow> findCut rest cs)"

text \<open>
  \<open>/\b([0-9])\b/\<close>: the leftmost digit with no word character on either side;
  \<open>prev\<close> tells whether the code unit before the rest is a word character.
\<close>

fun findLoneDigit :: "bool \<Rightarrow> jstr \<Rightarrow> nat option" where
  "findLoneDigit prev [] = None"
| "findLoneDigit prev (c # cs) =
     (if isDigit c \<and> \<not> prev \<and> (case cs of [] \<Rightarrow> True | d # r \<Rightarrow> \<not> isWordChar d)
      then Some (c - 48)
      else findLoneDigit (isWordChar c) cs)"

definition extractCutLevel :: "platform \<Rightarrow> catalog_product \<Rightarrow> nat option" where
  "extractCutLevel P pr =
     (if asc ''high_cut'' \<in> set (tags pr) then Some 5
      else
        (let raw = lowerCase P (if std_raw pr \<noteq> [] then std_raw pr else std_en388 pr)
         in case findCut cutTail1 raw of Some v \<Rightarrow> Some v
            | None \<Rightarrow>
               (case findCut cutTail2 raw of Some v \<Rightarrow> Some v
                | None \<Rightarrow> findLoneDigit False raw)))"

text \<open>The three fields that \<open>init\<close> writes into each product of the catalog.\<close>

definition annotate :: "platform \<Rightarrow> catalog_product \<Rightarrow> iproduct" where
  "annotate P p =
     catalog_product.extend p
       \<lparr> p_tags = map (normTag P) (tags p), p_id = pid p,
         p_cutLevel = extractCutLevel P p \<rparr>"

datatype preason =
    HazardExact jstr | HazardPartial jstr
  | EnvOily | EnvWet | EnvCold | EnvExact jstr
  | PrefGrip | PrefComfort | PrefDurability | PrefCutProtection
  | PrefChemicalResistance | PrefDexterity
  | IndustryChemical | IndustryWelding | IndustryGlass | IndustryWarehouse
  | CutLevel nat

text \<open>
  The \<open>for (const t of prod._tags) { if (c t) { score += w; ...; break; } }\<close> loops
  of \<open>scoreProduct\<close>: the first tag that satisfies the condition, if any.
\<close>

definition firstTag :: "(jstr \<Rightarrow> bool) \<Rightarrow> jstr list \<Rightarrow> jstr option" where
  "firstTag c ts = (case filter c ts of [] \<Rightarrow> None | t # r \<Rightarrow> Some t)"

definition hazardPart :: "iproduct \<Rightarrow> jstr \<Rightarrow> rat \<times> preason list" where
  "hazardPart pr qHaz =
     (if qHaz = [] then (0, [])
      else if qHaz \<in> set (p_tags pr) then (1, [HazardExact qHaz])
      else (case firstTag (\<lambda>t. jsIncludes t qHaz \<or> jsIncludes qHaz t) (p_tags pr) of
              Some t \<Rightarrow> (6 / 10, [HazardPartial t])
            | None \<Rightarrow> (0, [])))"

definition envPart :: "iproduct \<Rightarrow> jstr \<Rightarrow> rat \<times> preason list" where
  "envPart pr qEnv =
     (let ts = p_tags pr in
      if qEnv = [] then (0, [])
      else if qEnv = asc ''oily'' \<or> jsIncludes qEnv (asc ''oil'')
              \<or> jsIncludes qEnv [1585, 1608, 1594, 1606] then
        (if asc ''oil'' \<in> set ts \<or> asc ''nitrile'' \<in> set ts \<or> asc ''foam'' \<in> set ts
         then (6 / 10, [EnvOily]) else (0, []))
      else if qEnv = asc ''wet'' \<or> jsIncludes qEnv [1605, 1585, 1591, 1608, 1576] then
        (if asc ''foam'' \<in> set ts \<or> asc ''latex'' \<in> set ts \<or> asc ''nitrile'' \<in> set ts
         then (45 / 100, [EnvWet]) else (0, []))
      else if qEnv = asc ''cold'' then
        (if asc ''insulated'' \<in> set ts \<or> asc ''warm'' \<in> set ts
         then (5 / 10, [EnvCold]) else (0, []))
      else (case firstTag (\<lambda>t. t = qEnv) ts of
              Some t \<Rightarrow> (4 / 10, [EnvExact qEnv])
            | None \<Rightarrow> (0, [])))"

text \<open>One \<open>if (c) { score += w; reasons.push(r); }\<close> statement.\<close>

definition rule :: "bool \<Rightarrow> rat \<Rightarrow> preason \<Rightarrow> rat \<times> preason list" where
  "rule c w r = (if c then (w, [r]) else (0, []))"

definition addParts :: "(rat \<times> preason list) list \<Rightarrow> rat \<times> preason list" where
  "addParts ps = (sum_list (map fst ps), concat (map snd ps))"

definition prefPart :: "iproduct \<Rightarrow> jstr \<Rightarrow> rat \<times> preason list" where
  "prefPart pr qPref =
     (let ts = p_tags pr in
      if qPref = [] then (0, [])
      else addParts
        [rule (jsIncludes qPref (asc ''grip'') \<and> asc ''grip'' \<in> set ts) (5 / 10) PrefGrip,
         rule (jsIncludes qPref (asc ''comfort'') \<and>
               (asc ''foam'' \<in> set ts \<or> asc ''dexterity'' \<in> set ts \<or> asc ''warm'' \<in> set ts))
              (45 / 100) PrefComfort,
         rule (jsIncludes qPref (asc ''durab'') \<and>
               (asc ''durable'' \<in> set ts \<or> asc ''reinforced'' \<in> set ts))
              (45 / 100) PrefDurability,
         rule (jsIncludes qPref (asc ''cut'') \<and>
               (asc ''cut'' \<in> set ts \<or> asc ''high_cut'' \<in> set ts))
              (9 / 10) PrefCutProtection,
         rule (jsIncludes qPref (asc ''chemical'') \<and> asc ''chemical_resistance'' \<in> set ts)
              (8 / 10) PrefChemicalResistance,
         rule (jsIncludes qPref (asc ''dexter'') \<and> asc ''dexterity'' \<in> set ts)
              (6 / 10) PrefDexterity])"

definition industryPart :: "iproduct \<Rightarrow> jstr \<Rightarrow> rat \<times> preason list" where
  "industryPart pr qIndustry =
     (let ts = p_tags pr in
      if qIndustry = [] then (0, [])
      else addParts
        [rule (jsIncludes qIndustry (asc ''chemical'') \<and>
               (asc ''nitrile'' \<in> set ts \<or> asc ''chemical_resistance'' \<in> set ts))
              (35 / 100) IndustryChemical,
         rule (jsIncludes qIndustry (asc ''welding'') \<and> asc ''hppe'' \<in> set ts \<and> asc ''cut'' \<in> set ts)
              (2 / 10) IndustryWelding,
         rule (jsIncludes qIndustry (asc ''glass'') \<and> asc ''cut'' \<in> set ts)
              (25 / 100) IndustryGlass,
         rule (jsIncludes qIndustry (asc ''warehouse'') \<and> asc ''dexterity'' \<in> set ts)
              (2 / 10) IndustryWarehouse])"

definition cutLevelPart :: "iproduct \<Rightarrow> jstr \<Rightarrow> jstr \<Rightarrow> rat \<times> preason list" where
  "cutLevelPart pr qHaz qPref =
     (if (qHaz \<noteq> [] \<and> jsIncludes qHaz (asc ''cut'')) \<or> (qPref \<noteq> [] \<and> jsIncludes qPref (asc ''cut''))
      then (case p_cutLevel pr of
              None \<Rightarrow> (0, [])
            | Some l \<Rightarrow> if l = 0 then (0, [])
                        else (min 1 (of_nat l * (12 / 100)), [CutLevel l]))
      else (0, []))"

definition scoreProduct :: "platform \<Rightarrow> iproduct \<Rightarrow> pquery \<Rightarrow> rat \<times> preason list" where
  "scoreProduct P pr query =
     (let qHaz = normTag P (hazard query);
          qEnv = normTag P (env query);
          qPref = normTag P (pref query);
          qIndustry = normTag P (if industry query \<noteq> [] then industry query
                                  else industryCode query);
          (score, reasons) =
             addParts [hazardPart pr qHaz, envPart pr qEnv, prefPart pr qPref,
                       industryPart pr qIndustry, cutLevelPart pr qHaz qPref];
          finalScore = min 1 (score + 5 / 100)
      in (toFixed3 finalScore, reasons))"

record scored =
  s_id :: jstr
  s_title_fa :: jstr
  s_title_en :: jstr
  s_url :: jstr
  s_tags :: "jstr list"
  s_std_en388 :: jstr
  s_std_raw :: jstr
  s_why :: jstr
  matchScore :: rat
  reasons :: "preason list"

definition scoreEntry :: "platform \<Rightarrow> pquery \<Rightarrow> iproduct \<Rightarrow> scored" where
  "scoreEntry P query p =
     (let s = scoreProduct P p query in
      \<lparr> s_id = p_id p, s_title_fa = title_fa p, s_title_en = title_en p, s_url = url p,
        s_tags = tags p, s_std_en388 = std_en388 p, s_std_raw = std_raw p, s_why = why p,
        matchScore = fst s, reasons = snd s \<rparr>)"

text \<open>The comparator of \<open>pickProducts\<close>, called as \<open>cmp a b\<close>.\<close>

definition pickCmp :: "scored \<Rightarrow> scored \<Rightarrow> rat" where
  "pickCmp a b =
     (if matchScore b = matchScore a
      then (if strGreater (s_title_fa b) (s_title_fa a) then 1 else - 1)
      else matchScore b - matchScore a)"

text \<open>
  \<open>(opts && opts.topN) || 6\<close>: \<open>topN\<close> is \<open>opts.topN\<close>, \<open>None\<close> when absent; a zero
  is replaced by 6 as well.
\<close>

definition effTopN :: "int option \<Rightarrow> int" where
  "effTopN topN = (case topN of None \<Rightarrow> 6 | Some n \<Rightarrow> if n = 0 then 6 else n)"

text \<open>The seed catalog of the module, as declared.\<close>

definition defaultCatalog :: "catalog_product list" where
  "defaultCatalog =
     [
      \<lparr> pid = asc ''911'',
        title_fa = [1583, 1587, 1578, 1705, 1588, 32, 1590, 1583, 32, 1576, 1585, 1588, 32,
          72, 80, 80, 69, 32, 57, 49, 49],
        title_en = [83, 105, 103, 109, 97, 32, 57, 49, 49, 32, 8212, 32, 72, 80, 80, 69, 32,
          67, 117, 116, 32, 82, 101, 115, 105, 115, 116, 97, 110, 116, 32, 71, 108, 111, 118,
          101, 115],
        url = asc ''https://sigmagloves.com/products/sigma-911-cut-resistant-work-gloves/'',
        tags = [asc ''cut'', asc ''hppe'', asc ''high_cut'', asc ''dexterity''],
        std_en388 = asc ''5 - CUT 5 (TDM high)'',
        std_raw = asc ''CUT 5'',
        why = [72, 80, 80, 69, 32, 1576, 1575, 32, 1587, 1591, 1581, 32, 1605, 1602, 1575,
          1608, 1605, 1578, 32, 1576, 1585, 1588, 32, 1576, 1575, 1604, 1575, 32, 40, 67, 85,
          84, 32, 53, 41, 46, 32, 1605, 1606, 1575, 1587, 1576, 32, 1576, 1585, 1575, 1740, 32,
          1705, 1575, 1585, 32, 1576, 1575, 32, 1587, 1591, 1608, 1581, 32, 1578, 1740, 1586,
          32, 1608, 32, 1576, 1585, 1606, 1583, 1607, 1563, 32, 1587, 1576, 1705, 32, 1608, 32,
          1576, 1575, 32, 1581, 1587, 32, 1604, 1605, 1587, 1740, 32, 1582, 1608, 1576, 46] \<rparr>,
      \<lparr> pid = asc ''921'',
        title_fa = [1583, 1587, 1578, 1705, 1588, 32, 1590, 1583, 32, 1576, 1585, 1588, 32,
          72, 80, 80, 69, 32, 57, 50, 49],
        title_en = [83, 105, 103, 109, 97, 32, 57, 50, 49, 32, 8212, 32, 72, 80, 80, 69, 32,
          67, 117, 116, 32, 82, 101, 115, 105, 115, 116, 97, 110, 116, 32, 71, 108, 111, 118,
          101, 115],
        url = asc ''https://sigmagloves.com/products/sigma-921-cut-resistant-work-gloves/'',
        tags = [asc ''cut'', asc ''hppe'', asc ''high_cut''],
        std_en388 = asc ''5 - CUT 5 (TDM high)'',
        std_raw = asc ''CUT 5'',
        why = [1606, 1587, 1582, 1607, 8204, 1575, 1740, 32, 1575, 1586, 32, 1583, 1587, 1578,
          1705, 1588, 32, 72, 80, 80, 69, 32, 1576, 1575, 32, 1605, 1602, 1575, 1608, 1605,
          1578, 32, 1576, 1585, 1588, 32, 1587, 1591, 1581, 32, 1576, 1575, 1604, 1575, 1563,
          32, 1605, 1606, 1575, 1587, 1576, 32, 1576, 1585, 1575, 1740, 32, 1587, 1575, 1586,
          1606, 1583, 1711, 1575, 1606, 32, 1602, 1591, 1593, 1575, 1578, 32, 1601, 1604, 1586,
          1740, 32, 1608, 32, 1588, 1740, 1588, 1607, 8204, 1576, 1585, 1607, 1575, 46] \<rparr>,
      \<lparr> pid = asc ''922'',
        title_fa = [1583, 1587, 1578, 1705, 1588, 32, 1590, 1583, 32, 1576, 1585, 1588, 32,
          72, 80, 80, 69, 32, 57, 50, 50],
        title_en = [83, 105, 103, 109, 97, 32, 57, 50, 50, 32, 8212, 32, 72, 80, 80, 69, 32,
          67, 117, 116, 32, 82, 101, 115, 105, 115, 116, 97, 110, 116, 32, 71, 108, 111, 118,
          101, 115],
        url = asc ''https://sigmagloves.com/products/sigma-931-cut-resistant-work-gloves/'',
        tags = [asc ''cut'', asc ''hppe''],
        std_en388 = asc ''5 - CUT 5'',
        std_raw = asc ''CUT 5'',
        why = [1605, 1606, 1575, 1587, 1576, 32, 1576, 1585, 1575, 1740, 32, 1705, 1575, 1585,
          32, 1576, 1575, 32, 1575, 1580, 1587, 1575, 1605, 32, 1576, 1585, 1606, 1583, 1607,
          1563, 32, 1578, 1593, 1575, 1583, 1604, 32, 1576, 1740, 1606, 32, 1605, 1581, 1575,
          1601, 1592, 1578, 32, 1608, 32, 1575, 1606, 1593, 1591, 1575, 1601, 46] \<rparr>,
      \<lparr> pid = asc ''412'',
        title_fa = [1583, 1587, 1578, 1705, 1588, 32, 1604, 1575, 1578, 1705, 1587, 32, 52,
          49, 50],
        title_en = [83, 105, 103, 109, 97, 32, 52, 49, 50, 32, 8212, 32, 76, 97, 116, 101,
          120, 32, 87, 111, 114, 107, 32, 71, 108, 111, 118, 101, 115],
        url = asc ''https://sigmagloves.com/products/sigma-412-latex-work-gloves/'',
        tags = [asc ''latex'', asc ''general'', asc ''grip'',
          asc ''chemical_resistance_light''],
        std_en388 = [8212],
        std_raw = asc ''EN388'',
        why = [1662, 1608, 1588, 1588, 32, 1604, 1575, 1578, 1705, 1587, 32, 1576, 1585, 1575,
          1740, 32, 1670, 1587, 1576, 1606, 1583, 1711, 1740, 32, 1608, 32, 1581, 1601, 1575,
          1592, 1578, 32, 1593, 1605, 1608, 1605, 1740, 46, 32, 1605, 1606, 1575, 1587, 1576,
          32, 1705, 1575, 1585, 1607, 1575, 1740, 32, 1587, 1576, 1705, 32, 1578, 1575, 32,
          1605, 1578, 1608, 1587, 1591, 32, 1608, 32, 1605, 1581, 1740, 1591, 8204, 1607, 1575,
          1740, 32, 1582, 1588, 1705, 32, 1740, 1575, 32, 1705, 1605, 1740, 32, 1585, 1608,
          1594, 1606, 1740, 46] \<rparr>,
      \<lparr> pid = asc ''418'',
        title_fa = [1583, 1587, 1578, 1705, 1588, 32, 1604, 1575, 1578, 1705, 1587, 32, 52,
          49, 56],
        title_en = [83, 105, 103, 109, 97, 32, 52, 49, 56, 32, 8212, 32, 76, 97, 116, 101,
          120, 32, 87, 111, 114, 107, 32, 71, 108, 111, 118, 101, 115],
        url = asc ''https://sigmagloves.com/products/sigma-418-latex-work-gloves/'',
        tags = [asc ''latex'', asc ''general'', asc ''grip''],
        std_en388 = asc ''EN388'',
        std_raw = [],
        why = [1604, 1575, 1578, 1705, 1587, 32, 1576, 1575, 32, 1670, 1606, 1711, 1588, 32,
          1582, 1608, 1576, 1563, 32, 1605, 1606, 1575, 1587, 1576, 32, 1705, 1575, 1585, 1607,
          1575, 1740, 32, 1593, 1605, 1608, 1605, 1740, 32, 1608, 32, 1587, 1575, 1582, 1578,
          1605, 1575, 1606, 1740, 32, 1587, 1576, 1705, 46] \<rparr>,
      \<lparr> pid = asc ''422'',
        title_fa = [1583, 1587, 1578, 1705, 1588, 32, 1604, 1575, 1578, 1705, 1587, 32, 43,
          52, 50, 50],
        title_en = [83, 105, 103, 109, 97, 32, 43, 52, 50, 50, 32, 8212, 32, 76, 97, 116, 101,
          120, 32, 87, 111, 114, 107, 32, 71, 108, 111, 118, 101, 115],
        url = asc ''https://sigmagloves.com/products/sigma-422-latex-work-gloves/'',
        tags = [asc ''latex'', asc ''general'', asc ''grip''],
        std_en388 = asc ''EN388'',
        std_raw = [],
        why = [1606, 1587, 1582, 1607, 8204, 1740, 32, 1602, 1608, 1740, 8204, 1578, 1585, 32,
          1604, 1575, 1578, 1705, 1587, 32, 1576, 1575, 32, 1583, 1608, 1575, 1605, 32, 1608,
          32, 1605, 1602, 1575, 1608, 1605, 1578, 32, 1605, 1606, 1575, 1587, 1576, 46] \<rparr>,
      \<lparr> pid = asc ''432'',
        title_fa = [1583, 1587, 1578, 1705, 1588, 32, 1604, 1575, 1578, 1705, 1587, 32, 52,
          51, 50],
        title_en = [83, 105, 103, 109, 97, 32, 52, 51, 50, 32, 8212, 32, 76, 97, 116, 101,
          120, 32, 84, 111, 119, 101, 108, 45, 108, 105, 110, 101, 100, 32, 40, 87, 97, 114,
          109, 41, 32, 71, 108, 111, 118, 101, 115],
        url = asc ''https://sigmagloves.com/products/sigma-432-latex-work-gloves/'',
        tags = [asc ''latex'', asc ''warm'', asc ''insulated''],
        std_en388 = asc ''EN388'',
        std_raw = [],
        why = [1570, 1587, 1578, 1585, 32, 1581, 1608, 1604, 1607, 8204, 1575, 1740, 32, 1711,
          1585, 1605, 1563, 32, 1605, 1606, 1575, 1587, 1576, 32, 1605, 1581, 1740, 1591, 8204,
          1607, 1575, 1740, 32, 1587, 1585, 1583, 32, 1608, 32, 1705, 1575, 1585, 1607, 1575,
          1740, 32, 1576, 1740, 1585, 1608, 1606, 1740, 32, 1583, 1585, 32, 1586, 1605, 1587,
          1578, 1575, 1606, 46] \<rparr>,
      \<lparr> pid = asc ''434'',
        title_fa = [1583, 1587, 1578, 1705, 1588, 32, 1604, 1575, 1578, 1705, 1587, 32, 43,
          52, 51, 52, 32, 40, 1570, 1587, 1578, 1585, 32, 1583, 1575, 1585, 41],
        title_en = [83, 105, 103, 109, 97, 32, 43, 52, 51, 52, 32, 8212, 32, 84, 111, 119,
          101, 108, 45, 108, 105, 110, 101, 100, 32, 76, 97, 116, 101, 120, 32, 71, 108, 111,
          118, 101, 115],
        url = asc ''https://sigmagloves.com/products/sigma-434-latex-work-gloves/'',
        tags = [asc ''latex'', asc ''warm'', asc ''grip''],
        std_en388 = asc ''EN388'',
        std_raw = [],
        why = [1570, 1587, 1578, 1585, 32, 1583, 1575, 1582, 1604, 1740, 32, 1711, 1585, 1605,
          32, 1608, 32, 1590, 1583, 1604, 1594, 1586, 1588, 32, 1604, 1575, 1578, 1705, 1587,
          1563, 32, 1605, 1606, 1575, 1587, 1576, 32, 1705, 1575, 1585, 32, 1583, 1585, 32,
          1587, 1585, 1605, 1575, 32, 1608, 32, 1705, 1575, 1585, 1607, 1575, 1740, 32, 1593,
          1605, 1608, 1605, 1740, 46] \<rparr>,
      \<lparr> pid = asc ''446'',
        title_fa = [1583, 1587, 1578, 1705, 1588, 32, 1588, 1740, 1575, 1585, 1583, 1575,
          1585, 32, 43, 52, 52, 54],
        title_en = [83, 105, 103, 109, 97, 32, 43, 52, 52, 54, 32, 8212, 32, 82, 105, 98, 98,
          98, 101, 100, 32, 76, 97, 116, 101, 120, 32, 71, 114, 105, 112, 32, 71, 108, 111, 118,
          101, 115],
        url = asc ''https://sigmagloves.com/products/sigma-446-latex-work-gloves/'',
        tags = [asc ''latex'', asc ''grip'', asc ''general'', asc ''durable''],
        std_en388 = asc ''2142'',
        std_raw = asc ''EN388: 2142'',
        why = [1662, 1608, 1588, 1588, 32, 1604, 1575, 1578, 1705, 1587, 32, 1588, 1740, 1575,
          1585, 1583, 1575, 1585, 1548, 32, 1605, 1606, 1575, 1587, 1576, 32, 1705, 1575, 1585,
          1607, 1575, 1740, 32, 1582, 1588, 1606, 32, 1605, 1579, 1604, 32, 1576, 1575, 1594,
          1576, 1575, 1606, 1740, 1548, 32, 1588, 1740, 1588, 1607, 8204, 1711, 1585, 1740, 32,
          1608, 32, 1587, 1575, 1582, 1578, 1605, 1575, 1606, 1740, 1563, 32, 1583, 1608, 1575,
          1605, 32, 1582, 1608, 1576, 32, 1608, 32, 1590, 1583, 32, 1604, 1594, 1586, 1588, 46] \<rparr>,
      \<lparr> pid = asc ''485'',
        title_fa = [1583, 1587, 1578, 1705, 1588, 32, 1601, 1608, 1605, 1740, 32, 43, 52, 56,
          53],
        title_en = [83, 105, 103, 109, 97, 32, 43, 52, 56, 53, 32, 8212, 32, 70, 111, 97, 109,
          32, 76, 97, 116, 101, 120, 32, 87, 111, 114, 107, 32, 71, 108, 111, 118, 101, 115],
        url = asc ''https://sigmagloves.com/products/sigma-485-latex-work-gloves/'',
        tags = [asc ''foam'', asc ''latex'', asc ''grip'', asc ''general''],
        std_en388 = asc ''2242'',
        std_raw = asc ''EN388: 2242'',
        why = [1575, 1608, 1604, 1740, 1606, 32, 1583, 1587, 1578, 1705, 1588, 32, 1601, 1608,
          1605, 1740, 32, 1576, 1575, 32, 1705, 1740, 1601, 1740, 1578, 32, 1575, 1740, 1585,
          1575, 1606, 1740, 1563, 32, 1670, 1606, 1711, 1588, 32, 1602, 1608, 1740, 32, 1608,
          32, 1575, 1606, 1593, 1591, 1575, 1601, 32, 1576, 1575, 1604, 1575, 1548, 32, 1605,
          1606, 1575, 1587, 1576, 32, 1605, 1581, 1740, 1591, 8204, 1607, 1575, 1740, 32, 1585,
          1608, 1594, 1606, 1740, 47, 1606, 1587, 1576, 1578, 1575, 1611, 32, 1605, 1585, 1591,
          1608, 1576, 46] \<rparr>,
      \<lparr> pid = asc ''342'',
        title_fa = [1583, 1587, 1578, 1705, 1588, 32, 1606, 1740, 1578, 1585, 1740, 1604, 32,
          51, 52, 50],
        title_en = [83, 105, 103, 109, 97, 32, 51, 52, 50, 32, 8212, 32, 78, 105, 116, 114,
          105, 108, 101, 32, 87, 111, 114, 107, 32, 71, 108, 111, 118, 101, 115],
        url = asc ''https://sigmagloves.com/products/sigma-486-nitrile-work-gloves/'',
        tags = [asc ''nitrile'', asc ''oil'', asc ''chemical_resistance'', asc ''puncture''],
        std_en388 = asc ''EN388'',
        std_raw = [],
        why = [1606, 1740, 1578, 1585, 1740, 1604, 32, 1576, 1585, 1575, 1740, 32, 1605, 1602,
          1575, 1608, 1605, 1578, 32, 1583, 1585, 32, 1576, 1585, 1575, 1576, 1585, 32, 1585,
          1608, 1594, 1606, 32, 1608, 32, 1576, 1585, 1582, 1740, 32, 1581, 1604, 1575, 1604,
          8204, 1607, 1575, 1563, 32, 1605, 1606, 1575, 1587, 1576, 32, 1589, 1606, 1575, 1740,
          1593, 32, 1606, 1601, 1578, 1740, 32, 1608, 32, 1705, 1575, 1585, 32, 1576, 1575, 32,
          1581, 1604, 1575, 1604, 46] \<rparr>,
      \<lparr> pid = asc ''344'',
        title_fa = [1583, 1587, 1578, 1705, 1588, 32, 1606, 1740, 1578, 1585, 1740, 1604, 32,
          43, 51, 52, 52],
        title_en = [83, 105, 103, 109, 97, 32, 43, 51, 52, 52, 32, 8212, 32, 78, 105, 116,
          114, 105, 108, 101, 32, 87, 111, 114, 107, 32, 71, 108, 111, 118, 101, 115],
        url = asc ''https://sigmagloves.com/products/sigma-344-nitrile-work-gloves/'',
        tags = [asc ''nitrile'', asc ''oil'', asc ''chemical_resistance''],
        std_en388 = asc ''EN388'',
        std_raw = [],
        why = [1606, 1587, 1582, 1607, 32, 1606, 1740, 1578, 1585, 1740, 1604, 32, 1576, 1575,
          32, 1605, 1602, 1575, 1608, 1605, 1578, 32, 1576, 1575, 1604, 1575, 32, 1583, 1585,
          32, 1576, 1585, 1575, 1576, 1585, 32, 1585, 1608, 1594, 1606, 32, 1608, 32, 1581,
          1604, 1575, 1604, 1563, 32, 1605, 1606, 1575, 1587, 1576, 32, 1605, 1581, 1740, 1591,
          8204, 1607, 1575, 1740, 32, 1606, 1601, 1578, 1740, 32, 1608, 32, 1662, 1578, 1585,
          1608, 1588, 1740, 1605, 1740, 46] \<rparr>,
      \<lparr> pid = asc ''348'',
        title_fa = [1583, 1587, 1578, 1705, 1588, 32, 1606, 1740, 1578, 1585, 1740, 1604, 32,
          43, 51, 52, 56],
        title_en = [83, 105, 103, 109, 97, 32, 57, 56, 54, 32, 47, 32, 51, 52, 56, 32, 8212,
          32, 78, 105, 116, 114, 105, 108, 101, 32, 47, 32, 67, 117, 116, 32, 65, 115, 115, 105,
          115, 116],
        url = asc ''https://sigmagloves.com/products/sigma-986-cut-resistant-work-gloves/'',
        tags = [asc ''nitrile'', asc ''puncture'', asc ''cut_resistant''],
        std_en388 = asc ''EN388'',
        std_raw = [],
        why = [1578, 1585, 1705, 1740, 1576, 32, 1606, 1740, 1578, 1585, 1740, 1604, 32, 1576,
          1575, 32, 1605, 1602, 1575, 1608, 1605, 1578, 32, 1605, 1705, 1575, 1606, 1740, 1705,
          1740, 1563, 32, 1605, 1606, 1575, 1587, 1576, 32, 1705, 1575, 1585, 1607, 1575, 1740,
          32, 1585, 1608, 1594, 1606, 1740, 32, 1705, 1607, 32, 1606, 1740, 1575, 1586, 32,
          1576, 1607, 32, 1605, 1581, 1575, 1601, 1592, 1578, 32, 1583, 1585, 32, 1576, 1585,
          1575, 1576, 1585, 32, 1587, 1608, 1585, 1575, 1582, 32, 1588, 1583, 1606, 32, 1583,
          1575, 1585, 1606, 1583, 46] \<rparr>,
      \<lparr> pid = asc ''346'',
        title_fa = [1583, 1587, 1578, 1705, 1588, 32, 1606, 1740, 1578, 1585, 1740, 1604, 32,
          51, 52, 54],
        title_en = [83, 105, 103, 109, 97, 32, 51, 52, 54, 32, 8212, 32, 78, 105, 116, 114,
          105, 108, 101, 32, 87, 111, 114, 107, 32, 71, 108, 111, 118, 101, 115, 32, 40, 82,
          101, 105, 110, 102, 111, 114, 99, 101, 100, 41],
        url = asc ''https://sigmagloves.com/products/sigma-334-nitrile-work-gloves/'',
        tags = [asc ''nitrile'', asc ''oil'', asc ''reinforced'', asc ''puncture''],
        std_en388 = asc ''EN388'',
        std_raw = [],
        why = [1578, 1602, 1608, 1740, 1578, 32, 1587, 1585, 32, 1575, 1606, 1711, 1588, 1578,
          32, 1608, 32, 1605, 1602, 1575, 1608, 1605, 1578, 32, 1583, 1585, 32, 1576, 1585,
          1575, 1576, 1585, 32, 1587, 1608, 1585, 1575, 1582, 32, 1588, 1583, 1606, 1563, 32,
          1705, 1575, 1585, 1576, 1585, 1583, 32, 1589, 1606, 1593, 1578, 1740, 32, 1587, 1606,
          1711, 1740, 1606, 46] \<rparr>,
      \<lparr> pid = asc ''332'',
        title_fa = [1583, 1587, 1578, 1705, 1588, 32, 1606, 1740, 1578, 1585, 1740, 1604, 32,
          51, 51, 50],
        title_en = [83, 105, 103, 109, 97, 32, 51, 51, 50, 32, 8212, 32, 78, 105, 116, 114,
          105, 108, 101, 32, 87, 111, 114, 107, 32, 71, 108, 111, 118, 101, 115],
        url = asc ''https://sigmagloves.com/products/sigma-332-nitrile-work-gloves/'',
        tags = [asc ''nitrile'', asc ''chemical_resistance'', asc ''oil''],
        std_en388 = asc ''EN388'',
        std_raw = [],
        why = [1605, 1606, 1575, 1587, 1576, 32, 1576, 1585, 1575, 1740, 32, 1705, 1575, 1585,
          32, 1576, 1575, 32, 1605, 1608, 1575, 1583, 32, 1606, 1601, 1578, 1740, 32, 1608, 32,
          1576, 1593, 1590, 1740, 32, 1581, 1604, 1575, 1604, 8204, 1607, 1575, 1563, 32, 1590,
          1583, 1581, 1587, 1575, 1587, 1740, 1578, 46] \<rparr>,
      \<lparr> pid = asc ''312'',
        title_fa = [1583, 1587, 1578, 1705, 1588, 32, 1606, 1740, 1578, 1585, 1740, 1604, 32,
          51, 49, 50],
        title_en = [83, 105, 103, 109, 97, 32, 51, 49, 50, 32, 8212, 32, 78, 105, 116, 114,
          105, 108, 101, 32, 87, 111, 114, 107, 32, 71, 108, 111, 118, 101, 115],
        url = asc ''https://sigmagloves.com/products/sigma-312-nitrile-work-gloves/'',
        tags = [asc ''nitrile'', asc ''oil'', asc ''durable''],
        std_en388 = asc ''EN388'',
        std_raw = [],
        why = [1583, 1587, 1578, 1705, 1588, 32, 1606, 1740, 1578, 1585, 1740, 1604, 32, 1593,
          1605, 1608, 1605, 1740, 32, 1576, 1575, 32, 1583, 1608, 1575, 1605, 32, 1582, 1608,
          1576, 1563, 32, 1705, 1575, 1585, 1576, 1585, 1583, 1607, 1575, 1740, 32, 1670, 1606,
          1583, 1605, 1606, 1592, 1608, 1585, 1607, 46] \<rparr>
     ]"


text \<open>
  The file holds two versions of the module inside one function body. The first version
  ends with \<open>return { init, pickProducts, pickProductsSynonym, getAll, _internals }\<close>
  (line 1064); the closing of its function is missing, and the second version follows in
  the same body: \<open>const defaultCatalog = [...]\<close> (line 1084), \<open>let catalog = []\<close>
  (line 1231), its functions, and a second \<open>return\<close> (line 1416). Function declarations
  are hoisted, so \<open>init\<close> and \<open>pickProducts\<close> of the returned object are the functions
  of the second version, the last ones declared under these names. The bindings of
  \<open>const\<close> and \<open>let\<close> exist in the body from its start, but stay uninitialised until
  their declaration is run; reading or assigning an uninitialised binding throws a
  \<open>ReferenceError\<close>.
\<close>

datatype pm_error = ReferenceError

text \<open>
  The two bindings that the functions of the second version close over; \<open>None\<close> is
  a binding whose declaration has not run.
\<close>

record pm_scope =
  sc_defaultCatalog :: "catalog_product list option"
  sc_catalog :: "iproduct list option"

text \<open>
  The statements of the function body that matter for the two bindings, in the order of
  the file, and their execution: a \<open>return\<close> ends it.
\<close>

datatype pm_stmt = FirstVersion | ReturnExports | DeclareDefaultCatalog | DeclareCatalog

fun runBody :: "pm_stmt list \<Rightarrow> pm_scope \<Rightarrow> pm_scope" where
  "runBody [] sc = sc"
| "runBody (ReturnExports # rest) sc = sc"
| "runBody (FirstVersion # rest) sc = runBody rest sc"
| "runBody (DeclareDefaultCatalog # rest) sc =
     runBody rest (sc \<lparr> sc_defaultCatalog := Some defaultCatalog \<rparr>)"
| "runBody (DeclareCatalog # rest) sc = runBody rest (sc \<lparr> sc_catalog := Some [] \<rparr>)"

definition moduleBody :: "pm_stmt list" where
  "moduleBody =
     [FirstVersion, ReturnExports, DeclareDefaultCatalog, DeclareCatalog, ReturnExports]"

text \<open>The bindings that the exported functions see, once the module is loaded.\<close>

definition shippedScope :: pm_scope where
  "shippedScope = runBody moduleBody \<lparr> sc_defaultCatalog = None, sc_catalog = None \<rparr>"

text \<open>
  \<open>pickProducts(query, opts)\<close> of the second version, over the bindings \<open>sc\<close>. Its
  first statement computes \<open>topN\<close>; the second reads \<open>catalog\<close>. The products of an
  initialised catalog carry the fields that \<open>init\<close> writes.
\<close>

definition pickProducts ::
  "platform \<Rightarrow> pm_scope \<Rightarrow> pquery \<Rightarrow> int option \<Rightarrow> pm_error + scored list" where
  "pickProducts P sc query topN =
     (case sc_catalog sc of
        None \<Rightarrow> Inl ReferenceError
      | Some catalog \<Rightarrow>
          (let scoredL = sortCmp pickCmp (map (scoreEntry P query) catalog)
           in Inr (slice0 (effTopN topN) (filter (\<lambda>x. matchScore x > 0) scoredL))))"

text \<open>
  What a \<open>fetch\<close> followed by \<open>json()\<close> can give: the request is rejected, the
  response is not \<open>ok\<close>, the body is not JSON, or a parsed body arrives.
\<close>

datatype 'a fetched = NetworkError | HttpStatus nat | MalformedBody | Body 'a

text \<open>The decimal digits of a natural number.\<close>

function decimal :: "nat \<Rightarrow> jstr" where
  "decimal n = (if n < 10 then [48 + n] else decimal (n div 10) @ [48 + n mod 10])"
  by pat_completeness auto
termination
  by (relation "measure id") auto

declare decimal.simps [simp del]

section \<open>Unicode-aware stripping of punctuation\<close>

definition isHigh :: "nat \<Rightarrow> bool" where
  "isHigh c \<longleftrightarrow> 55296 \<le> c \<and> c \<le> 56319"

definition isLow :: "nat \<Rightarrow> bool" where
  "isLow c \<longleftrightarrow> 56320 \<le> c \<and> c \<le> 57343"

text \<open>The code point of a surrogate pair.\<close>

definition codePoint :: "nat \<Rightarrow> nat \<Rightarrow> nat" where
  "codePoint h l = 65536 + (h - 55296) * 1024 + (l - 56320)"

text \<open>The class \<open>[\p{L}\p{N}\s]\<close>, on a code point.\<close>

definition keepLNS :: "platform \<Rightarrow> nat \<Rightarrow> bool" where
  "keepLNS P c \<longleftrightarrow> isLetter P c \<or> isNumber P c \<or> isWhite c"

text \<open>
  \<open>s.replace(/[^\p{L}\p{N}\s]/gu, ' ')\<close>. With the \<open>u\<close> flag the expression reads code
  points: a high surrogate followed by a low one is one character, every other code unit
  is a character of its own.
\<close>

fun stripPunctU :: "platform \<Rightarrow> jstr \<Rightarrow> jstr" where
  "stripPunctU P [] = []"
| "stripPunctU P [c] = [if keepLNS P c then c else 32]"
| "stripPunctU P (c # d # cs) =
     (if isHigh c \<and> isLow d then
        (if keepLNS P (codePoint c d) then c # d # stripPunctU P cs
         else 32 # stripPunctU P cs)
      else (if keepLNS P c then c else 32) # stripPunctU P (d # cs))"

text \<open>\<open>xs.filter(Boolean)\<close> on an array of strings: the empty strings go.\<close>

definition filterBoolean :: "jstr list \<Rightarrow> jstr list" where
  "filterBoolean xs = filter (\<lambda>t. t \<noteq> []) xs"

section \<open>IntentMatcher\<close>

text \<open>
  The replacement function of \<open>normalizeFa\<close> for a Persian digit \<open>d\<close>:
  \<open>String.fromCharCode(48 + '\<dots>'.charCodeAt(0) - d.charCodeAt(0))\<close>, where the
  literal is the Persian zero, code unit 1776.
\<close>

definition faDigit :: "nat \<Rightarrow> nat" where
  "faDigit d = (if 1776 \<le> d \<and> d \<le> 1785 then 48 + 1776 - d else d)"

definition normalizeFa :: "platform \<Rightarrow> jstr \<Rightarrow> jstr" where
  "normalizeFa P s =
     (if s = [] then []
      else
        (let s1 = lowerCase P (trim s);
             s2 = map faDigit (replaceUnit 1603 1705 (replaceUnit 1610 1740 s1));
             s3 = stripPunctU P s2
         in collapseWs s3))"

definition tokenSet :: "platform \<Rightarrow> jstr \<Rightarrow> jstr list" where
  "tokenSet P s = filterBoolean (splitSp (normalizeFa P s))"

text \<open>What one keyword \<open>k\<close> of the list adds to the score.\<close>

definition keywordScore :: "platform \<Rightarrow> jstr list \<Rightarrow> jstr \<Rightarrow> rat" where
  "keywordScore P textTokens k =
     (let nk = normalizeFa P k in
      if nk = [] then 0
      else
        (let parts = filterBoolean (splitSp nk) in
         if length parts > 1 then
           (if jsIncludes (joinSp textTokens) nk then 1 else 0)
         else if nk \<in> set textTokens then 1
         else if list_ex (\<lambda>tk. jsIncludes tk nk \<and> length nk \<ge> 3) textTokens then 6 / 10
         else 0))"

definition scoreForTextAgainstList :: "platform \<Rightarrow> jstr list \<Rightarrow> jstr list \<Rightarrow> rat" where
  "scoreForTextAgainstList P textTokens list = sum_list (map (keywordScore P textTokens) list)"

section \<open>IndustryIndexer (alias matcher)\<close>

text \<open>The replacement of \<open>normalize\<close> for a Persian digit: \<open>String(d.charCodeAt(0) - 1776)\<close>.\<close>

definition latinDigit :: "nat \<Rightarrow> nat" where
  "latinDigit d = (if 1776 \<le> d \<and> d \<le> 1785 then 48 + (d - 1776) else d)"

definition normalize :: "platform \<Rightarrow> jstr \<Rightarrow> jstr" where
  "normalize P s =
     (if s = [] then []
      else
        (let s1 = lowerCase P (trim s);
             s2 = replaceUnit 1603 1705 (replaceUnit 1610 1740 s1);
             s3 = map latinDigit s2;
             s4 = stripPunctU P s3
         in collapseWs s4))"

definition tokensOf :: "platform \<Rightarrow> jstr \<Rightarrow> jstr list" where
  "tokensOf P s = filterBoolean (splitSp (normalize P s))"





text \<open>What one token \<open>at\<close> of the alias adds to \<open>hitCount\<close>.\<close>

definition tokenHit :: "jstr list \<Rightarrow> jstr \<Rightarrow> rat" where
  "tokenHit textTokens atok =
     (if atok \<in> set textTokens then 1
      else if list_ex (\<lambda>tt. jsIncludes tt atok \<and> length atok \<ge> 3) textTokens then 9 / 10
      else 0)"

definition hitCount :: "jstr list \<Rightarrow> jstr list \<Rightarrow> rat" where
  "hitCount textTokens aliasTokens = sum_list (map (tokenHit textTokens) aliasTokens)"

definition tokenRatio :: "jstr list \<Rightarrow> jstr list \<Rightarrow> rat" where
  "tokenRatio textTokens aliasTokens =
     (if aliasTokens \<noteq> [] then hitCount textTokens aliasTokens / of_nat (length aliasTokens)
      else 0)"



text \<open>\<open>Array.from(new Set(xs))\<close>: the first occurrence of each element stays.\<close>

fun dedupFirst :: "'a list \<Rightarrow> 'a list \<Rightarrow> 'a list" where
  "dedupFirst seen [] = []"
| "dedupFirst seen (x # xs) =
     (if x \<in> set seen then dedupFirst seen xs else x # dedupFirst (x # seen) xs)"

text \<open>
  \<open>buildIndex(d)\<close>: the object \<open>d.industries\<close> is the list of its entries (code and
  aliases) in the order of \<open>Object.entries\<close>, and so is the index.
\<close>

definition buildIndex :: "platform \<Rightarrow> (jstr \<times> jstr list) list \<Rightarrow> (jstr \<times> jstr list) list" where
  "buildIndex P industries =
     map (\<lambda>(code, aliases). (code, dedupFirst [] (filterBoolean (map (normalize P) aliases))))
       industries"







section \<open>KnowledgeEngine\<close>

text \<open>\<open>ensureString\<close> of a value that is a string or absent (\<open>null\<close>, \<open>undefined\<close>).\<close>

definition ensureString :: "jstr option \<Rightarrow> jstr" where
  "ensureString s = (case s of None \<Rightarrow> [] | Some x \<Rightarrow> x)"

text \<open>\<open>s.replace(/[\u200B-\u200D\uFEFF]/g, '')\<close>: the zero-width characters go.\<close>

definition removeZeroWidth :: "jstr \<Rightarrow> jstr" where
  "removeZeroWidth s = filter (\<lambda>c. \<not> ((8203 \<le> c \<and> c \<le> 8205) \<or> c = 65279)) s"

definition ke_normalizeText :: "platform \<Rightarrow> jstr \<Rightarrow> jstr" where
  "ke_normalizeText P s =
     trim (collapseWs (stripPunctU P (removeZeroWidth (lowerCase P s))))"

definition ke_tokenize :: "platform \<Rightarrow> jstr \<Rightarrow> jstr list" where
  "ke_tokenize P s =
     (let t = ke_normalizeText P s in if t = [] then [] else filterBoolean (splitSp t))"

text \<open>
  One row of the table of \<open>lcsLength\<close>, laid out as the row of \<open>levenshtein\<close>:
  \<open>pd\<close> is \<open>dp[i - 1][j - 1]\<close>, \<open>pj\<close> is \<open>dp[i - 1][j]\<close> and \<open>left\<close> is
  \<open>dp[i][j - 1]\<close>.
\<close>

fun lcsRow :: "'a \<Rightarrow> 'a list \<Rightarrow> nat list \<Rightarrow> nat \<Rightarrow> nat list" where
  "lcsRow ai (bj # bs) (pd # pj # ps) left =
     (let v = (if ai = bj then pd + 1 else if pj > left then pj else left)
      in v # lcsRow ai bs (pj # ps) v)"
| "lcsRow ai bs ps left = []"

definition lcsTable :: "'a list \<Rightarrow> 'a list \<Rightarrow> nat" where
  "lcsTable a b =
     (let row0 = replicate (Suc (length b)) 0;
          rows = foldl (\<lambda>prev ai. 0 # lcsRow ai b prev 0) row0 a
      in rows ! length b)"

definition lcsLength :: "platform \<Rightarrow> jstr \<Rightarrow> jstr \<Rightarrow> nat" where
  "lcsLength P a b =
     (if length a = 0 \<or> length b = 0 then 0
      else if length a > 300 \<or> length b > 300 then
        (let ta = ke_tokenize P a; tb = ke_tokenize P b in
         if length ta = 0 \<or> length tb = 0 then 0 else lcsTable ta tb)
      else lcsTable a b)"

text \<open>\<open>new Set(xs).size\<close> and the elements of a set in insertion order.\<close>

definition tokenOverlapScore :: "platform \<Rightarrow> jstr \<Rightarrow> jstr \<Rightarrow> rat" where
  "tokenOverlapScore P a b =
     (let A = dedupFirst [] (ke_tokenize P a); B = dedupFirst [] (ke_tokenize P b) in
      if length A = 0 \<or> length B = 0 then 0
      else
        (let inter = length (filter (\<lambda>x. x \<in> set B) A);
             union = length (dedupFirst [] (A @ B))
         in of_nat inter / of_nat union))"

definition lcsRatio :: "platform \<Rightarrow> jstr \<Rightarrow> jstr \<Rightarrow> rat" where
  "lcsRatio P a b =
     (let len = lcsLength P a b;
          m = max (length a) (length b);
          maxLen = (if m = 0 then 1 else m)
      in min 1 (of_nat len / of_nat maxLen))"

text \<open>
  The expression \<open>new RegExp('\\b' + esc + '\\b', 'iu')\<close> of \<open>keywordHitScore\<close>, where
  \<open>esc\<close> is the keyword with its syntax characters escaped: the keyword itself,
  compared by case folding, between two word boundaries. With the flags \<open>iu\<close> the
  expression reads code points, and a word character is one of \<open>[A-Za-z0-9_]\<close> or a
  character folded to one.
\<close>

fun codePoints :: "jstr \<Rightarrow> nat list" where
  "codePoints [] = []"
| "codePoints [c] = [c]"
| "codePoints (c # d # cs) =
     (if isHigh c \<and> isLow d then codePoint c d # codePoints cs else c # codePoints (d # cs))"

definition isWordIU :: "platform \<Rightarrow> nat \<Rightarrow> bool" where
  "isWordIU P c \<longleftrightarrow> isWordChar c \<or> isWordChar (caseFold P c)"

text \<open>
  The pattern matched at the head of the text: the result tells whether the last
  matched character of the text is a word character, and gives the rest of the text.
\<close>

fun matchFolded :: "platform \<Rightarrow> nat list \<Rightarrow> nat list \<Rightarrow> bool \<Rightarrow> (bool \<times> nat list) option" where
  "matchFolded P [] s lastWord = Some (lastWord, s)"
| "matchFolded P (p # ps) [] lastWord = None"
| "matchFolded P (p # ps) (c # cs) lastWord =
     (if caseFold P p = caseFold P c then matchFolded P ps cs (isWordIU P c) else None)"

text \<open>
  A match that starts at some character of the text; \<open>prevWord\<close> tells whether the
  character before the head of the text is a word character.
\<close>

fun wordMatch :: "platform \<Rightarrow> nat list \<Rightarrow> bool \<Rightarrow> nat list \<Rightarrow> bool" where
  "wordMatch P pat prevWord [] = False"
| "wordMatch P pat prevWord (c # cs) =
     ((prevWord \<noteq> isWordIU P c \<and>
       (case matchFolded P pat (c # cs) False of
          None \<Rightarrow> False
        | Some (lastWord, rest) \<Rightarrow>
            lastWord \<noteq> (case rest of [] \<Rightarrow> False | d # ds \<Rightarrow> isWordIU P d)))
      \<or> wordMatch P pat (isWordIU P c) cs)"

definition keywordRegexTest :: "platform \<Rightarrow> jstr \<Rightarrow> jstr \<Rightarrow> bool" where
  "keywordRegexTest P kw txt = wordMatch P (codePoints kw) False (codePoints txt)"

text \<open>
  A JSON value as \<open>res.json()\<close> delivers it. The properties of an object are listed
  in the order in which the engine enumerates them.
\<close>

datatype json =
    JNull | JBool bool | JNum rat | JStr jstr | JArr "json list" | JObj "(jstr \<times> json) list"

fun truthy :: "json \<Rightarrow> bool" where
  "truthy JNull = False"
| "truthy (JBool b) = b"
| "truthy (JNum r) = (r \<noteq> 0)"
| "truthy (JStr s) = (s \<noteq> [])"
| "truthy (JArr xs) = True"
| "truthy (JObj ps) = True"

text \<open>\<open>String(v)\<close>; inside an array \<open>null\<close> prints as the empty string.\<close>

fun joinComma :: "jstr list \<Rightarrow> jstr" where
  "joinComma [] = []"
| "joinComma [t] = t"
| "joinComma (t # u # ts) = t @ 44 # joinComma (u # ts)"

fun jsString :: "platform \<Rightarrow> json \<Rightarrow> jstr" where
  "jsString P JNull = asc ''null''"
| "jsString P (JBool b) = (if b then asc ''true'' else asc ''false'')"
| "jsString P (JNum r) = numToString P r"
| "jsString P (JStr s) = s"
| "jsString P (JArr xs) =
     joinComma (map (\<lambda>x. if x = JNull then [] else jsString P x) xs)"
| "jsString P (JObj ps) = asc ''[object Object]''"

text \<open>A named property of \<open>Object.assign({}, it)\<close>; \<open>None\<close> is \<open>undefined\<close>.\<close>

definition getProp :: "json \<Rightarrow> jstr \<Rightarrow> json option" where
  "getProp it k = (case it of JObj ps \<Rightarrow> map_of ps k | _ \<Rightarrow> None)"

text \<open>\<open>a || b || ... \<close>: the first truthy value, if any.\<close>

fun firstTruthy :: "json option list \<Rightarrow> json option" where
  "firstTruthy [] = None"
| "firstTruthy (None # vs) = firstTruthy vs"
| "firstTruthy (Some v # vs) = (if truthy v then Some v else firstTruthy vs)"

text \<open>\<open>ensureString(a || b || ... || '')\<close>.\<close>

definition stringOr :: "platform \<Rightarrow> json option list \<Rightarrow> jstr" where
  "stringOr P vs = (case firstTruthy vs of None \<Rightarrow> [] | Some v \<Rightarrow> jsString P v)"

record kb_entry =
  e_id :: json
  e_title :: jstr
  e_snippet :: jstr
  e_url :: jstr
  e_type :: jstr
  e_keywords :: "jstr list"
  e_meta :: "json option"

text \<open>\<open>out.meta?.type\<close>.\<close>

definition metaType :: "json \<Rightarrow> json option" where
  "metaType it = (case getProp it (asc ''meta'') of Some (JObj ps) \<Rightarrow> map_of ps (asc ''type'') | _ \<Rightarrow> None)"

text \<open>The callback of \<open>_kb.map\<close> in \<open>init\<close>, for the item \<open>it\<close> at index \<open>idx\<close>.\<close>

definition normalizeEntry :: "platform \<Rightarrow> nat \<Rightarrow> json \<Rightarrow> kb_entry" where
  "normalizeEntry P idx it =
     (let title = stringOr P [getProp it (asc ''title''), getProp it (asc ''name_fa''), getProp it (asc ''name'')];
          kws = (case getProp it (asc ''keywords'') of
                   Some (JArr ks) \<Rightarrow> map (\<lambda>k. if k = JNull then [] else jsString P k) ks
                 | Some v \<Rightarrow> if truthy v then [jsString P v] else []
                 | None \<Rightarrow> [])
      in \<lparr> e_id = (case firstTruthy [getProp it (asc ''id''), getProp it (asc ''code'')] of
                    Some v \<Rightarrow> v | None \<Rightarrow> JStr (asc ''kb_'' @ decimal idx)),
           e_title = title,
           e_snippet = stringOr P [getProp it (asc ''snippet''), getProp it (asc ''description''),
                                  getProp it (asc ''desc'')],
           e_url = stringOr P [getProp it (asc ''url''), getProp it (asc ''link'')],
           e_type = stringOr P [getProp it (asc ''type''), metaType it],
           e_keywords = (if kws = [] then take 8 (ke_tokenize P title) else kws),
           e_meta = getProp it (asc ''meta'') \<rparr>)"

text \<open>
  The items \<open>init\<close> takes from the parsed body, by its shape; \<open>None\<close> when the code
  throws a \<open>TypeError\<close> (\<open>Object.values(null)\<close>, or \<open>map\<close> called on a
  \<open>knowledge\<close> value that is not an array).
\<close>

definition industryItem :: "jstr \<Rightarrow> json \<Rightarrow> json" where
  "industryItem k item =
     (case item of JObj ps \<Rightarrow> JObj (ps @ [(asc ''id'', JStr k)])
      | _ \<Rightarrow> JObj [(asc ''id'', JStr k)])"

definition kbItems :: "json \<Rightarrow> json list option" where
  "kbItems j =
     (case j of
        JArr xs \<Rightarrow> Some xs
      | JObj ps \<Rightarrow>
          (case map_of ps (asc ''items'') of
             Some (JArr xs) \<Rightarrow> Some xs
           | _ \<Rightarrow>
              (if (case map_of ps (asc ''knowledge'') of Some v \<Rightarrow> truthy v | None \<Rightarrow> False)
               then (case map_of ps (asc ''knowledge'') of Some (JArr xs) \<Rightarrow> Some xs | _ \<Rightarrow> None)
               else if (case map_of ps (asc ''industries'') of Some v \<Rightarrow> truthy v | None \<Rightarrow> False)
               then (case map_of ps (asc ''industries'') of
                       Some (JObj qs) \<Rightarrow> Some (map (\<lambda>(k, item). industryItem k item) qs)
                     | Some (JArr xs) \<Rightarrow>
                         Some (map (\<lambda>(i, item). industryItem (decimal i) item)
                                 (zip [0 ..< length xs] xs))
                     | Some (JStr s) \<Rightarrow>
                         Some (map (\<lambda>i. industryItem (decimal i) JNull) [0 ..< length s])
                     | _ \<Rightarrow> Some [])
               else Some (map snd ps)))
      | JNull \<Rightarrow> None
      | _ \<Rightarrow> Some [])"

record ke_state =
  kb :: "kb_entry list"
  indexInitialized :: bool
  intentKeywords :: "(jstr \<times> jstr list) list"
  kbPath :: jstr

datatype init_result = InitOk nat | InitEmptyPath | InitError

text \<open>
  \<open>init(kbPath)\<close>: the state before, the path, what \<open>_loadIntentKeywords\<close> leaves in
  \<open>_intentKeywords\<close>, and what the fetch of the knowledge base gives.
\<close>

definition ke_init ::
  "platform \<Rightarrow> ke_state \<Rightarrow> jstr \<Rightarrow> (jstr \<times> jstr list) list \<Rightarrow> json fetched
     \<Rightarrow> ke_state \<times> init_result" where
  "ke_init P st path intents resp =
     (let st1 = st \<lparr> kbPath := path, kb := [], indexInitialized := False,
                     intentKeywords := intents \<rparr>
      in if path = [] then (st1, InitEmptyPath)
         else
           (case (case resp of Body j \<Rightarrow> kbItems j | _ \<Rightarrow> None) of
              Some items \<Rightarrow>
                (st1 \<lparr> kb := map (\<lambda>(idx, it). normalizeEntry P idx it)
                               (zip [0 ..< length items] items),
                       indexInitialized := True \<rparr>,
                 InitOk (length items))
            | None \<Rightarrow> (st1 \<lparr> kb := [], indexInitialized := False \<rparr>, InitError)))"

datatype components = Signals rat rat rat | Fallback

record kb_result =
  r_id :: json
  r_title :: jstr
  r_snippet :: jstr
  r_url :: jstr
  r_type :: jstr
  r_score :: rat
  r_components :: components
  r_meta :: "json option"

definition keywordHitScore :: "platform \<Rightarrow> jstr \<Rightarrow> kb_entry \<Rightarrow> rat" where
  "keywordHitScore P text entry =
     (let txt = ke_normalizeText P text in
      if length (e_keywords entry) = 0 then 0
      else
        (let hits = length (filter (\<lambda>kw. kw \<noteq> [] \<and> keywordRegexTest P kw txt)
                             (e_keywords entry))
         in if hits = 0 then 0
            else min 1 (of_nat hits / of_nat (length (e_keywords entry)))))"

definition scoreCandidate :: "platform \<Rightarrow> jstr \<Rightarrow> kb_entry \<Rightarrow> rat \<times> components" where
  "scoreCandidate P text entry =
     (let a = text;
          b = (if e_title entry \<noteq> [] then e_title entry else e_snippet entry);
          tOverlap = tokenOverlapScore P a b;
          lcsR = lcsRatio P a b;
          kHit = keywordHitScore P a entry
      in (45 / 100 * tOverlap + 35 / 100 * lcsR + 20 / 100 * kHit, Signals tOverlap lcsR kHit))"

definition minScoreThreshold :: rat where
  "minScoreThreshold = 1 / 10"

definition toResult :: "kb_entry \<Rightarrow> rat \<Rightarrow> components \<Rightarrow> kb_result" where
  "toResult entry sc comps =
     \<lparr> r_id = e_id entry, r_title = e_title entry, r_snippet = e_snippet entry,
       r_url = e_url entry, r_type = e_type entry, r_score = sc, r_components = comps,
       r_meta = e_meta entry \<rparr>"

text \<open>
  The entries that pass \<open>score >= minScoreThreshold\<close>, with their result objects. The
  comparison is on the exact score; a score whose exact value is the threshold itself,
  such as \<open>0.35 * (2 / 7)\<close>, is in the code a double just below it and does not pass.
\<close>

definition scoredResults :: "platform \<Rightarrow> jstr \<Rightarrow> kb_entry list \<Rightarrow> kb_result list" where
  "scoredResults P raw entries =
     concat (map (\<lambda>entry. let sc = scoreCandidate P raw entry
                          in if fst sc \<ge> minScoreThreshold then [toResult entry (fst sc) (snd sc)]
                             else [])
               entries)"

definition fallbackResults :: "platform \<Rightarrow> jstr \<Rightarrow> kb_entry list \<Rightarrow> kb_result list" where
  "fallbackResults P raw entries =
     (let t = ke_normalizeText P raw in
      concat (map (\<lambda>entry.
                let hay = ke_normalizeText P
                            (e_title entry @ 32 # e_snippet entry @ 32 # joinSp (e_keywords entry))
                in if t \<noteq> [] \<and> jsIncludes hay t then [toResult entry (5 / 100) Fallback] else [])
              entries))"

text \<open>
  \<open>query(text, options)\<close>. The text is \<open>None\<close> for \<open>undefined\<close> or \<open>null\<close>; \<open>topN\<close>
  is \<open>options.topN\<close>; \<open>intents\<close> and \<open>resp\<close> are what the lazy \<open>init\<close> would
  load, should the query start one. The result is the state after the call and the
  list the promise resolves to.
\<close>

definition ke_query ::
  "platform \<Rightarrow> ke_state \<Rightarrow> jstr option \<Rightarrow> int option \<Rightarrow> (jstr \<times> jstr list) list \<Rightarrow> json fetched
     \<Rightarrow> ke_state \<times> kb_result list" where
  "ke_query P st text topN intents resp =
     (let n = (case topN of None \<Rightarrow> 6 | Some k \<Rightarrow> if k = 0 then 6 else k);
          raw = ensureString text
      in if raw = [] then (st, [])
         else
           (let st1 = (if \<not> indexInitialized st \<and> kbPath st \<noteq> []
                       then fst (ke_init P st (kbPath st) intents resp) else st);
                results = sortCmp (\<lambda>a b. r_score b - r_score a) (scoredResults P raw (kb st1));
                results' =
                  (if length results = 0
                   then sortCmp (\<lambda>a b. if r_score b - r_score a \<noteq> 0 then r_score b - r_score a
                                        else of_nat (length (r_title a)) - of_nat (length (r_title b)))
                          (fallbackResults P raw (kb st1))
                   else results)
            in (st1, slice0 n results')))"


text \<open>The state of the module before any call.\<close>

definition ke_initial :: ke_state where
  "ke_initial = \<lparr> kb = [], indexInitialized = False, intentKeywords = [], kbPath = [] \<rparr>"

section \<open>IndustryIndexer v3.0 (keyword index)\<close>

text \<open>
  The letter variants folded by \<open>normalizeText\<close>: Arabic yeh and kaf to the Persian
  ones, alef with hamza or madda to alef, heh with yeh above and teh marbuta to heh.
\<close>

definition foldVariant :: "nat \<Rightarrow> nat" where
  "foldVariant c =
     (if c = 1610 then 1740 else if c = 1603 then 1705
      else if c = 1571 \<or> c = 1573 \<or> c = 1570 then 1575
      else if c = 1728 \<or> c = 1577 then 1607 else c)"

text \<open>
  The class \<open>[\u0600-\u06FFa-z0-9\s\-\/]\<close> under the flag \<open>i\<close>, which adds the
  letters A to Z.
\<close>

definition keepIndexed :: "nat \<Rightarrow> bool" where
  "keepIndexed c \<longleftrightarrow>
     (1536 \<le> c \<and> c \<le> 1791) \<or> (97 \<le> c \<and> c \<le> 122) \<or> (65 \<le> c \<and> c \<le> 90) \<or>
     isDigit c \<or> isWhite c \<or> c = 45 \<or> c = 47"

definition normalizeText :: "platform \<Rightarrow> jstr \<Rightarrow> jstr" where
  "normalizeText P s =
     (let s1 = map foldVariant s;
          s2 = lowerCase P s1;
          s3 = map (\<lambda>c. if keepIndexed c then c else 32) s2;
          s4 = map (\<lambda>c. if c = 45 \<or> c = 47 \<or> c = 95 then 32 else c) s3
      in trim (collapseWs s4))"

definition tokensOf3 :: "platform \<Rightarrow> jstr \<Rightarrow> jstr list" where
  "tokensOf3 P s = filter (\<lambda>t. t \<noteq> [] \<and> length t \<ge> 2) (splitSp (normalizeText P s))"

record industry =
  ind_code :: jstr
  ind_name_fa :: jstr
  ind_name_en :: jstr
  ind_keywords :: "jstr list"

text \<open>
  The keyword index: a \<open>Map\<close> from a normalised keyword to the positions of the
  industries that declare it, both in insertion order.
\<close>

type_synonym kindex = "(jstr \<times> nat list) list"

text \<open>
  \<open>if (!keywordIndex.has(k)) keywordIndex.set(k, new Set()); keywordIndex.get(k).add(i)\<close>.
\<close>

fun addKey :: "jstr \<Rightarrow> nat \<Rightarrow> kindex \<Rightarrow> kindex" where
  "addKey k i [] = [(k, [i])]"
| "addKey k i ((k', ids) # rest) =
     (if k' = k then (k', if i \<in> set ids then ids else ids @ [i]) # rest
      else (k', ids) # addKey k i rest)"

text \<open>The body of the loop over the keywords of industry \<open>i\<close>.\<close>

definition indexKeyword :: "platform \<Rightarrow> nat \<Rightarrow> kindex \<Rightarrow> jstr \<Rightarrow> kindex" where
  "indexKeyword P i idx k =
     (let nk = normalizeText P k in
      if nk = [] then idx
      else foldl (\<lambda>ix p. if length p \<ge> 2 then addKey p i ix else ix)
             (addKey nk i idx) (filterBoolean (splitSp nk)))"

definition buildIndex3 :: "platform \<Rightarrow> industry list \<Rightarrow> kindex" where
  "buildIndex3 P inds =
     foldl (\<lambda>idx (i, ind). foldl (indexKeyword P i) idx (ind_keywords ind)) []
       (zip [0 ..< length inds] inds)"

datatype matched = PhraseIndex | PhraseIndexWeak | TokenOverlap | Substring jstr jstr

record match =
  m_code :: jstr
  m_name_fa :: jstr
  m_name_en :: jstr
  m_score :: rat
  m_matched :: matched

text \<open>\<open>m.set(idx, (m.get(idx) || 0) + w)\<close> on a \<open>Map\<close> from positions to numbers.\<close>

fun bump :: "rat \<Rightarrow> nat \<Rightarrow> (nat \<times> rat) list \<Rightarrow> (nat \<times> rat) list" where
  "bump w i [] = [(i, w)]"
| "bump w i ((j, v) # rest) =
     (if j = i then (j, v + w) # rest else (j, v) # bump w i rest)"

text \<open>Step 1: every key of the index that occurs in the text counts 1.5 for its industries.\<close>

definition foundIndustries :: "kindex \<Rightarrow> jstr \<Rightarrow> (nat \<times> rat) list" where
  "foundIndustries index txt =
     foldl (\<lambda>found (key, ids). if jsIncludes txt key then foldl (\<lambda>f i. bump (3 / 2) i f) found ids
                               else found)
       [] index"

text \<open>
  The loops \<open>if (!best || score > best.score) best = ...\<close>: the count of each industry
  divided by the number of its keywords, and the first industry with the largest quotient.
\<close>

definition bestOf :: "industry list \<Rightarrow> (nat \<times> rat) list \<Rightarrow> (nat \<times> rat) option" where
  "bestOf inds found =
     foldl (\<lambda>best (i, score).
              let q = score / of_nat (max 1 (length (ind_keywords (inds ! i))))
              in (case best of None \<Rightarrow> Some (i, q)
                  | Some (bi, bs) \<Rightarrow> if q > bs then Some (i, q) else best))
       None found"

definition mkMatch :: "industry \<Rightarrow> rat \<Rightarrow> matched \<Rightarrow> match" where
  "mkMatch ind sc how =
     \<lparr> m_code = ind_code ind, m_name_fa = ind_name_fa ind, m_name_en = ind_name_en ind, m_score = sc,
       m_matched = how \<rparr>"

text \<open>Step 2: every token of the text that is a key counts 1 for the industries of the key.\<close>

definition hitsByIdx :: "kindex \<Rightarrow> jstr list \<Rightarrow> (nat \<times> rat) list" where
  "hitsByIdx index tkns =
     foldl (\<lambda>hits t. case map_of index t of
                        None \<Rightarrow> hits
                      | Some ids \<Rightarrow> foldl (\<lambda>h i. bump 1 i h) hits ids)
       [] tkns"

text \<open>
  Step 3: the first key of at least 4 code units one of whose substrings of length 4
  occurs in the text, with the first such substring.
\<close>

definition firstSub :: "jstr \<Rightarrow> jstr \<Rightarrow> jstr option" where
  "firstSub txt key =
     (case filter (\<lambda>sub. jsIncludes txt sub)
             (map (\<lambda>i. take 4 (drop i key)) [0 ..< Suc (length key - 4)]) of
        [] \<Rightarrow> None | sub # r \<Rightarrow> Some sub)"

fun substringMatch :: "industry list \<Rightarrow> jstr \<Rightarrow> kindex \<Rightarrow> match option" where
  "substringMatch inds txt [] = None"
| "substringMatch inds txt ((key, ids) # rest) =
     (case (if length key \<ge> 4 then firstSub txt key else None) of
        Some sub \<Rightarrow> Some (mkMatch (inds ! hd ids) (18 / 100) (Substring key sub))
      | None \<Rightarrow> substringMatch inds txt rest)"

text \<open>
  \<open>bestMatch(raw, opts)\<close> over the industries and their index; \<open>raw\<close> is \<open>None\<close>
  for \<open>undefined\<close> or \<open>null\<close>, \<open>threshold\<close> is \<open>opts.threshold\<close> when it is a
  number. The result \<open>None\<close> is \<open>null\<close>.
\<close>

definition bestMatch3 ::
  "platform \<Rightarrow> industry list \<Rightarrow> kindex \<Rightarrow> jstr option \<Rightarrow> rat option \<Rightarrow> match option" where
  "bestMatch3 P inds index raw thresholdOpt =
     (let threshold = (case thresholdOpt of None \<Rightarrow> 25 / 100 | Some t \<Rightarrow> t);
          txt = (case raw of None \<Rightarrow> [] | Some s \<Rightarrow> normalizeText P s)
      in if txt = [] then None
         else
           (let best1 = bestOf inds (foundIndustries index txt) in
            case (case best1 of
                    None \<Rightarrow> None
                  | Some (bi, bs) \<Rightarrow>
                      if bs \<ge> 1 / 2 then Some (mkMatch (inds ! bi) 1 PhraseIndex)
                      else if bs \<ge> threshold * 2
                      then Some (mkMatch (inds ! bi) (min (9 / 10) bs) PhraseIndexWeak)
                      else None) of
              Some m \<Rightarrow> Some m
            | None \<Rightarrow>
               (case (case bestOf inds (hitsByIdx index (tokensOf3 P txt)) of
                        None \<Rightarrow> None
                      | Some (bi, bs) \<Rightarrow>
                          if bs \<ge> threshold then Some (mkMatch (inds ! bi) bs TokenOverlap)
                          else None) of
                  Some m \<Rightarrow> Some m
                | None \<Rightarrow> substringMatch inds txt index)))"

text \<open>
  The object given to \<open>addIndustry\<close>: \<open>o_code\<close> is empty when \<open>obj.code\<close> is absent
  or empty, \<open>o_keywords\<close> is \<open>None\<close> when \<open>obj.keywords\<close> is not an array, and the
  names are empty when absent.
\<close>

record industry_obj =
  o_code :: jstr
  o_name_fa :: jstr
  o_name_en :: jstr
  o_keywords :: "jstr list option"

datatype add_error = InvalidIndustryObject

text \<open>
  \<open>addIndustry(obj)\<close>: the industries after the call, or the error thrown; the index is
  rebuilt from the new list.
\<close>

definition addIndustry :: "industry list \<Rightarrow> industry_obj \<Rightarrow> add_error + industry list" where
  "addIndustry inds obj =
     (case o_keywords obj of
        None \<Rightarrow> Inl InvalidIndustryObject
      | Some ks \<Rightarrow>
          if o_code obj = [] then Inl InvalidIndustryObject
          else Inr (inds @
                 [\<lparr> ind_code = o_code obj,
                    ind_name_fa = (if o_name_fa obj \<noteq> [] then o_name_fa obj else o_code obj),
                    ind_name_en = (if o_name_en obj \<noteq> [] then o_name_en obj else o_code obj),
                    ind_keywords = ks \<rparr>]))"

text \<open>The industries the module declares.\<close>

definition INDUSTRIES :: "industry list" where
  "INDUSTRIES =
     [
      \<lparr> ind_code = asc ''welding'',
        ind_name_fa = [1580, 1608, 1588, 1705, 1575, 1585, 1740],
        ind_name_en = asc ''Welding'',
        ind_keywords = [[1580, 1608, 1588, 1705, 1575, 1585, 1740], [1580, 1608, 1588, 1705, 1575,
          1585], [1580, 1608, 1588], asc ''weld'', asc ''welding'', asc ''arc welding'',
          asc ''mig'', asc ''tig'', [1587, 1575, 1582, 1578, 32, 1580, 1608, 1588]] \<rparr>,
      \<lparr> ind_code = asc ''machining'',
        ind_name_fa = [1578, 1585, 1575, 1588, 1705, 1575, 1585, 1740, 47, 1605, 1575, 1588, 1740,
          1606, 8204, 1705, 1575, 1585, 1740],
        ind_name_en = asc ''Machining'',
        ind_keywords = [[1578, 1585, 1575, 1588, 1705, 1575, 1585, 1740], [1578, 1585, 1575, 1588,
          1705, 1575, 1585], [1605, 1575, 1588, 1740, 1606, 1705, 1575, 1585, 1740], [1605,
          1575, 1588, 1740, 1606, 32, 1705, 1575, 1585], asc ''lathe'', asc ''turning'',
          asc ''milling'', asc ''cnc'', asc ''cnc operator'', [1601, 1585, 1586, 1705, 1575,
          1585, 1740], [1601, 1585, 1586, 1705, 1575, 1585]] \<rparr>,
      \<lparr> ind_code = asc ''grinding'',
        ind_name_fa = [1587, 1606, 1711, 8204, 1586, 1606, 1740, 47, 1587, 1606, 1576, 1575, 1583,
          1607, 8204, 1705, 1575, 1585, 1740],
        ind_name_en = asc ''Grinding / Abrasive work'',
        ind_keywords = [[1587, 1606, 1711, 32, 1586, 1606, 1740], [1587, 1606, 1711, 8204, 1586,
          1606, 1740], [1587, 1606, 1711, 32, 1586, 1583, 1606], [1587, 1606, 1711, 32, 1587,
          1575, 1576], asc ''sanding'', asc ''grinder'', asc ''grinding'', asc ''abrasive''] \<rparr>,
      \<lparr> ind_code = asc ''sheetmetal'',
        ind_name_fa = [1608, 1585, 1602, 8204, 1705, 1575, 1585, 1740, 47, 1601, 1575, 1576, 1585,
          1740, 1705, 1740, 1588, 1606],
        ind_name_en = asc ''Sheet Metal / Fabrication'',
        ind_keywords = [[1608, 1585, 1602, 32, 1705, 1575, 1585, 1740], [1608, 1585, 1602, 8204,
          1705, 1575, 1585], [1608, 1585, 1602, 1705, 1575, 1585, 1740], asc ''sheet metal'',
          asc ''fabrication'', asc ''press brake'', [1576, 1585, 1588, 32, 1608, 1585, 1602],
          [1576, 1585, 1588, 32, 1604, 1740, 1586, 1585]] \<rparr>,
      \<lparr> ind_code = asc ''foundry'',
        ind_name_fa = [1585, 1740, 1582, 1578, 1607, 8204, 1711, 1585, 1740],
        ind_name_en = asc ''Foundry / Casting'',
        ind_keywords = [[1585, 1740, 1582, 1578, 1607, 32, 1711, 1585, 1740], [1585, 1740, 1582,
          1578, 1607, 8204, 1711, 1585, 1740], asc ''foundry'', asc ''casting'', [1705, 1608,
          1585, 1607], [1605, 1575, 1578, 1585, 1740, 1587], asc ''mold'', asc ''smelting''] \<rparr>,
      \<lparr> ind_code = asc ''blacksmith'',
        ind_name_fa = [1570, 1607, 1606, 1711, 1585, 1740, 47, 1601, 1608, 1585, 1580],
        ind_name_en = asc ''Blacksmith / Forging'',
        ind_keywords = [[1570, 1607, 1606, 1711, 1585, 1740], [1601, 1608, 1585, 1580],
          asc ''blacksmith'', asc ''forge'', asc ''smithing'', [1601, 1604, 1586, 1705, 1575,
          1585, 1740, 32, 1587, 1606, 1578, 1740]] \<rparr>,
      \<lparr> ind_code = asc ''metalfabrication'',
        ind_name_fa = [1578, 1608, 1604, 1740, 1583, 32, 1602, 1591, 1593, 1575, 1578, 32, 1601,
          1604, 1586, 1740],
        ind_name_en = asc ''Metal Fabrication'',
        ind_keywords = [[1601, 1604, 1586, 1705, 1575, 1585, 1740], [1602, 1591, 1593, 1607, 32,
          1587, 1575, 1586, 1740], asc ''metal fabrication'', asc ''fabricator'',
          asc ''welding fabrication''] \<rparr>,
      \<lparr> ind_code = asc ''glasswork'',
        ind_name_fa = [1588, 1740, 1588, 1607, 8204, 1711, 1585, 1740, 47, 1588, 1740, 1588, 1607,
          8204, 1576, 1585, 1740],
        ind_name_en = asc ''Glasswork / Glazing'',
        ind_keywords = [[1588, 1740, 1588, 1607, 32, 1711, 1585, 1740], [1588, 1740, 1588, 1607,
          8204, 1711, 1585, 1740], [1588, 1740, 1588, 1607, 32, 1576, 1585, 1740], [1588, 1740,
          1588, 1607, 8204, 1576, 1585, 1740], asc ''glazier'', asc ''glassworker'',
          asc ''glass cutting'', [1588, 1740, 1588, 1607, 32, 1705, 1575, 1585]] \<rparr>,
      \<lparr> ind_code = asc ''stonecut'',
        ind_name_fa = [1587, 1606, 1711, 8204, 1576, 1585, 1740, 47, 1576, 1585, 1588, 32, 1587,
          1606, 1711],
        ind_name_en = asc ''Stone Cutting / Masonry'',
        ind_keywords = [[1587, 1606, 1711, 32, 1576, 1585, 1740], [1587, 1606, 1711, 8204, 1576,
          1585, 1740], [1587, 1606, 1711, 1576, 1585, 1740], asc ''stone cutting'',
          asc ''stonemason'', [1587, 1606, 1711, 32, 1705, 1575, 1585], asc ''marble cutting'',
          asc ''granite''] \<rparr>,
      \<lparr> ind_code = asc ''tiler'',
        ind_name_fa = [1705, 1575, 1588, 1740, 8204, 1705, 1575, 1585, 1740, 47, 1587, 1585, 1575,
          1605, 1740, 1705],
        ind_name_en = asc ''Tiler / Ceramic'',
        ind_keywords = [[1705, 1575, 1588, 1740, 32, 1705, 1575, 1585], [1705, 1575, 1588, 1740,
          8204, 1705, 1575, 1585, 1740], asc ''tiler'', asc ''tile'', asc ''ceramic'',
          asc ''grouting'', [1587, 1585, 1575, 1605, 1740, 1705, 32, 1705, 1575, 1585]] \<rparr>,
      \<lparr> ind_code = asc ''carpentry'',
        ind_name_fa = [1606, 1580, 1575, 1585, 1740, 47, 1670, 1608, 1576],
        ind_name_en = asc ''Carpentry / Woodwork'',
        ind_keywords = [[1606, 1580, 1575, 1585], [1606, 1580, 1575, 1585, 1740], [1670, 1608,
          1576, 32, 1705, 1575, 1585, 1740], asc ''carpentry'', asc ''woodwork'',
          asc ''cabinet maker'', asc ''furniture maker''] \<rparr>,
      \<lparr> ind_code = asc ''furniture'',
        ind_name_fa = [1578, 1608, 1604, 1740, 1583, 32, 1605, 1576, 1604, 47, 1670, 1585, 1605,
          32, 1608, 32, 1601, 1608, 1605],
        ind_name_en = asc ''Furniture / Upholstery'',
        ind_keywords = [[1605, 1576, 1604, 1605, 1575, 1606], asc ''upholstery'',
          asc ''foam cutting'', asc ''furniture maker'', asc ''sofa maker'', [1583, 1608, 1582,
          1578, 32, 1605, 1576, 1604, 1605, 1575, 1606]] \<rparr>,
      \<lparr> ind_code = asc ''woodworking'',
        ind_name_fa = [1662, 1585, 1583, 1575, 1586, 1588, 32, 1670, 1608, 1576, 47, 1705, 1575,
          1585, 1711, 1575, 1607],
        ind_name_en = asc ''Woodworking / Joinery'',
        ind_keywords = [[1705, 1575, 1585, 1711, 1575, 1607, 32, 1670, 1608, 1576],
          asc ''joinery'', asc ''joiner'', asc ''woodworking'', [1662, 1575, 1585, 1705, 1578],
          [1662, 1575, 1585, 1705, 1578, 32, 1705, 1575, 1585]] \<rparr>,
      \<lparr> ind_code = asc ''construction'',
        ind_name_fa = [1587, 1575, 1582, 1578, 1605, 1575, 1606, 47, 1593, 1605, 1585, 1575, 1606,
          1740],
        ind_name_en = asc ''Construction'',
        ind_keywords = [[1587, 1575, 1582, 1578, 1605, 1575, 1606], [1576, 1606, 1575, 1740,
          1740], [1593, 1605, 1585, 1575, 1606], [1705, 1575, 1585, 1711, 1585, 32, 1587, 1575,
          1582, 1578, 1605, 1575, 1606, 1740], asc ''construction'', asc ''builder'',
          asc ''concrete'', [1575, 1580, 1585, 32, 1705, 1575, 1585]] \<rparr>,
      \<lparr> ind_code = asc ''concrete'',
        ind_name_fa = [1576, 1578, 1606, 8204, 1585, 1740, 1586, 1740, 47, 1602, 1575, 1604, 1576,
          8204, 1576, 1606, 1583, 1740],
        ind_name_en = asc ''Concrete / Formwork'',
        ind_keywords = [[1576, 1578, 1606, 32, 1585, 1740, 1586, 1740], [1602, 1575, 1604, 1576,
          32, 1576, 1606, 1583, 1740], asc ''concrete'', asc ''formwork'', [1576, 1578, 1606,
          32, 1705, 1575, 1585]] \<rparr>,
      \<lparr> ind_code = asc ''roofer'',
        ind_name_fa = [1588, 1740, 1585, 1608, 1575, 1606, 1740, 47, 1576, 1575, 1605],
        ind_name_en = asc ''Roofer'',
        ind_keywords = [[1588, 1740, 1585, 1608, 1575, 1606, 1740], asc ''roof'', asc ''roofer'',
          asc ''roofing'', [1606, 1589, 1575, 1576, 32, 1587, 1602, 1601]] \<rparr>,
      \<lparr> ind_code = asc ''scaffolding'',
        ind_name_fa = [1583, 1575, 1585, 1576, 1587, 1578, 47, 1575, 1740, 1605, 1606, 8204, 1587,
          1575, 1586, 1740, 32, 1575, 1585, 1578, 1601, 1575, 1593],
        ind_name_en = asc ''Scaffolding / Heights'',
        ind_keywords = [[1583, 1575, 1585, 1576, 1587, 1578], asc ''scaffold'',
          asc ''scaffolder'', [1575, 1585, 1578, 1601, 1575, 1593], asc ''rope access'', [1606,
          1589, 1575, 1576, 32, 1583, 1575, 1585, 1576, 1587, 1578]] \<rparr>,
      \<lparr> ind_code = asc ''plasterer'',
        ind_name_fa = [1711, 1670, 8204, 1705, 1575, 1585, 1740, 47, 1606, 1602, 1575, 1588, 1740,
          32, 1583, 1575, 1582, 1604, 1740],
        ind_name_en = asc ''Plasterer / Interior finishing'',
        ind_keywords = [[1711, 1670, 32, 1705, 1575, 1585], [1711, 1670, 1705, 1575, 1585, 1740],
          asc ''plasterer'', asc ''drywall'', [1578, 1616, 1585, 1616, 1608, 1705, 1587]] \<rparr>,
      \<lparr> ind_code = asc ''mechanic'',
        ind_name_fa = [1605, 1705, 1575, 1606, 1740, 1705, 47, 1578, 1593, 1605, 1740, 1585, 1575,
          1578, 32, 1582, 1608, 1583, 1585, 1608],
        ind_name_en = asc ''Mechanic / Automotive'',
        ind_keywords = [[1605, 1705, 1575, 1606, 1740, 1705], [1578, 1593, 1605, 1740, 1585, 1705,
          1575, 1585], [1582, 1608, 1583, 1585, 1608], asc ''auto mechanic'', asc ''garage'',
          asc ''car repair'', [1605, 1705, 1575, 1606, 1740, 1705, 32, 1582, 1608, 1583, 1585,
          1608]] \<rparr>,
      \<lparr> ind_code = asc ''heavy'',
        ind_name_fa = [1575, 1662, 1585, 1575, 1578, 1608, 1585, 32, 1605, 1575, 1588, 1740, 1606,
          8204, 1570, 1604, 1575, 1578, 32, 1587, 1606, 1711, 1740, 1606],
        ind_name_en = asc ''Heavy Equipment Operator'',
        ind_keywords = [[1576, 1740, 1604, 32, 1605, 1705, 1575, 1606, 1740, 1705, 1740], [1604,
          1608, 1583, 1585], asc ''crane operator'', [1575, 1662, 1585, 1575, 1578, 1608, 1585,
          32, 1576, 1740, 1604], asc ''excavator'', asc ''crane''] \<rparr>,
      \<lparr> ind_code = asc ''crane'',
        ind_name_fa = [1580, 1585, 1579, 1602, 1740, 1604, 8204, 1705, 1575, 1585, 47, 1585, 1575,
          1705, 1740, 1606, 1711],
        ind_name_en = asc ''Crane / Rigger'',
        ind_keywords = [[1580, 1585, 1579, 1602, 1740, 1604], asc ''crane'', asc ''rigger'',
          [1576, 1575, 1585, 1576, 1585, 1583, 1575, 1585, 1740], asc ''crane operator'',
          asc ''rigging''] \<rparr>,
      \<lparr> ind_code = asc ''forklift'',
        ind_name_fa = [1604, 1740, 1601, 1578, 1585, 1575, 1705, 8204, 1583, 1575, 1585, 47, 1575,
          1606, 1576, 1575, 1585],
        ind_name_en = asc ''Forklift Operator'',
        ind_keywords = [[1604, 1740, 1601, 1578, 1585, 1575, 1705], asc ''forklift'', [1662, 1575,
          1604, 1578], asc ''pallet jack'', [1575, 1606, 1576, 1575, 1585, 1583, 1575, 1585],
          asc ''forklift operator''] \<rparr>,
      \<lparr> ind_code = asc ''oilgas'',
        ind_name_fa = [1606, 1601, 1578, 32, 1608, 32, 1711, 1575, 1586, 47, 1662, 1575, 1604,
          1575, 1740, 1588],
        ind_name_en = asc ''Oil & Gas / Refinery'',
        ind_keywords = [[1606, 1601, 1578], [1711, 1575, 1586], [1581, 1601, 1575, 1585, 1740],
          [1662, 1575, 1604, 1575, 1740, 1588, 1711, 1575, 1607], asc ''oilfield'',
          asc ''offshore'', asc ''refinery'', asc ''rig worker''] \<rparr>,
      \<lparr> ind_code = asc ''mining'',
        ind_name_fa = [1605, 1593, 1583, 1606, 47, 1575, 1587, 1578, 1582, 1585, 1575, 1580],
        ind_name_en = asc ''Mining / Quarry'',
        ind_keywords = [[1605, 1593, 1583, 1606], [1605, 1593, 1583, 1606, 1705, 1575, 1585,
          1740], asc ''quarry'', asc ''mine'', asc ''excavation'', asc ''mining operator''] \<rparr>,
      \<lparr> ind_code = asc ''powerplant'',
        ind_name_fa = [1606, 1740, 1585, 1608, 1711, 1575, 1607, 47, 1578, 1589, 1601, 1740, 1607],
        ind_name_en = asc ''Power Plant / Utilities'',
        ind_keywords = [[1606, 1740, 1585, 1608, 1711, 1575, 1607], asc ''power plant'',
          asc ''turbine'', asc ''boiler'', asc ''utility'', asc ''power station''] \<rparr>,
      \<lparr> ind_code = asc ''chemical'',
        ind_name_fa = [1588, 1740, 1605, 1740, 1575, 1740, 1740, 47, 1662, 1575, 1604, 1575, 1740,
          1588, 47, 1570, 1586, 1605, 1575, 1740, 1588, 1711, 1575, 1607],
        ind_name_en = asc ''Chemical / Laboratory'',
        ind_keywords = [[1588, 1740, 1605, 1740, 1575, 1740, 1740], [1575, 1587, 1740, 1583],
          [1581, 1604, 1575, 1604], asc ''chemical'', asc ''lab'', asc ''chemist'',
          asc ''process plant'', [1601, 1585, 1570, 1740, 1606, 1583]] \<rparr>,
      \<lparr> ind_code = asc ''pharma'',
        ind_name_fa = [1583, 1575, 1585, 1608, 1587, 1575, 1586, 1740],
        ind_name_en = asc ''Pharmaceutical'',
        ind_keywords = [[1583, 1575, 1585, 1608, 1587, 1575, 1586, 1740], asc ''pharma'',
          asc ''pharmaceutical'', asc ''drug manufacturing'', asc ''clean room''] \<rparr>,
      \<lparr> ind_code = asc ''labtech'',
        ind_name_fa = [1578, 1705, 1606, 1587, 1740, 1606, 32, 1570, 1586, 1605, 1575, 1740, 1588,
          1711, 1575, 1607],
        ind_name_en = asc ''Lab Technician'',
        ind_keywords = [[1578, 1705, 1606, 1587, 1740, 1606, 32, 1570, 1586, 1605, 1575, 1740,
          1588, 1711, 1575, 1607], asc ''lab tech'', asc ''lab technician'',
          asc ''sample analysis''] \<rparr>,
      \<lparr> ind_code = asc ''food'',
        ind_name_fa = [1589, 1606, 1575, 1740, 1593, 32, 1594, 1584, 1575, 1740, 1740, 47, 1570,
          1588, 1662, 1586, 1740],
        ind_name_en = asc ''Food Industry / Kitchen'',
        ind_keywords = [[1585, 1587, 1578, 1608, 1585, 1575, 1606], [1570, 1588, 1662, 1586],
          [1570, 1588, 1662, 1586, 1740], asc ''food processing'', asc ''butcher'', [1705, 1588,
          1578, 1575, 1585, 1711, 1575, 1607], asc ''chef'', asc ''bakery'', [1606, 1575, 1606,
          1608, 1575, 1740, 1740], asc ''baker''] \<rparr>,
      \<lparr> ind_code = asc ''agriculture'',
        ind_name_fa = [1705, 1588, 1575, 1608, 1585, 1586, 1740, 47, 1576, 1575, 1594, 1576, 1575,
          1606, 1740],
        ind_name_en = asc ''Agriculture / Gardening'',
        ind_keywords = [[1705, 1588, 1575, 1608, 1585, 1586, 1740], [1576, 1575, 1594, 1576, 1575,
          1606, 1740], [1705, 1588, 1575, 1608, 1585, 1586], asc ''agriculture'',
          asc ''farmer'', asc ''gardener'', asc ''tractor'', asc ''orchard''] \<rparr>,
      \<lparr> ind_code = asc ''poultry'',
        ind_name_fa = [1605, 1585, 1594, 1583, 1575, 1585, 1740, 47, 1583, 1575, 1605, 1583, 1575,
          1585, 1740],
        ind_name_en = asc ''Poultry / Farming'',
        ind_keywords = [[1605, 1585, 1594, 1583, 1575, 1585, 1740], [1583, 1575, 1605, 1583, 1575,
          1585, 1740], asc ''poultry'', asc ''livestock'', asc ''farmer'', asc ''animal farm''] \<rparr>,
      \<lparr> ind_code = asc ''textile'',
        ind_name_fa = [1606, 1587, 1575, 1580, 1740, 47, 1583, 1608, 1582, 1578, 47, 1662, 1608,
          1588, 1575, 1705],
        ind_name_en = asc ''Textile / Garment'',
        ind_keywords = [[1606, 1587, 1575, 1580, 1740], [1582, 1740, 1575, 1591], [1583, 1608,
          1582, 1578], asc ''garment'', asc ''textile'', asc ''sewing'', asc ''tailor'', [1670,
          1585, 1605]] \<rparr>,
      \<lparr> ind_code = asc ''leather'',
        ind_name_fa = [1670, 1585, 1605, 47, 1705, 1601, 1588],
        ind_name_en = asc ''Leather / Shoe making'',
        ind_keywords = [[1670, 1585, 1605], [1705, 1601, 1588, 32, 1587, 1575, 1586, 1740],
          asc ''leather'', asc ''cobbler'', asc ''shoe maker''] \<rparr>,
      \<lparr> ind_code = asc ''electronics'',
        ind_name_fa = [1575, 1604, 1705, 1578, 1585, 1608, 1606, 1740, 1705, 47, 1605, 1608, 1606,
          1578, 1575, 1688, 32, 1576, 1585, 1583],
        ind_name_en = asc ''Electronics Manufacturing'',
        ind_keywords = [[1575, 1604, 1705, 1578, 1585, 1608, 1606, 1740, 1705], asc ''pcb'',
          asc ''smd'', asc ''soldering'', asc ''electronics assembly'', asc ''assembly line'',
          asc ''solderer'', [1578, 1585, 1575, 1588, 1607]] \<rparr>,
      \<lparr> ind_code = asc ''electrical'',
        ind_name_fa = [1576, 1585, 1602, 47, 1606, 1589, 1576, 47, 1578, 1575, 1576, 1604, 1608],
        ind_name_en = asc ''Electrical / Electrician'',
        ind_keywords = [[1576, 1585, 1602, 1705, 1575, 1585], [1576, 1585, 1602],
          asc ''electrician'', asc ''wiring'', asc ''switchgear'', [1578, 1575, 1576, 1604,
          1608, 32, 1576, 1585, 1602], asc ''electrical maintenance''] \<rparr>,
      \<lparr> ind_code = asc ''printing'',
        ind_name_fa = [1670, 1575, 1662, 47, 1576, 1587, 1578, 1607, 8204, 1576, 1606, 1583, 1740],
        ind_name_en = asc ''Printing / Packaging'',
        ind_keywords = [[1670, 1575, 1662, 1582, 1575, 1606, 1607], [1670, 1575, 1662],
          asc ''printing press'', asc ''packaging'', asc ''labels'', asc ''palletizing''] \<rparr>,
      \<lparr> ind_code = asc ''logistics'',
        ind_name_fa = [1604, 1580, 1587, 1578, 1740, 1705, 47, 1581, 1605, 1604, 32, 1608, 32,
          1606, 1602, 1604],
        ind_name_en = asc ''Logistics / Transport'',
        ind_keywords = [[1604, 1580, 1587, 1578, 1740, 1705], [1581, 1605, 1604, 32, 1608, 32,
          1606, 1602, 1604], asc ''logistics'', asc ''courier'', asc ''delivery'',
          asc ''driver'', asc ''truck driver'', [1578, 1585, 1575, 1606, 1586, 1740, 1578]] \<rparr>,
      \<lparr> ind_code = asc ''healthcare'',
        ind_name_fa = [1583, 1585, 1605, 1575, 1606, 47, 1576, 1740, 1605, 1575, 1585, 1587, 1578,
          1575, 1606],
        ind_name_en = asc ''Healthcare / Medical'',
        ind_keywords = [[1576, 1740, 1605, 1575, 1585, 1587, 1578, 1575, 1606], [1662, 1585, 1587,
          1578, 1575, 1585], [1583, 1705, 1578, 1585], asc ''clinic'', asc ''nurse'',
          asc ''medical'', asc ''physician'', asc ''surgeon'', asc ''healthcare''] \<rparr>,
      \<lparr> ind_code = asc ''dental'',
        ind_name_fa = [1583, 1606, 1583, 1575, 1606, 8204, 1662, 1586, 1588, 1705, 1740],
        ind_name_en = asc ''Dental'',
        ind_keywords = [[1583, 1606, 1583, 1575, 1606, 1662, 1586, 1588, 1705], [1583, 1606, 1583,
          1575, 1606, 32, 1662, 1586, 1588, 1705, 1740], asc ''dental'', asc ''dentist'',
          asc ''orthodontist'', asc ''dental hygienist''] \<rparr>,
      \<lparr> ind_code = asc ''safety'',
        ind_name_fa = [1575, 1740, 1605, 1606, 1740, 47, 72, 83, 69, 47, 1576, 1575, 1586, 1585,
          1587, 1740],
        ind_name_en = asc ''Safety / HSE / Inspection'',
        ind_keywords = [[1575, 1740, 1605, 1606, 1740], asc ''hse'', asc ''safety officer'',
          asc ''inspector'', asc ''safety inspection'', asc ''pallet safety''] \<rparr>,
      \<lparr> ind_code = asc ''quality'',
        ind_name_fa = [1705, 1606, 1578, 1585, 1604, 32, 1705, 1740, 1601, 1740, 1578, 47, 81, 67],
        ind_name_en = asc ''Quality Control / QC'',
        ind_keywords = [[1705, 1606, 1578, 1585, 1604, 32, 1705, 1740, 1601, 1740, 1578],
          asc ''qc'', asc ''qa'', asc ''inspection'', asc ''quality control'', [1578, 1587,
          1578, 32, 1705, 1740, 1601, 1740, 1578]] \<rparr>,
      \<lparr> ind_code = asc ''janitorial'',
        ind_name_fa = [1606, 1592, 1575, 1601, 1578, 47, 1582, 1583, 1605, 1575, 1578],
        ind_name_en = asc ''Janitorial / Cleaning'',
        ind_keywords = [[1606, 1592, 1575, 1601, 1578], [1606, 1592, 1575, 1601, 1578, 1670,
          1740], asc ''cleaning'', asc ''janitor'', asc ''maid'', asc ''housekeeping'', [1662,
          1575, 1705, 1587, 1575, 1586, 1740]] \<rparr>,
      \<lparr> ind_code = asc ''grounds'',
        ind_name_fa = [1606, 1711, 1607, 1583, 1575, 1585, 1740, 32, 1601, 1590, 1575, 1740, 32,
          1587, 1576, 1586, 47, 1581, 1740, 1575, 1591],
        ind_name_en = asc ''Groundskeeping / Landscaping'',
        ind_keywords = [[1601, 1590, 1575, 1740, 32, 1587, 1576, 1586], [1576, 1575, 1594, 1576,
          1575, 1606, 1740], asc ''landscaping'', asc ''gardener'', asc ''groundskeeper'',
          [1670, 1605, 1606, 32, 1705, 1575, 1585, 1740]] \<rparr>,
      \<lparr> ind_code = asc ''jewelry'',
        ind_name_fa = [1591, 1604, 1575, 47, 1580, 1608, 1575, 1607, 1585, 1587, 1575, 1586, 1740],
        ind_name_en = asc ''Jewelry / Goldsmith'',
        ind_keywords = [[1591, 1604, 1575, 32, 1587, 1575, 1586, 1740], [1580, 1608, 1575, 1607,
          1585, 1587, 1575, 1586], asc ''goldsmith'', asc ''bench jeweler'',
          asc ''jewelry making''] \<rparr>,
      \<lparr> ind_code = asc ''watchmaking'',
        ind_name_fa = [1587, 1575, 1593, 1578, 8204, 1587, 1575, 1586, 1740, 47, 1585, 1740, 1586,
          1705, 1575, 1585],
        ind_name_en = asc ''Watchmaking / Precision'',
        ind_keywords = [[1587, 1575, 1593, 1578, 32, 1587, 1575, 1586, 1740], [1587, 1575, 1593,
          1578, 8204, 1587, 1575, 1586], asc ''watchmaker'', asc ''precision work'',
          asc ''micromechanics''] \<rparr>,
      \<lparr> ind_code = asc ''glassblowing'',
        ind_name_fa = [1583, 1605, 1588, 32, 1588, 1740, 1588, 1607, 47, 1607, 1606, 1585, 1740],
        ind_name_en = asc ''Glassblowing / Studio'',
        ind_keywords = [[1583, 1605, 1588, 32, 1588, 1740, 1588, 1607], asc ''glassblowing'',
          asc ''blown glass'', asc ''studio glass'', asc ''glass artist''] \<rparr>,
      \<lparr> ind_code = asc ''ceramics'',
        ind_name_fa = [1587, 1585, 1575, 1605, 1740, 1705, 47, 1705, 1608, 1586, 1607, 8204, 1711,
          1585, 1740],
        ind_name_en = asc ''Ceramics / Pottery'',
        ind_keywords = [[1587, 1585, 1575, 1605, 1740, 1705], [1705, 1608, 1586, 1607, 32, 1711,
          1585, 1740], asc ''pottery'', asc ''ceramicist'', asc ''kiln'', asc ''clay work''] \<rparr>,
      \<lparr> ind_code = asc ''printing_textile'',
        ind_name_fa = [1670, 1575, 1662, 32, 1662, 1575, 1585, 1670, 1607, 47, 1604, 1576, 1575,
          1587],
        ind_name_en = asc ''Textile Printing'',
        ind_keywords = [[1670, 1575, 1662, 32, 1662, 1575, 1585, 1670, 1607], asc ''sublimation'',
          asc ''screen printing'', asc ''tshirt printing'', asc ''textile print''] \<rparr>,
      \<lparr> ind_code = asc ''assembly'',
        ind_name_fa = [1582, 1591, 32, 1605, 1608, 1606, 1578, 1575, 1688, 47, 1576, 1587, 1578,
          1607, 8204, 1576, 1606, 1583, 1740],
        ind_name_en = asc ''Assembly Line / Packaging'',
        ind_keywords = [[1605, 1608, 1606, 1578, 1575, 1688], asc ''assembly line'',
          asc ''packaging'', asc ''packager'', asc ''line worker'', asc ''assembly''] \<rparr>,
      \<lparr> ind_code = asc ''toy'',
        ind_name_fa = [1578, 1608, 1604, 1740, 1583, 32, 1575, 1587, 1576, 1575, 1576, 8204, 1576,
          1575, 1586, 1740, 47, 1705, 1608, 1670, 1705, 8204, 1587, 1575, 1586, 1740],
        ind_name_en = asc ''Toy / Small Parts Manufacturing'',
        ind_keywords = [[1575, 1587, 1576, 1575, 1576, 32, 1576, 1575, 1586, 1740],
          asc ''toy maker'', asc ''small parts'', asc ''injection molding'', asc ''molding''] \<rparr>,
      \<lparr> ind_code = asc ''maritime'',
        ind_name_fa = [1583, 1585, 1740, 1575, 1606, 1608, 1585, 1583, 1740, 47, 1575, 1587, 1705,
          1604, 1607, 47, 1705, 1588, 1578, 1740],
        ind_name_en = asc ''Maritime / Shipyard'',
        ind_keywords = [[1705, 1588, 1578, 1740], [1583, 1585, 1740, 1575, 1606, 1608, 1585, 1583,
          1740], asc ''shipyard'', asc ''sailor'', asc ''deckhand'', asc ''marine'',
          asc ''boat maintenance''] \<rparr>,
      \<lparr> ind_code = asc ''aviation'',
        ind_name_fa = [1607, 1608, 1575, 1606, 1608, 1585, 1583, 1740, 47, 1601, 1585, 1608, 1583,
          1711, 1575, 1607],
        ind_name_en = asc ''Aviation / Aircraft Maintenance'',
        ind_keywords = [[1607, 1608, 1575, 1662, 1740, 1605, 1575], asc ''aviation'',
          asc ''aircraft maintenance'', asc ''aerospace'', asc ''airline'', asc ''ground crew''] \<rparr>,
      \<lparr> ind_code = asc ''retail'',
        ind_name_fa = [1601, 1585, 1608, 1588, 1711, 1575, 1607, 47, 1582, 1585, 1583, 1607, 8204,
          1601, 1585, 1608, 1588, 1740],
        ind_name_en = asc ''Retail / Sales'',
        ind_keywords = [[1601, 1585, 1608, 1588, 1606, 1583, 1607], [1601, 1585, 1608, 1588, 1711,
          1575, 1607], asc ''retail'', asc ''cashier'', asc ''store clerk'',
          asc ''shop assistant''] \<rparr>,
      \<lparr> ind_code = asc ''office'',
        ind_name_fa = [1583, 1601, 1578, 1585, 47, 1575, 1583, 1575, 1585, 1740],
        ind_name_en = asc ''Office / Administrative'',
        ind_keywords = [[1583, 1601, 1578, 1585], [1575, 1583, 1575, 1585, 1740], asc ''office'',
          asc ''clerk'', asc ''administrative'', asc ''secretary''] \<rparr>,
      \<lparr> ind_code = asc ''it'',
        ind_name_fa = [1601, 1606, 1575, 1608, 1585, 1740, 32, 1575, 1591, 1604, 1575, 1593, 1575,
          1578, 47, 73, 84],
        ind_name_en = asc ''IT / Software'',
        ind_keywords = [[1705, 1575, 1605, 1662, 1740, 1608, 1578, 1585], asc ''it'',
          asc ''software developer'', asc ''programmer'', asc ''devops'', asc ''network admin''] \<rparr>,
      \<lparr> ind_code = asc ''photography'',
        ind_name_fa = [1593, 1705, 1575, 1587, 1740, 47, 1575, 1587, 1578, 1608, 1583, 1740, 1608],
        ind_name_en = asc ''Photography / Studio'',
        ind_keywords = [[1593, 1705, 1575, 1587], [1593, 1705, 1575, 1587, 1740],
          asc ''photographer'', asc ''photo studio'', asc ''camera''] \<rparr>,
      \<lparr> ind_code = asc ''event'',
        ind_name_fa = [1585, 1608, 1740, 1583, 1575, 1583, 47, 1575, 1580, 1585, 1575],
        ind_name_en = asc ''Event / Stage'',
        ind_keywords = [[1585, 1608, 1740, 1583, 1575, 1583], asc ''event staff'',
          asc ''stagehand'', asc ''sound engineer'', asc ''lighting tech''] \<rparr>,
      \<lparr> ind_code = asc ''waste'',
        ind_name_fa = [1662, 1587, 1605, 1575, 1606, 1583, 47, 1576, 1575, 1586, 1740, 1575, 1601,
          1578],
        ind_name_en = asc ''Waste Management / Recycling'',
        ind_keywords = [[1586, 1576, 1575, 1604, 1607], [1662, 1587, 1605, 1575, 1606, 1583],
          asc ''recycling'', asc ''waste management'', asc ''garbage collector''] \<rparr>,
      \<lparr> ind_code = asc ''education'',
        ind_name_fa = [1570, 1605, 1608, 1586, 1588, 47, 1605, 1583, 1585, 1587, 1607],
        ind_name_en = asc ''Education / School'',
        ind_keywords = [[1605, 1583, 1585, 1587, 1607], [1605, 1593, 1604, 1605], asc ''teacher'',
          asc ''education'', asc ''instructor'', asc ''tutor''] \<rparr>,
      \<lparr> ind_code = asc ''insulation'',
        ind_name_fa = [1593, 1575, 1740, 1602, 8204, 1705, 1575, 1585, 1740, 47, 1575, 1740, 1586,
          1608, 1604, 1575, 1587, 1740, 1608, 1606],
        ind_name_en = asc ''Insulation / Thermal'',
        ind_keywords = [[1593, 1575, 1740, 1602, 32, 1705, 1575, 1585, 1740], asc ''insulation'',
          asc ''thermal insulation'', asc ''pipe insulation''] \<rparr>,
      \<lparr> ind_code = asc ''painter_industrial'',
        ind_name_fa = [1585, 1606, 1711, 8204, 1705, 1575, 1585, 1740, 32, 1589, 1606, 1593, 1578,
          1740, 47, 1662, 1608, 1588, 1588],
        ind_name_en = asc ''Industrial Painting / Coating'',
        ind_keywords = [[1585, 1606, 1711, 32, 1705, 1575, 1585, 1740, 32, 1589, 1606, 1593, 1578,
          1740], asc ''coating'', asc ''spray painter'', asc ''industrial painter'',
          asc ''powder coating''] \<rparr>,
      \<lparr> ind_code = asc ''boilermaker'',
        ind_name_fa = [1583, 1740, 1711, 8204, 1587, 1575, 1586, 47, 1662, 1585, 1587, 8204, 1608,
          1585, 1705],
        ind_name_en = asc ''Boilermaker / Pressure Vessel'',
        ind_keywords = [[1583, 1740, 1711, 32, 1587, 1575, 1586], asc ''boilermaker'',
          asc ''pressure vessel'', asc ''weld pressure''] \<rparr>,
      \<lparr> ind_code = asc ''stonecarver'',
        ind_name_fa = [1581, 1580, 1575, 1585, 47, 1605, 1606, 1576, 1578, 8204, 1705, 1575, 1585,
          1740, 32, 1587, 1606, 1711],
        ind_name_en = asc ''Stone Carver / Sculptor'',
        ind_keywords = [[1581, 1580, 1575, 1585], [1605, 1606, 1576, 1578, 32, 1705, 1575, 1585,
          1740], asc ''stone carving'', asc ''sculptor'', [1587, 1606, 1711, 32, 1578, 1585,
          1575, 1588, 1740]] \<rparr>,
      \<lparr> ind_code = asc ''safetygear'',
        ind_name_fa = [1578, 1608, 1604, 1740, 1583, 32, 1578, 1580, 1607, 1740, 1586, 1575, 1578,
          32, 1575, 1740, 1605, 1606, 1740],
        ind_name_en = asc ''Safety Equipment Manufacturing'',
        ind_keywords = [[1578, 1608, 1604, 1740, 1583, 32, 1575, 1740, 1605, 1606, 1740],
          asc ''ppe manufacturing'', asc ''glove factory'', asc ''safety products''] \<rparr>,
      \<lparr> ind_code = asc ''general'',
        ind_name_fa = [1593, 1605, 1608, 1605, 1740, 47, 1705, 1575, 1585, 1711, 1585, 32, 1587,
          1575, 1583, 1607],
        ind_name_en = asc ''General / Labor'',
        ind_keywords = [[1705, 1575, 1585, 1711, 1585, 32, 1587, 1575, 1583, 1607], [1593, 1605,
          1608, 1605, 1740], asc ''helper'', asc ''general labor'', asc ''worker'', [1705, 1575,
          1585, 1711, 1585, 1740]] \<rparr>
     ]"


section \<open>Notions used in the proofs\<close>






text \<open>
  A string whose white space is collapsed: every white-space code unit is a space, and
  no two of them are adjacent.
\<close>

fun collapsed :: "jstr \<Rightarrow> bool" where
  "collapsed [] = True"
| "collapsed [c] = (isWhite c \<longrightarrow> c = 32)"
| "collapsed (c # d # cs) = ((isWhite c \<longrightarrow> c = 32 \<and> \<not> isWhite d) \<and> collapsed (d # cs))"

definition noSurrogates :: "jstr \<Rightarrow> bool" where
  "noSurrogates s \<longleftrightarrow> (\<forall>c \<in> set s. \<not> isHigh c \<and> \<not> isLow c)"

text \<open>A string of Eastern Arabic-Indic (Persian) digits.\<close>

definition persianDigits :: "jstr \<Rightarrow> bool" where
  "persianDigits s \<longleftrightarrow> (\<forall>c \<in> set s. 1776 \<le> c \<and> c \<le> 1785)"

text \<open>
  The digits of a string, in their order: the code units that are an ASCII digit or an
  Eastern Arabic-Indic (Persian) digit.
\<close>

definition digitUnit :: "nat \<Rightarrow> bool" where
  "digitUnit c \<longleftrightarrow> (48 \<le> c \<and> c \<le> 57) \<or> (1776 \<le> c \<and> c \<le> 1785)"

definition digitsOf :: "jstr \<Rightarrow> jstr" where
  "digitsOf s = filter digitUnit s"

text \<open>
  What digit folding asks of the platform: \<open>toLowerCase\<close> neither adds, removes nor
  changes a digit, and the digits are in \<open>\p{N}\<close>.
\<close>

definition digitPlatform :: "platform \<Rightarrow> bool" where
  "digitPlatform P \<longleftrightarrow>
     (\<forall>x. digitsOf (toLowerCase P x) = digitsOf x) \<and> (\<forall>d. digitUnit d \<longrightarrow> isNumber P d)"

text \<open>
  What the idempotence of the normalisers asks of the platform: a set \<open>S\<close> of code
  units on whose strings \<open>toLowerCase\<close> is the identity. It holds the space and no
  surrogate, none of the letter variants that the normalisers fold, and with a Persian
  digit it holds what the normalisers put in its place. On an actual platform the code
  units of the Basic Multilingual Plane that \<open>toLowerCase\<close> leaves alone, without the
  surrogates and the folded letter variants, are such a set.
\<close>

definition stableUnits :: "platform \<Rightarrow> nat set \<Rightarrow> bool" where
  "stableUnits P S \<longleftrightarrow>
     32 \<in> S
     \<and> (\<forall>c \<in> S. \<not> isHigh c \<and> \<not> isLow c \<and> foldVariant c = c \<and> faDigit c \<in> S \<and> latinDigit c \<in> S)
     \<and> (\<forall>t. set t \<subseteq> S \<longrightarrow> toLowerCase P t = t)"

section \<open>A reference platform for evaluating examples\<close>

text \<open>
  The platform functions restricted to text of the Basic Latin and Arabic blocks, where
  \<open>toLowerCase\<close> and case folding change only the letters A to Z, and the letters and
  digits are the ones listed. Numbers are printed for the non-negative integers.
\<close>

definition asciiLower :: "nat \<Rightarrow> nat" where
  "asciiLower c = (if 65 \<le> c \<and> c \<le> 90 then c + 32 else c)"

definition refLetter :: "nat \<Rightarrow> bool" where
  "refLetter c \<longleftrightarrow>
     (65 \<le> c \<and> c \<le> 90) \<or> (97 \<le> c \<and> c \<le> 122) \<or>
     (1568 \<le> c \<and> c \<le> 1610) \<or> (1646 \<le> c \<and> c \<le> 1647) \<or>
     (1649 \<le> c \<and> c \<le> 1747) \<or> c = 1749 \<or> (1765 \<le> c \<and> c \<le> 1766) \<or>
     (1774 \<le> c \<and> c \<le> 1775) \<or> (1786 \<le> c \<and> c \<le> 1788) \<or> c = 1791"

definition refNumber :: "nat \<Rightarrow> bool" where
  "refNumber c \<longleftrightarrow>
     (48 \<le> c \<and> c \<le> 57) \<or> (1632 \<le> c \<and> c \<le> 1641) \<or> (1776 \<le> c \<and> c \<le> 1785)"

definition refPlatform :: platform where
  "refPlatform =
     \<lparr> toLowerCase = map asciiLower, isLetter = refLetter, isNumber = refNumber,
       numToString = (\<lambda>r. decimal (nat \<lfloor>r\<rfloor>)), caseFold = asciiLower \<rparr>"

text \<open>The stable code units of the reference platform.\<close>

definition refStable :: "nat set" where
  "refStable = {c. \<not> (65 \<le> c \<and> c \<le> 90) \<and> \<not> isHigh c \<and> \<not> isLow c \<and> foldVariant c = c}"

section \<open>Evaluation on the reference platform\<close>

lemmas platform_eval =
  lowerCase_def refPlatform_def asciiLower_def refLetter_def refNumber_def keepLNS_def
  isWhite_def isHigh_def isLow_def isDigit_def isWordChar_def isWordIU_def asc_def trim_def
  collapseWs_def filterBoolean_def replaceUnit_def removeZeroWidth_def ensureString_def
  foldVariant_def keepIndexed_def

lemma asc_eq_iff: "asc a = asc b \<longleftrightarrow> a = b"
proof -
  have "inj (of_char :: char \<Rightarrow> nat)" by (rule inj_of_char)
  then show ?thesis unfolding asc_def by (simp add: inj_map_eq_map)
qed

lemma asc_Nil_iff: "asc a = [] \<longleftrightarrow> a = []"
  by (simp add: asc_def)

section \<open>Properties of ProductMatcher\<close>

lemma set_insortCmp: "set (insortCmp cmp x ys) = insert x (set ys)"
  by (induction ys) auto
lemma length_insortCmp: "length (insortCmp cmp x ys) = Suc (length ys)"
  by (induction ys) auto
lemma foldl_insort_set: "set (foldl (\<lambda>acc x. insortCmp cmp x acc) a xs) = set a \<union> set xs"
  by (induction xs arbitrary: a) (auto simp: set_insortCmp)
lemma foldl_insort_length: "length (foldl (\<lambda>acc x. insortCmp cmp x acc) a xs) = length a + length xs"
  by (induction xs arbitrary: a) (auto simp: length_insortCmp)
lemma set_sortCmp: "set (sortCmp cmp xs) = set xs"
  by (simp add: sortCmp_def foldl_insort_set)
lemma length_sortCmp: "length (sortCmp cmp xs) = length xs"
  by (simp add: sortCmp_def foldl_insort_length)

lemma toFixed3_ge: "5 / 100 \<le> x \<Longrightarrow> 5 / 100 \<le> toFixed3 x"
proof -
  assume h: "5 / 100 \<le> x"
  have "(50::rat) \<le> x * 1000 + 1 / 2" using h by simp
  then have "(50::int) \<le> \<lfloor>x * 1000 + 1 / 2\<rfloor>" by (simp add: le_floor_iff)
  then have "(50::rat) \<le> of_int \<lfloor>x * 1000 + 1 / 2\<rfloor>" by linarith
  then show ?thesis by (simp add: toFixed3_def)
qed

lemma rule_nonneg: "0 \<le> w \<Longrightarrow> 0 \<le> fst (rule c w r)"
  by (simp add: rule_def)
lemma addParts_nonneg: "(\<forall>p \<in> set ps. 0 \<le> fst p) \<Longrightarrow> 0 \<le> fst (addParts ps)"
  by (induction ps) (auto simp: addParts_def)
lemma hazardPart_nonneg: "0 \<le> fst (hazardPart p q)"
  by (simp add: hazardPart_def split: option.splits)
lemma envPart_nonneg: "0 \<le> fst (envPart p q)"
  by (simp add: envPart_def Let_def split: option.splits)
lemma prefPart_nonneg: "0 \<le> fst (prefPart p q)"
  by (simp add: prefPart_def Let_def addParts_def rule_def)
lemma industryPart_nonneg: "0 \<le> fst (industryPart p q)"
  by (simp add: industryPart_def Let_def addParts_def rule_def)
lemma cutLevelPart_nonneg: "0 \<le> fst (cutLevelPart p q q')"
  by (simp add: cutLevelPart_def split: option.splits)

lemma scoreProduct_baseline: "5 / 100 \<le> fst (scoreProduct P p q)"
proof -
  let ?parts = "[hazardPart p (normTag P (hazard q)), envPart p (normTag P (env q)),
     prefPart p (normTag P (pref q)),
     industryPart p (normTag P (if industry q \<noteq> [] then industry q else industryCode q)),
     cutLevelPart p (normTag P (hazard q)) (normTag P (pref q))]"
  have "0 \<le> fst (addParts ?parts)"
    by (rule addParts_nonneg)
       (simp add: hazardPart_nonneg envPart_nonneg prefPart_nonneg industryPart_nonneg
          cutLevelPart_nonneg)
  then have "5 / 100 \<le> min 1 (fst (addParts ?parts) + 5 / 100)" by simp
  then have "5 / 100 \<le> toFixed3 (min 1 (fst (addParts ?parts) + 5 / 100))"
    by (rule toFixed3_ge)
  then show ?thesis
    by (simp add: scoreProduct_def Let_def split_beta)
qed

text \<open>
  Over bindings in which \<open>catalog\<close> is initialised, every product scores at least the
  unconditional baseline 0.05, so for a positive \<open>topN\<close> (6 when \<open>opts.topN\<close> is
  absent or zero) \<open>pickProducts\<close> returns exactly \<open>min topN (catalog size)\<close> products,
  each with a score of at least 0.05.
\<close>

lemma pickProducts_initialised:
  assumes "0 < effTopN topN" and "sc_catalog sc = Some catalog"
  shows "\<exists>picks. pickProducts P sc query topN = Inr picks
       \<and> length picks = min (nat (effTopN topN)) (length catalog)
       \<and> (\<forall>x \<in> set picks. 5 / 100 \<le> matchScore x)"
proof -
  let ?sc = "sortCmp pickCmp (map (scoreEntry P query) catalog)"
  have all: "\<forall>x \<in> set ?sc. 5 / 100 \<le> matchScore x"
  proof
    fix x assume "x \<in> set ?sc"
    then obtain p where "x = scoreEntry P query p" by (auto simp: set_sortCmp)
    then have "matchScore x = fst (scoreProduct P p query)" by (simp add: scoreEntry_def Let_def)
    then show "5 / 100 \<le> matchScore x" using scoreProduct_baseline [of P p query] by simp
  qed
  then have "\<forall>x \<in> set ?sc. 0 < matchScore x" by fastforce
  then have flt: "filter (\<lambda>x. matchScore x > 0) ?sc = ?sc" by simp
  have eq: "pickProducts P sc query topN = Inr (take (nat (effTopN topN)) ?sc)"
    using assms flt by (simp add: pickProducts_def Let_def slice0_def)
  have len: "length (take (nat (effTopN topN)) ?sc) = min (nat (effTopN topN)) (length catalog)"
    by (simp add: length_sortCmp min.commute)
  have sc: "\<forall>x \<in> set (take (nat (effTopN topN)) ?sc). 5 / 100 \<le> matchScore x"
    using all by (meson in_set_takeD)
  show ?thesis using eq len sc by blast
qed

text \<open>
  C10 at the call that the file documents,
  \<open>ProductMatcher.pickProducts({ hazard: 'cut', env: 'oily', pref: 'grip' }, { topN: 6 })\<close>,
  and at every other one. When the module is loaded, the first \<open>return\<close> has ended the
  function body before the declarations of \<open>defaultCatalog\<close> and \<open>catalog\<close>: both
  bindings are uninitialised, and \<open>pickProducts\<close> throws a \<open>ReferenceError\<close> where it
  reads \<open>catalog\<close>, whatever the query and \<open>topN\<close> are. No product is returned.
\<close>

theorem pickProducts_shipped:
  "shippedScope = \<lparr> sc_defaultCatalog = None, sc_catalog = None \<rparr>
   \<and> pickProducts P shippedScope query topN = Inl ReferenceError
   \<and> pickProducts refPlatform shippedScope
        \<lparr> hazard = asc ''cut'', env = asc ''oily'', pref = asc ''grip'', industry = [],
          industryCode = [] \<rparr> (Some 6) = Inl ReferenceError"
  by (simp add: shippedScope_def moduleBody_def pickProducts_def)

section \<open>Properties of IndustryIndexer\<close>































lemma tokenHit_range: "0 \<le> tokenHit tts t \<and> tokenHit tts t \<le> 1"
  by (simp add: tokenHit_def)

lemma hitCount_range: "0 \<le> hitCount tts ats \<and> hitCount tts ats \<le> of_nat (length ats)"
proof (induction ats)
  case Nil
  then show ?case by (simp add: hitCount_def)
next
  case (Cons t ats)
  then show ?case using tokenHit_range [of tts t] by (simp add: hitCount_def)
qed

lemma tokenRatio_range: "0 \<le> tokenRatio tts ats \<and> tokenRatio tts ats \<le> 1"
proof (cases "ats = []")
  case True
  then show ?thesis by (simp add: tokenRatio_def)
next
  case False
  then have "(0::rat) < of_nat (length ats)" by simp
  with hitCount_range [of tts ats] False show ?thesis
    by (simp add: tokenRatio_def divide_le_eq)
qed



















section \<open>Properties of the token-overlap signals\<close>

lemma keywordScore_range: "0 \<le> keywordScore P tts k \<and> keywordScore P tts k \<le> 1"
  by (simp add: keywordScore_def Let_def)

lemma scoreForText_range:
  "0 \<le> scoreForTextAgainstList P tts ks \<and> scoreForTextAgainstList P tts ks \<le> of_nat (length ks)"
proof (induction ks)
  case Nil
  then show ?case by (simp add: scoreForTextAgainstList_def)
next
  case (Cons k ks)
  then show ?case using keywordScore_range [of P tts k]
    by (simp add: scoreForTextAgainstList_def)
qed

text \<open>
  C5, as the code has it. In \<open>scoreAgainstAlias\<close> an alias token that is a token of
  the text counts 1, otherwise an alias token of at least 3 code units that occurs
  inside a token of the text counts 0.9, and any other alias token counts 0 (also one
  that contains a token of the text); the sum divided by the number of alias tokens is in
  [0, 1]. In \<open>scoreForTextAgainstList\<close> of IntentMatcher a one-token keyword counts 1
  when it is a token of the text and 0.6 when, being at least 3 code units long, it occurs
  inside one; the counts are added over the list and not divided, so the sum is between
  0 and the length of the list.
\<close>

theorem token_overlap_signal:
  "tokenHit textTokens atok =
     (if atok \<in> set textTokens then 1
      else if (\<exists>tt \<in> set textTokens. jsIncludes tt atok) \<and> 3 \<le> length atok then 9 / 10
      else 0)
   \<and> tokenRatio textTokens aliasTokens
       = (if aliasTokens = [] then 0
          else (\<Sum>t \<leftarrow> aliasTokens. tokenHit textTokens t) / of_nat (length aliasTokens))
   \<and> 0 \<le> tokenRatio textTokens aliasTokens \<and> tokenRatio textTokens aliasTokens \<le> 1
   \<and> (normalizeFa P k \<noteq> [] \<and> length (filterBoolean (splitSp (normalizeFa P k))) \<le> 1 \<longrightarrow>
        keywordScore P textTokens k =
          (if normalizeFa P k \<in> set textTokens then 1
           else if (\<exists>tk \<in> set textTokens. jsIncludes tk (normalizeFa P k))
                   \<and> 3 \<le> length (normalizeFa P k) then 6 / 10
           else 0))
   \<and> scoreForTextAgainstList P textTokens list = (\<Sum>k \<leftarrow> list. keywordScore P textTokens k)
   \<and> 0 \<le> scoreForTextAgainstList P textTokens list
   \<and> scoreForTextAgainstList P textTokens list \<le> of_nat (length list)"
proof -
  have a: "tokenHit textTokens atok =
     (if atok \<in> set textTokens then 1
      else if (\<exists>tt \<in> set textTokens. jsIncludes tt atok) \<and> 3 \<le> length atok then 9 / 10
      else 0)"
    by (simp add: tokenHit_def list_ex_iff)
  have b: "tokenRatio textTokens aliasTokens
       = (if aliasTokens = [] then 0
          else (\<Sum>t \<leftarrow> aliasTokens. tokenHit textTokens t) / of_nat (length aliasTokens))"
    by (simp add: tokenRatio_def hitCount_def)
  have c: "normalizeFa P k \<noteq> [] \<and> length (filterBoolean (splitSp (normalizeFa P k))) \<le> 1 \<longrightarrow>
        keywordScore P textTokens k =
          (if normalizeFa P k \<in> set textTokens then 1
           else if (\<exists>tk \<in> set textTokens. jsIncludes tk (normalizeFa P k))
                   \<and> 3 \<le> length (normalizeFa P k) then 6 / 10
           else 0)"
    by (simp add: keywordScore_def Let_def list_ex_iff)
  have d: "scoreForTextAgainstList P textTokens list = (\<Sum>k \<leftarrow> list. keywordScore P textTokens k)"
    by (simp add: scoreForTextAgainstList_def)
  show ?thesis
    using a b c d tokenRatio_range [of textTokens aliasTokens]
      scoreForText_range [of P textTokens list]
    by blast
qed

lemma normalizeFa_glove: "normalizeFa refPlatform (asc ''glove'') = asc ''glove''"
  by (simp add: normalizeFa_def faDigit_def platform_eval)

text \<open>
  C5 as stated fails: a token of the text inside a longer alias token counts 0 in
  \<open>scoreAgainstAlias\<close>, a keyword inside a token of the text counts 0.6 in
  \<open>scoreForTextAgainstList\<close>, and that sum is not normalised.
\<close>

theorem token_overlap_counterexample:
  "jsIncludes (asc ''welding'') (asc ''weld'') \<and> 3 \<le> length (asc ''weld'')
   \<and> tokenHit [asc ''weld''] (asc ''welding'') = 0
   \<and> jsIncludes (asc ''gloves'') (asc ''glove'') \<and> 3 \<le> length (asc ''glove'')
   \<and> scoreForTextAgainstList refPlatform [asc ''gloves''] [asc ''glove''] = 6 / 10
   \<and> scoreForTextAgainstList refPlatform [asc ''cut'', asc ''gloves''] [asc ''cut'', asc ''gloves''] = 2"
  by (simp add: tokenHit_def scoreForTextAgainstList_def keywordScore_def normalizeFa_def
      faDigit_def platform_eval)

theorem token_overlap_signal_witness:
  "tokenHit [asc ''welding''] (asc ''weld'') = 9 / 10
   \<and> tokenRatio [asc ''arc'', asc ''welding''] [asc ''arc'', asc ''weld''] = 19 / 20
   \<and> keywordScore refPlatform [asc ''gloves''] (asc ''glove'') = 6 / 10"
proof -
  note T = token_overlap_signal [of "[asc ''arc'', asc ''welding'']" _ "[asc ''arc'', asc ''weld'']"
       refPlatform "asc ''glove''" "[]"]
  have h1: "tokenHit [asc ''arc'', asc ''welding''] (asc ''arc'') = 1"
    using T [of "asc ''arc''"] by (simp add: asc_def)
  have h2: "tokenHit [asc ''arc'', asc ''welding''] (asc ''weld'') = 9 / 10"
    using T [of "asc ''weld''"] by (simp add: asc_def)
  have r: "tokenRatio [asc ''arc'', asc ''welding''] [asc ''arc'', asc ''weld''] = 19 / 20"
    using T [of "asc ''weld''"] h1 h2 by simp
  have h3: "tokenHit [asc ''welding''] (asc ''weld'') = 9 / 10"
    using token_overlap_signal [of "[asc ''welding'']" "asc ''weld''" "[]" refPlatform "asc ''glove''" "[]"]
    by (simp add: asc_def)
  have nk: "normalizeFa refPlatform (asc ''glove'') = asc ''glove''" by (rule normalizeFa_glove)
  have "keywordScore refPlatform [asc ''gloves''] (asc ''glove'') = 6 / 10"
    using token_overlap_signal [of "[asc ''gloves'']" "asc ''weld''" "[]" refPlatform "asc ''glove''" "[]"]
    unfolding nk by (simp add: asc_def filterBoolean_def)
  with r h3 show ?thesis by simp
qed


section \<open>White space, trimming and splitting\<close>

lemma isWhite_32: "isWhite 32"
  by (simp add: isWhite_def)

lemma collapsed_Cons:
  "collapsed (c # r) \<longleftrightarrow> (isWhite c \<longrightarrow> c = 32 \<and> (r = [] \<or> \<not> isWhite (hd r))) \<and> collapsed r"
  by (cases r) auto

lemma collapseRun_collapsed:
  "collapsed (collapseRun b s) \<and> (b \<longrightarrow> collapseRun b s = [] \<or> \<not> isWhite (hd (collapseRun b s)))"
proof (induction s arbitrary: b)
  case Nil
  then show ?case by simp
next
  case (Cons c cs)
  show ?case
  proof (cases "isWhite c")
    case True
    with Cons [of True] show ?thesis by (cases b) (auto simp: collapsed_Cons)
  next
    case False
    with Cons [of False] show ?thesis by (auto simp: collapsed_Cons)
  qed
qed

lemma collapseWs_collapsed: "collapsed (collapseWs s)"
  by (simp add: collapseWs_def collapseRun_collapsed)

lemma collapseRun_id:
  "collapsed t \<Longrightarrow> (b \<longrightarrow> t = [] \<or> \<not> isWhite (hd t)) \<Longrightarrow> collapseRun b t = t"
proof (induction t arbitrary: b)
  case Nil
  then show ?case by simp
next
  case (Cons c cs)
  from Cons.prems(1) have c: "collapsed cs"
    and w: "isWhite c \<longrightarrow> c = 32 \<and> (cs = [] \<or> \<not> isWhite (hd cs))"
    by (simp_all add: collapsed_Cons)
  show ?case
  proof (cases "isWhite c")
    case True
    with Cons.prems(2) have nb: "\<not> b" by auto
    from True w have "collapseRun True cs = cs" by (intro Cons.IH [OF c]) auto
    with True nb w show ?thesis by simp
  next
    case False
    have "collapseRun False cs = cs" by (intro Cons.IH [OF c]) auto
    with False show ?thesis by simp
  qed
qed

lemma collapseWs_id: "collapsed t \<Longrightarrow> collapseWs t = t"
  by (simp add: collapseWs_def collapseRun_id)

lemma collapsed_append: "collapsed (xs @ ys) \<Longrightarrow> collapsed xs \<and> collapsed ys"
proof (induction xs)
  case Nil
  then show ?case by simp
next
  case (Cons x xs)
  then show ?case by (cases xs) (auto simp: collapsed_Cons)
qed

lemma set_collapseRun: "set (collapseRun b s) \<subseteq> insert 32 (set s)"
  by (induction s arbitrary: b) auto

lemma set_collapseWs: "set (collapseWs s) \<subseteq> insert 32 (set s)"
  by (simp add: collapseWs_def set_collapseRun)

lemma collapsed_white: "collapsed t \<Longrightarrow> c \<in> set t \<Longrightarrow> isWhite c \<Longrightarrow> c = 32"
  by (induction t) (auto simp: collapsed_Cons)

lemma dropEnd_decomp: "xs = rev (dropWhile Q (rev xs)) @ rev (takeWhile Q (rev xs))"
proof -
  have "rev (rev xs) = rev (takeWhile Q (rev xs) @ dropWhile Q (rev xs))"
    by (simp only: takeWhile_dropWhile_id)
  then show ?thesis by (simp only: rev_append rev_rev_ident)
qed

lemma dropEnd_last: "rev (dropWhile Q (rev xs)) \<noteq> [] \<Longrightarrow> \<not> Q (last (rev (dropWhile Q (rev xs))))"
proof -
  assume "rev (dropWhile Q (rev xs)) \<noteq> []"
  then have ne: "dropWhile Q (rev xs) \<noteq> []" by simp
  then have "\<not> Q (hd (dropWhile Q (rev xs)))" by (rule hd_dropWhile)
  then show ?thesis using ne by (simp add: last_rev)
qed

lemma trim_decomp:
  "s = takeWhile isWhite s @ trim s @ rev (takeWhile isWhite (rev (dropWhile isWhite s)))"
proof -
  have "dropWhile isWhite s = trim s @ rev (takeWhile isWhite (rev (dropWhile isWhite s)))"
    unfolding trim_def by (rule dropEnd_decomp)
  then have "takeWhile isWhite s @ dropWhile isWhite s
      = takeWhile isWhite s @ trim s @ rev (takeWhile isWhite (rev (dropWhile isWhite s)))"
    by simp
  then show ?thesis by (simp only: takeWhile_dropWhile_id)
qed

lemma set_trim: "set (trim s) \<subseteq> set s"
proof -
  have "set (trim s) \<subseteq> set (takeWhile isWhite s @ trim s @ rev (takeWhile isWhite (rev (dropWhile isWhite s))))"
    by auto
  then show ?thesis by (simp only: trim_decomp [symmetric])
qed

lemma trim_ends:
  assumes "trim s \<noteq> []"
  shows "\<not> isWhite (hd (trim s)) \<and> \<not> isWhite (last (trim s))"
proof -
  let ?d = "dropWhile isWhite s"
  have l: "\<not> isWhite (last (trim s))"
    using assms unfolding trim_def by (rule dropEnd_last)
  have d: "?d = trim s @ rev (takeWhile isWhite (rev ?d))"
    unfolding trim_def by (rule dropEnd_decomp)
  have ne: "?d \<noteq> []"
  proof
    assume "?d = []"
    with d have "trim s @ rev (takeWhile isWhite (rev ?d)) = []" by metis
    then have "trim s = []" by (simp only: append_is_Nil_conv)
    with assms show False by simp
  qed
  then have "\<not> isWhite (hd ?d)" by (rule hd_dropWhile)
  moreover have "hd ?d = hd (trim s)" using d assms by (metis hd_append2)
  ultimately show ?thesis using l by simp
qed

lemma trim_id: "t = [] \<or> (\<not> isWhite (hd t) \<and> \<not> isWhite (last t)) \<Longrightarrow> trim t = t"
proof (cases "t = []")
  case True
  then show ?thesis by (simp add: trim_def)
next
  case False
  assume "t = [] \<or> (\<not> isWhite (hd t) \<and> \<not> isWhite (last t))"
  with False have h: "\<not> isWhite (hd t)" and l: "\<not> isWhite (last t)" by auto
  from h False have 1: "dropWhile isWhite t = t" by (cases t) auto
  from l False have "\<not> isWhite (hd (rev t))" by (simp add: hd_rev)
  with False have 2: "dropWhile isWhite (rev t) = rev t" by (cases "rev t") auto
  show ?thesis by (simp add: trim_def 1 2)
qed

lemma trim_trim: "trim (trim s) = trim s"
  using trim_ends [of s] by (intro trim_id) auto

lemma collapsed_trim: "collapsed s \<Longrightarrow> collapsed (trim s)"
proof -
  assume "collapsed s"
  then have "collapsed (takeWhile isWhite s @ trim s @ rev (takeWhile isWhite (rev (dropWhile isWhite s))))"
    by (simp only: trim_decomp [symmetric])
  then have "collapsed (trim s @ rev (takeWhile isWhite (rev (dropWhile isWhite s))))"
    using collapsed_append by blast
  then show ?thesis using collapsed_append by blast
qed

text \<open>The pieces of \<open>split\<close> hold no space.\<close>

lemma splitSp_no_space: "t \<in> set (splitSp s) \<Longrightarrow> 32 \<notin> set t"
proof (induction s arbitrary: t)
  case Nil
  then show ?case by simp
next
  case (Cons c cs)
  then show ?case by (cases "splitSp cs") (auto split: if_splits)
qed

lemma splitSp_subset: "t \<in> set (splitSp s) \<Longrightarrow> set t \<subseteq> set s"
proof (induction s arbitrary: t)
  case Nil
  then show ?case by simp
next
  case (Cons c cs)
  show ?case
  proof (cases "splitSp cs")
    case Nil
    with Cons.prems show ?thesis by (auto split: if_splits)
  next
    case (Cons a list)
    then have a: "set a \<subseteq> set cs" and r: "\<And>u. u \<in> set list \<Longrightarrow> set u \<subseteq> set cs"
      using Cons.IH by auto
    from Cons.prems Cons have "t = [] \<or> t = a \<or> t \<in> set list \<or> t = c # a"
      by (auto split: if_splits)
    with a r show ?thesis by auto
  qed
qed

lemma token_no_white:
  assumes "collapsed s" and "t \<in> set (splitSp s)"
  shows "\<forall>c \<in> set t. \<not> isWhite c"
proof
  fix c assume c: "c \<in> set t"
  with assms(2) have "c \<in> set s" using splitSp_subset by blast
  show "\<not> isWhite c"
  proof
    assume "isWhite c"
    with assms(1) \<open>c \<in> set s\<close> have "c = 32" by (rule collapsed_white)
    with c splitSp_no_space [OF assms(2)] show False by simp
  qed
qed

text \<open>Splitting at the spaces and joining with spaces.\<close>

lemma splitSp_ne: "splitSp x \<noteq> []"
  by (induction x) (auto split: list.splits)

lemma joinSp_Cons: "ts \<noteq> [] \<Longrightarrow> joinSp (t # ts) = t @ 32 # joinSp ts"
  by (cases ts) auto

lemma joinSp_splitSp: "joinSp (splitSp x) = x"
proof (induction x)
  case Nil
  then show ?case by simp
next
  case (Cons c cs)
  show ?case
  proof (cases "c = 32")
    case True
    then show ?thesis using Cons by (simp add: joinSp_Cons splitSp_ne)
  next
    case False
    obtain t ts where s: "splitSp cs = t # ts" using splitSp_ne [of cs] by (cases "splitSp cs") auto
    have "joinSp ((c # t) # ts) = c # joinSp (t # ts)" by (cases ts) auto
    with False s Cons show ?thesis by simp
  qed
qed

lemma splitSp_space: "splitSp (32 # x) = [] # splitSp x"
  by simp

lemma splitSp_snoc_space: "splitSp (x @ [32]) = splitSp x @ [[]]"
proof (induction x)
  case Nil
  then show ?case by simp
next
  case (Cons c cs)
  obtain t ts where s: "splitSp cs = t # ts" using splitSp_ne [of cs] by (cases "splitSp cs") auto
  with Cons show ?case by simp
qed

text \<open>Where an empty piece of \<open>split\<close> comes from.\<close>

lemma splitSp_hd_empty: "hd (splitSp x) = [] \<longleftrightarrow> x = [] \<or> hd x = 32"
proof (cases x)
  case Nil
  then show ?thesis by simp
next
  case (Cons c cs)
  obtain t ts where s: "splitSp cs = t # ts" using splitSp_ne [of cs] by (cases "splitSp cs") auto
  with Cons show ?thesis by simp
qed

lemma splitSp_tl_empty:
  "[] \<in> set (tl (splitSp x)) \<Longrightarrow> collapsed x \<Longrightarrow> x \<noteq> [] \<and> last x = 32"
proof (induction x)
  case Nil
  then show ?case by simp
next
  case (Cons c cs)
  from Cons.prems(2) have cc: "collapsed cs" by (simp add: collapsed_Cons)
  obtain t ts where s: "splitSp cs = t # ts" using splitSp_ne [of cs] by (cases "splitSp cs") auto
  show ?case
  proof (cases "c = 32")
    case True
    with Cons.prems(1) have e: "[] \<in> set (splitSp cs)" by simp
    show ?thesis
    proof (cases "cs = []")
      case True
      with \<open>c = 32\<close> show ?thesis by simp
    next
      case False
      with Cons.prems(2) True have "\<not> isWhite (hd cs)" by (simp add: collapsed_Cons isWhite_32)
      then have "hd cs \<noteq> 32" using isWhite_32 by auto
      with False have "hd (splitSp cs) \<noteq> []" by (simp add: splitSp_hd_empty)
      with e s have "[] \<in> set (tl (splitSp cs))" by auto
      from Cons.IH [OF this cc] show ?thesis by simp
    qed
  next
    case False
    with Cons.prems(1) s have "[] \<in> set (tl (splitSp cs))" by simp
    from Cons.IH [OF this cc] show ?thesis by simp
  qed
qed

lemma splitSp_pieces_nonempty:
  assumes "collapsed x" and "x \<noteq> []" and "hd x \<noteq> 32" and "last x \<noteq> 32"
  shows "filterBoolean (splitSp x) = splitSp x"
proof -
  obtain t ts where s: "splitSp x = t # ts" using splitSp_ne [of x] by (cases "splitSp x") auto
  have "hd (splitSp x) \<noteq> []" using assms by (simp add: splitSp_hd_empty)
  moreover have "[] \<notin> set (tl (splitSp x))" using splitSp_tl_empty [of x] assms by blast
  ultimately have "\<forall>u \<in> set (splitSp x). u \<noteq> []" using s by auto
  then show ?thesis by (simp add: filterBoolean_def)
qed

text \<open>The white space around a collapsed string is at most spaces.\<close>

lemma filterBoolean_drop_spaces:
  "\<forall>c \<in> set pre. c = 32 \<Longrightarrow> filterBoolean (splitSp (pre @ y)) = filterBoolean (splitSp y)"
  by (induction pre) (auto simp: filterBoolean_def)

lemma filterBoolean_drop_trailing:
  "\<forall>c \<in> set suf. c = 32 \<Longrightarrow> filterBoolean (splitSp (y @ suf)) = filterBoolean (splitSp y)"
proof (induction suf rule: rev_induct)
  case Nil
  then show ?case by simp
next
  case (snoc c suf)
  then have c: "c = 32" by simp
  have "splitSp ((y @ suf) @ [32]) = splitSp (y @ suf) @ [[]]" by (rule splitSp_snoc_space)
  then have "filterBoolean (splitSp (y @ suf @ [c])) = filterBoolean (splitSp (y @ suf))"
    using c by (simp add: filterBoolean_def)
  with snoc show ?case by simp
qed

lemma tokens_of_collapsed:
  assumes "collapsed x"
  shows "joinSp (filterBoolean (splitSp x)) = trim x"
proof -
  let ?pre = "takeWhile isWhite x"
  let ?suf = "rev (takeWhile isWhite (rev (dropWhile isWhite x)))"
  have d: "x = ?pre @ trim x @ ?suf" by (rule trim_decomp)
  have p: "\<forall>c \<in> set ?pre. c = 32"
  proof
    fix c assume c: "c \<in> set ?pre"
    then have "isWhite c" by (auto dest: set_takeWhileD)
    moreover from c have "c \<in> set x" by (auto dest: set_takeWhileD)
    ultimately show "c = 32" using assms collapsed_white by blast
  qed
  have q: "\<forall>c \<in> set ?suf. c = 32"
  proof
    fix c assume c: "c \<in> set ?suf"
    then have "c \<in> set (takeWhile isWhite (rev (dropWhile isWhite x)))" by simp
    then have w: "isWhite c" and "c \<in> set (rev (dropWhile isWhite x))"
      by (auto dest: set_takeWhileD)
    then have "c \<in> set x" by (auto dest: set_dropWhileD)
    with w show "c = 32" using assms collapsed_white by blast
  qed
  have "filterBoolean (splitSp x) = filterBoolean (splitSp (?pre @ (trim x @ ?suf)))"
    using d by simp
  also have "\<dots> = filterBoolean (splitSp (trim x @ ?suf))"
    using p by (rule filterBoolean_drop_spaces)
  also have "\<dots> = filterBoolean (splitSp (trim x))"
    using q by (rule filterBoolean_drop_trailing)
  finally have f: "filterBoolean (splitSp x) = filterBoolean (splitSp (trim x))" .
  show ?thesis
  proof (cases "trim x = []")
    case True
    with f show ?thesis by (simp add: filterBoolean_def)
  next
    case False
    from trim_ends [OF False] isWhite_32 have "hd (trim x) \<noteq> 32" and "last (trim x) \<noteq> 32"
      by auto
    with False collapsed_trim [OF assms]
    have "filterBoolean (splitSp (trim x)) = splitSp (trim x)"
      by (intro splitSp_pieces_nonempty) auto
    with f show ?thesis by (simp add: joinSp_splitSp)
  qed
qed

text \<open>On a string without surrogates \<open>stripPunctU\<close> works unit by unit.\<close>

lemma set_stripPunctU: "set (stripPunctU P s) \<subseteq> insert 32 (set s)"
  by (induction P s rule: stripPunctU.induct) auto

lemma stripPunctU_map:
  "noSurrogates s \<Longrightarrow> stripPunctU P s = map (\<lambda>c. if keepLNS P c then c else 32) s"
  by (induction P s rule: stripPunctU.induct) (auto simp: noSurrogates_def)

lemma stripPunctU_kept:
  "noSurrogates s \<Longrightarrow> c \<in> set (stripPunctU P s) \<Longrightarrow> keepLNS P c"
  by (auto simp: stripPunctU_map keepLNS_def isWhite_32 split: if_splits)

lemma stripPunctU_id:
  "noSurrogates t \<Longrightarrow> \<forall>c \<in> set t. keepLNS P c \<Longrightarrow> stripPunctU P t = t"
  by (simp add: stripPunctU_map map_idI)

section \<open>Properties of the tokenizers\<close>

lemma collapsed_ke: "collapsed (ke_normalizeText P s)"
  by (simp add: ke_normalizeText_def collapsed_trim collapseWs_collapsed)

lemma collapsed_v3: "collapsed (normalizeText P s)"
  by (simp add: normalizeText_def Let_def collapsed_trim collapseWs_collapsed)

lemma collapsed_fa: "collapsed (normalizeFa P s)"
  by (simp add: normalizeFa_def Let_def collapseWs_collapsed)

lemma collapsed_ii: "collapsed (normalize P s)"
  by (simp add: normalize_def Let_def collapseWs_collapsed)

text \<open>
  C8, as the code has it. Every tokenizer normalises the text and returns, in their
  order, the pieces between the single spaces of the normal form: \<open>tokenize\<close> of
  KnowledgeEngine, \<open>tokenSet\<close> of IntentMatcher and \<open>tokensOf\<close> of the alias matcher
  return every piece of at least one code unit, \<open>tokensOf\<close> of IndustryIndexer v3.0
  every piece of at least two. Nothing but spaces is lost with the first three: their
  tokens joined by single spaces are the normal form, trimmed. No token is empty or
  holds white space.
\<close>

theorem tokenizer_tokens:
  "ke_tokenize P s = filter (\<lambda>t. 1 \<le> length t) (splitSp (ke_normalizeText P s))
   \<and> tokenSet P s = filter (\<lambda>t. 1 \<le> length t) (splitSp (normalizeFa P s))
   \<and> tokensOf P s = filter (\<lambda>t. 1 \<le> length t) (splitSp (normalize P s))
   \<and> tokensOf3 P s = filter (\<lambda>t. 2 \<le> length t) (splitSp (normalizeText P s))
   \<and> joinSp (ke_tokenize P s) = ke_normalizeText P s
   \<and> joinSp (tokenSet P s) = trim (normalizeFa P s)
   \<and> joinSp (tokensOf P s) = trim (normalize P s)
   \<and> joinSp (filter (\<lambda>t. 1 \<le> length t) (splitSp (normalizeText P s))) = normalizeText P s
   \<and> (\<forall>t \<in> set (tokensOf3 P s). 2 \<le> length t \<and> (\<forall>c \<in> set t. \<not> isWhite c))
   \<and> (\<forall>t \<in> set (ke_tokenize P s). 1 \<le> length t \<and> (\<forall>c \<in> set t. \<not> isWhite c))
   \<and> (\<forall>t \<in> set (tokenSet P s). 1 \<le> length t \<and> (\<forall>c \<in> set t. \<not> isWhite c))
   \<and> (\<forall>t \<in> set (tokensOf P s). 1 \<le> length t \<and> (\<forall>c \<in> set t. \<not> isWhite c))"
proof -
  have ne: "\<And>xs :: jstr list. filterBoolean xs = filter (\<lambda>t. 1 \<le> length t) xs"
    unfolding filterBoolean_def by (rule filter_cong) (auto simp: Suc_le_eq)
  have k1: "ke_tokenize P s = filter (\<lambda>t. 1 \<le> length t) (splitSp (ke_normalizeText P s))"
    by (simp add: ke_tokenize_def Let_def ne)
  have f1: "tokenSet P s = filter (\<lambda>t. 1 \<le> length t) (splitSp (normalizeFa P s))"
    by (simp add: tokenSet_def ne)
  have i1: "tokensOf P s = filter (\<lambda>t. 1 \<le> length t) (splitSp (normalize P s))"
    by (simp add: tokensOf_def ne)
  have a: "tokensOf3 P s = filter (\<lambda>t. 2 \<le> length t) (splitSp (normalizeText P s))"
    unfolding tokensOf3_def by (rule filter_cong) auto
  have tk: "trim (ke_normalizeText P s) = ke_normalizeText P s"
    by (simp add: ke_normalizeText_def trim_trim)
  have tv: "trim (normalizeText P s) = normalizeText P s"
    by (simp add: normalizeText_def Let_def trim_trim)
  have k2: "joinSp (ke_tokenize P s) = ke_normalizeText P s"
  proof -
    have "ke_tokenize P s = filterBoolean (splitSp (ke_normalizeText P s))"
      by (simp add: ke_tokenize_def Let_def filterBoolean_def)
    then show ?thesis using tokens_of_collapsed [OF collapsed_ke [of P s]] tk by simp
  qed
  have f2: "joinSp (tokenSet P s) = trim (normalizeFa P s)"
    using tokens_of_collapsed [OF collapsed_fa [of P s]] by (simp add: tokenSet_def)
  have i2: "joinSp (tokensOf P s) = trim (normalize P s)"
    using tokens_of_collapsed [OF collapsed_ii [of P s]] by (simp add: tokensOf_def)
  have v2: "joinSp (filter (\<lambda>t. 1 \<le> length t) (splitSp (normalizeText P s))) = normalizeText P s"
    unfolding ne [symmetric] using tokens_of_collapsed [OF collapsed_v3 [of P s]] tv by simp
  have b: "\<forall>t \<in> set (tokensOf3 P s). 2 \<le> length t \<and> (\<forall>c \<in> set t. \<not> isWhite c)"
    using token_no_white [OF collapsed_v3 [of P s]] by (auto simp: tokensOf3_def)
  have c: "\<forall>t \<in> set (ke_tokenize P s). 1 \<le> length t \<and> (\<forall>c \<in> set t. \<not> isWhite c)"
    using token_no_white [OF collapsed_ke [of P s]]
    by (auto simp: ke_tokenize_def filterBoolean_def Let_def Suc_le_eq)
  have d: "\<forall>t \<in> set (tokenSet P s). 1 \<le> length t \<and> (\<forall>c \<in> set t. \<not> isWhite c)"
    using token_no_white [OF collapsed_fa [of P s]]
    by (auto simp: tokenSet_def filterBoolean_def Suc_le_eq)
  have e: "\<forall>t \<in> set (tokensOf P s). 1 \<le> length t \<and> (\<forall>c \<in> set t. \<not> isWhite c)"
    using token_no_white [OF collapsed_ii [of P s]]
    by (auto simp: tokensOf_def filterBoolean_def Suc_le_eq)
  show ?thesis using k1 f1 i1 a k2 f2 i2 v2 b c d e by blast
qed

lemma normalize_size9:
  "normalize refPlatform (asc ''size 9 gloves'') = asc ''size 9 gloves''"
  by (simp add: normalize_def latinDigit_def Let_def platform_eval)

text \<open>
  C8 as stated fails: \<open>tokenize\<close> of KnowledgeEngine, \<open>tokenSet\<close> of IntentMatcher and
  \<open>tokensOf\<close> of the alias matcher return the token \<open>9\<close> of one code unit.
\<close>

theorem tokenizer_counterexample:
  "ke_tokenize refPlatform (asc ''size 9 gloves'') = [asc ''size'', asc ''9'', asc ''gloves'']
   \<and> tokenSet refPlatform (asc ''size 9 gloves'') = [asc ''size'', asc ''9'', asc ''gloves'']
   \<and> tokensOf refPlatform (asc ''size 9 gloves'') = [asc ''size'', asc ''9'', asc ''gloves'']"
  by (simp add: ke_tokenize_def ke_normalizeText_def tokenSet_def normalizeFa_def faDigit_def
        tokensOf_def normalize_def latinDigit_def Let_def platform_eval)

theorem tokenizer_tokens_witness:
  "tokensOf3 refPlatform (asc ''size 9 gloves'') = [asc ''size'', asc ''gloves'']
   \<and> tokensOf refPlatform (asc ''size 9 gloves'') = [asc ''size'', asc ''9'', asc ''gloves'']
   \<and> joinSp (tokensOf refPlatform (asc ''size 9 gloves'')) = asc ''size 9 gloves''"
proof -
  have n: "normalizeText refPlatform (asc ''size 9 gloves'') = asc ''size 9 gloves''"
    by (simp add: normalizeText_def platform_eval)
  have t: "trim (asc ''size 9 gloves'') = asc ''size 9 gloves''"
    by (simp add: platform_eval)
  note th = tokenizer_tokens [of refPlatform "asc ''size 9 gloves''"]
  have "tokensOf3 refPlatform (asc ''size 9 gloves'')
      = filter (\<lambda>t. 2 \<le> length t) (splitSp (normalizeText refPlatform (asc ''size 9 gloves'')))"
    using th by blast
  then have a: "tokensOf3 refPlatform (asc ''size 9 gloves'') = [asc ''size'', asc ''gloves'']"
    unfolding n by (simp add: asc_def)
  have "tokensOf refPlatform (asc ''size 9 gloves'')
      = filter (\<lambda>t. 1 \<le> length t) (splitSp (normalize refPlatform (asc ''size 9 gloves'')))"
    using th by blast
  then have b: "tokensOf refPlatform (asc ''size 9 gloves'')
      = [asc ''size'', asc ''9'', asc ''gloves'']"
    unfolding normalize_size9 by (simp add: asc_def)
  have "joinSp (tokensOf refPlatform (asc ''size 9 gloves''))
      = trim (normalize refPlatform (asc ''size 9 gloves''))"
    using th by blast
  then have c: "joinSp (tokensOf refPlatform (asc ''size 9 gloves'')) = asc ''size 9 gloves''"
    unfolding normalize_size9 t .
  show ?thesis using a b c by simp
qed

section \<open>Properties of digit folding\<close>

lemma latinDigit_range: "\<not> (1776 \<le> latinDigit c \<and> latinDigit c \<le> 1785)"
  unfolding latinDigit_def by (cases "1776 \<le> c \<and> c \<le> 1785") auto

lemma normalize_no_persian_digit: "c \<in> set (normalize P s) \<Longrightarrow> \<not> (1776 \<le> c \<and> c \<le> 1785)"
proof -
  assume c: "c \<in> set (normalize P s)"
  show ?thesis
  proof (cases "s = []")
    case True
    with c show ?thesis by (simp add: normalize_def)
  next
    case False
    let ?m = "map latinDigit (replaceUnit 1603 1705 (replaceUnit 1610 1740 (lowerCase P (trim s))))"
    from c False have "c \<in> set (collapseWs (stripPunctU P ?m))" by (simp add: normalize_def Let_def)
    then have "c \<in> insert 32 (set (stripPunctU P ?m))" using set_collapseWs by blast
    then have "c \<in> insert 32 (set ?m)" using set_stripPunctU by blast
    then show ?thesis using latinDigit_range by auto
  qed
qed

lemma digits_not_white: "persianDigits s \<Longrightarrow> c \<in> set s \<Longrightarrow> \<not> isWhite c"
  by (auto simp: persianDigits_def isWhite_def)

lemma digits_trim: "persianDigits s \<Longrightarrow> trim s = s"
proof (cases "s = []")
  case True
  then show ?thesis by (simp add: trim_def)
next
  case False
  assume d: "persianDigits s"
  from False have "hd s \<in> set s" "last s \<in> set s" by simp_all
  with d have "\<not> isWhite (hd s) \<and> \<not> isWhite (last s)" using digits_not_white by blast
  then show ?thesis by (intro trim_id) simp
qed

lemma no_white_collapsed: "\<forall>c \<in> set t. \<not> isWhite c \<Longrightarrow> collapsed t"
  by (induction t) (auto simp: collapsed_Cons)

lemma lowerCase_fixed: "toLowerCase P s = s \<Longrightarrow> lowerCase P s = s"
  by (simp add: lowerCase_def)

lemma digit_not_white: "digitUnit c \<Longrightarrow> \<not> isWhite c"
  by (auto simp: digitUnit_def isWhite_def)

lemma digitsOf_white: "\<forall>c \<in> set w. isWhite c \<Longrightarrow> digitsOf w = []"
  using digit_not_white by (auto simp: digitsOf_def filter_empty_conv)

lemma digitsOf_append: "digitsOf (a @ b) = digitsOf a @ digitsOf b"
  by (simp add: digitsOf_def)

lemma digitsOf_trim: "digitsOf (trim s) = digitsOf s"
proof -
  let ?pre = "takeWhile isWhite s"
  let ?suf = "rev (takeWhile isWhite (rev (dropWhile isWhite s)))"
  have "\<forall>c \<in> set ?pre. isWhite c" by (auto dest: set_takeWhileD)
  then have p: "digitsOf ?pre = []" by (rule digitsOf_white)
  have "\<forall>c \<in> set ?suf. isWhite c" by (auto dest: set_takeWhileD)
  then have q: "digitsOf ?suf = []" by (rule digitsOf_white)
  have "digitsOf s = digitsOf (?pre @ trim s @ ?suf)" using trim_decomp [of s] by simp
  then show ?thesis by (simp only: digitsOf_append p q append_Nil append_Nil2)
qed

lemma digitsOf_lowerCase: "digitPlatform P \<Longrightarrow> digitsOf (lowerCase P x) = digitsOf x"
  by (simp add: lowerCase_def digitPlatform_def)

lemma digitsOf_replaceUnit:
  "\<not> digitUnit c \<Longrightarrow> \<not> digitUnit d \<Longrightarrow> digitsOf (replaceUnit c d x) = digitsOf x"
  by (induction x) (auto simp: digitsOf_def replaceUnit_def)

lemma digitUnit_latinDigit: "digitUnit (latinDigit c) \<longleftrightarrow> digitUnit c"
  by (auto simp: digitUnit_def latinDigit_def)

lemma digitsOf_latinDigit: "digitsOf (map latinDigit x) = map latinDigit (digitsOf x)"
  by (induction x) (auto simp: digitsOf_def digitUnit_latinDigit)

lemma digit_not_surrogate: "digitUnit c \<Longrightarrow> \<not> isHigh c \<and> \<not> isLow c"
  by (auto simp: digitUnit_def isHigh_def isLow_def)

lemma digitsOf_stripPunctU:
  "\<forall>d. digitUnit d \<longrightarrow> isNumber P d \<Longrightarrow> digitsOf (stripPunctU P x) = digitsOf x"
proof (induction P x rule: stripPunctU.induct)
  case (1 P)
  then show ?case by simp
next
  case (2 P c)
  then show ?case by (auto simp: digitsOf_def keepLNS_def digitUnit_def)
next
  case (3 P c d cs)
  have k: "\<And>u. digitUnit u \<Longrightarrow> keepLNS P u" using 3(4) by (simp add: keepLNS_def)
  have n32: "\<not> digitUnit 32" by (simp add: digitUnit_def)
  show ?case
  proof (cases "isHigh c \<and> isLow d")
    case True
    then have nc: "\<not> digitUnit c" and nd: "\<not> digitUnit d" using digit_not_surrogate by auto
    show ?thesis
    proof (cases "keepLNS P (codePoint c d)")
      case k1: True
      with True 3(1) [OF True k1 3(4)] nc nd show ?thesis by (simp add: digitsOf_def)
    next
      case k2: False
      with True 3(2) [OF True k2 3(4)] nc nd n32 show ?thesis by (simp add: digitsOf_def)
    qed
  next
    case False
    with 3(3) [OF False 3(4)] k [of c] n32 show ?thesis
      by (cases "keepLNS P c") (auto simp: digitsOf_def)
  qed
qed

lemma digitsOf_collapseRun: "digitsOf (collapseRun b x) = digitsOf x"
  using digit_not_white by (induction x arbitrary: b) (auto simp: digitsOf_def digitUnit_def)

lemma digitsOf_collapseWs: "digitsOf (collapseWs x) = digitsOf x"
  by (simp add: collapseWs_def digitsOf_collapseRun)

lemma digitsOf_removeZeroWidth: "digitsOf (removeZeroWidth x) = digitsOf x"
  by (induction x) (auto simp: digitsOf_def removeZeroWidth_def digitUnit_def)

lemma digitsOf_foldVariant: "digitsOf (map foldVariant x) = digitsOf x"
  by (induction x) (auto simp: digitsOf_def foldVariant_def digitUnit_def)

lemma digitsOf_keepIndexed:
  "digitsOf (map (\<lambda>c. if keepIndexed c then c else 32) x) = digitsOf x"
  by (induction x) (auto simp: digitsOf_def keepIndexed_def digitUnit_def isDigit_def)

lemma digitsOf_separators:
  "digitsOf (map (\<lambda>c. if c = 45 \<or> c = 47 \<or> c = 95 then 32 else c) x) = digitsOf x"
  by (induction x) (auto simp: digitsOf_def digitUnit_def)

lemma normalize_digits:
  assumes "digitPlatform P"
  shows "digitsOf (normalize P s) = map latinDigit (digitsOf s)"
proof (cases "s = []")
  case True
  then show ?thesis by (simp add: normalize_def digitsOf_def)
next
  case False
  have n: "\<forall>d. digitUnit d \<longrightarrow> isNumber P d" using assms by (simp add: digitPlatform_def)
  have a: "\<not> digitUnit 1610" "\<not> digitUnit 1740" "\<not> digitUnit 1603" "\<not> digitUnit 1705"
    by (simp_all add: digitUnit_def)
  show ?thesis using False
    by (simp add: normalize_def Let_def digitsOf_collapseWs digitsOf_stripPunctU [OF n]
          digitsOf_latinDigit digitsOf_replaceUnit a digitsOf_lowerCase [OF assms] digitsOf_trim)
qed

lemma ke_normalizeText_digits:
  assumes "digitPlatform P"
  shows "digitsOf (ke_normalizeText P s) = digitsOf s"
proof -
  have n: "\<forall>d. digitUnit d \<longrightarrow> isNumber P d" using assms by (simp add: digitPlatform_def)
  show ?thesis
    by (simp add: ke_normalizeText_def digitsOf_trim digitsOf_collapseWs
          digitsOf_stripPunctU [OF n] digitsOf_removeZeroWidth digitsOf_lowerCase [OF assms])
qed

lemma normalizeText_digits:
  assumes "digitPlatform P"
  shows "digitsOf (normalizeText P s) = digitsOf s"
  unfolding normalizeText_def Let_def digitsOf_trim digitsOf_collapseWs digitsOf_separators
    digitsOf_keepIndexed digitsOf_lowerCase [OF assms] digitsOf_foldVariant ..

lemma digitsOf_asciiLower: "digitsOf (map asciiLower x) = digitsOf x"
  by (induction x) (auto simp: digitsOf_def digitUnit_def asciiLower_def)

lemma refPlatform_digits: "digitPlatform refPlatform"
  by (auto simp: digitPlatform_def refPlatform_def digitsOf_asciiLower refNumber_def digitUnit_def)

text \<open>
  C6, as the code has it, for every input \<open>s\<close>. \<open>normalize\<close> of IndustryIndexer
  leaves no Persian digit in its result, and the digits of its result are the digits of
  \<open>s\<close>, in their order, each Persian digit replaced by its ASCII digit.
  \<open>normalizeText\<close> of KnowledgeEngine and of IndustryIndexer v3.0 fold no digit: the
  digits of their result are the digits of \<open>s\<close>, Persian ones included, unchanged.
  On a string of Persian digits alone, \<open>normalize\<close> returns the string of the ASCII
  digits and both \<open>normalizeText\<close> functions return the string itself.
\<close>

theorem digit_folding:
  "(\<forall>c \<in> set (normalize P s). \<not> (1776 \<le> c \<and> c \<le> 1785))
   \<and> (digitPlatform P \<longrightarrow> digitsOf (normalize P s) = map latinDigit (digitsOf s))
   \<and> (digitPlatform P \<longrightarrow> digitsOf (ke_normalizeText P s) = digitsOf s)
   \<and> (digitPlatform P \<longrightarrow> digitsOf (normalizeText P s) = digitsOf s)
   \<and> (persianDigits s \<and> toLowerCase P s = s \<and> (\<forall>d. isDigit d \<longrightarrow> isNumber P d)
        \<longrightarrow> normalize P s = map (\<lambda>c. 48 + (c - 1776)) s)
   \<and> (persianDigits s \<and> toLowerCase P s = s \<and> (\<forall>c \<in> set s. isNumber P c)
        \<longrightarrow> ke_normalizeText P s = s)
   \<and> (persianDigits s \<and> toLowerCase P s = s \<longrightarrow> normalizeText P s = s)"
proof -
  have a: "\<forall>c \<in> set (normalize P s). \<not> (1776 \<le> c \<and> c \<le> 1785)"
    using normalize_no_persian_digit by blast
  have g1: "digitPlatform P \<longrightarrow> digitsOf (normalize P s) = map latinDigit (digitsOf s)"
    using normalize_digits by blast
  have g2: "digitPlatform P \<longrightarrow> digitsOf (ke_normalizeText P s) = digitsOf s"
    using ke_normalizeText_digits by blast
  have g3: "digitPlatform P \<longrightarrow> digitsOf (normalizeText P s) = digitsOf s"
    using normalizeText_digits by blast
  have b: "normalize P s = map (\<lambda>c. 48 + (c - 1776)) s"
    if d: "persianDigits s" and l: "toLowerCase P s = s" and n: "\<forall>d. isDigit d \<longrightarrow> isNumber P d"
  proof (cases "s = []")
    case True
    then show ?thesis by (simp add: normalize_def)
  next
    case False
    let ?m = "map (\<lambda>c. 48 + (c - 1776)) s"
    have r: "replaceUnit 1603 1705 (replaceUnit 1610 1740 s) = s"
      using d by (auto simp: replaceUnit_def persianDigits_def intro!: map_idI)
    have m: "map latinDigit s = ?m"
      using d by (auto simp: latinDigit_def persianDigits_def)
    have dig: "\<forall>c \<in> set ?m. isDigit c"
      using d by (auto simp: persianDigits_def isDigit_def)
    then have ns: "noSurrogates ?m"
      by (auto simp: noSurrogates_def isDigit_def isHigh_def isLow_def)
    have k: "\<forall>c \<in> set ?m. keepLNS P c" using dig n by (auto simp: keepLNS_def)
    have s1: "stripPunctU P ?m = ?m" using ns k by (rule stripPunctU_id)
    have "\<forall>c \<in> set ?m. \<not> isWhite c" using dig by (auto simp: isDigit_def isWhite_def)
    then have s2: "collapseWs ?m = ?m" by (intro collapseWs_id no_white_collapsed)
    show ?thesis using False
      by (simp add: normalize_def Let_def digits_trim [OF d] lowerCase_fixed [OF l] r m s1 s2)
  qed
  have nw: "\<forall>c \<in> set s. \<not> isWhite c" if d: "persianDigits s"
    using d digits_not_white by blast
  have c: "ke_normalizeText P s = s"
    if d: "persianDigits s" and l: "toLowerCase P s = s" and n: "\<forall>c \<in> set s. isNumber P c"
  proof -
    have z: "removeZeroWidth s = s"
      using d by (auto simp: removeZeroWidth_def persianDigits_def intro!: filter_True)
    have ns: "noSurrogates s"
      using d by (auto simp: noSurrogates_def persianDigits_def isHigh_def isLow_def)
    have k: "\<forall>c \<in> set s. keepLNS P c" using n by (auto simp: keepLNS_def)
    have s1: "stripPunctU P s = s" using ns k by (rule stripPunctU_id)
    have s2: "collapseWs s = s" using nw [OF d] by (intro collapseWs_id no_white_collapsed)
    show ?thesis
      by (simp add: ke_normalizeText_def lowerCase_fixed [OF l] z s1 s2 digits_trim [OF d])
  qed
  have e: "normalizeText P s = s" if d: "persianDigits s" and l: "toLowerCase P s = s"
  proof -
    have f: "map foldVariant s = s"
      using d by (auto simp: foldVariant_def persianDigits_def intro!: map_idI)
    have k: "map (\<lambda>c. if keepIndexed c then c else 32) s = s"
      using d by (auto simp: keepIndexed_def persianDigits_def intro!: map_idI)
    have p: "map (\<lambda>c. if c = 45 \<or> c = 47 \<or> c = 95 then 32 else c) s = s"
      using d by (auto simp: persianDigits_def intro!: map_idI)
    have s2: "collapseWs s = s" using nw [OF d] by (intro collapseWs_id no_white_collapsed)
    show ?thesis
      unfolding normalizeText_def Let_def f lowerCase_fixed [OF l] k p s2 digits_trim [OF d] ..
  qed
  show ?thesis using a g1 g2 g3 b c e by blast
qed

text \<open>
  C6 as stated fails: both \<open>normalizeText\<close> functions return the Persian digits one
  and two as they are, also inside other text.
\<close>

theorem digit_folding_counterexample:
  "ke_normalizeText refPlatform [1777, 1778] = [1777, 1778]
   \<and> normalizeText refPlatform [1777, 1778] = [1777, 1778]
   \<and> ke_normalizeText refPlatform (asc ''size '' @ [1781]) = asc ''size '' @ [1781]
   \<and> normalizeText refPlatform (asc ''size '' @ [1781]) = asc ''size '' @ [1781]"
  by (simp add: ke_normalizeText_def normalizeText_def platform_eval)

theorem digit_folding_witness:
  "digitPlatform refPlatform
   \<and> digitsOf (normalize refPlatform (asc ''Size '' @ [1781, 1779] @ asc ''-L9'')) = asc ''539''
   \<and> normalize refPlatform (asc ''Size '' @ [1781, 1779] @ asc ''-L9'') = asc ''size 53 l9''
   \<and> digitsOf (ke_normalizeText refPlatform (asc ''Size '' @ [1781, 1779] @ asc ''-L9''))
       = [1781, 1779, 57]
   \<and> persianDigits [1777, 1778, 1785]
   \<and> normalize refPlatform [1777, 1778, 1785] = asc ''129''
   \<and> ke_normalizeText refPlatform [1777, 1778, 1785] = [1777, 1778, 1785]"
proof -
  note S = digit_folding [of refPlatform "asc ''Size '' @ [1781, 1779] @ asc ''-L9''"]
  have i: "digitsOf (asc ''Size '' @ [1781, 1779] @ asc ''-L9'') = [1781, 1779, 57]"
    by (simp add: digitsOf_def digitUnit_def asc_def)
  from S refPlatform_digits
  have "digitsOf (normalize refPlatform (asc ''Size '' @ [1781, 1779] @ asc ''-L9''))
      = map latinDigit (digitsOf (asc ''Size '' @ [1781, 1779] @ asc ''-L9''))"
    by blast
  then have g1: "digitsOf (normalize refPlatform (asc ''Size '' @ [1781, 1779] @ asc ''-L9''))
      = asc ''539''"
    unfolding i by (simp add: latinDigit_def asc_def)
  have g2: "normalize refPlatform (asc ''Size '' @ [1781, 1779] @ asc ''-L9'') = asc ''size 53 l9''"
    by (simp add: normalize_def latinDigit_def Let_def platform_eval)
  from S refPlatform_digits
  have "digitsOf (ke_normalizeText refPlatform (asc ''Size '' @ [1781, 1779] @ asc ''-L9''))
      = digitsOf (asc ''Size '' @ [1781, 1779] @ asc ''-L9'')"
    by blast
  then have g3: "digitsOf (ke_normalizeText refPlatform (asc ''Size '' @ [1781, 1779] @ asc ''-L9''))
      = [1781, 1779, 57]"
    unfolding i .
  have d: "persianDigits [1777, 1778, 1785]" by (simp add: persianDigits_def)
  have l: "toLowerCase refPlatform [1777, 1778, 1785] = [1777, 1778, 1785]"
    by (simp add: platform_eval)
  have n: "\<forall>d. isDigit d \<longrightarrow> isNumber refPlatform d" by (simp add: platform_eval)
  have m: "\<forall>c \<in> set [1777, 1778, 1785]. isNumber refPlatform c" by (simp add: platform_eval)
  note T = digit_folding [of refPlatform "[1777, 1778, 1785]"]
  from T d l n have "normalize refPlatform [1777, 1778, 1785] = map (\<lambda>c. 48 + (c - 1776)) [1777, 1778, 1785]"
    by blast
  then have a: "normalize refPlatform [1777, 1778, 1785] = asc ''129''" by (simp add: asc_def)
  from T d l m have b: "ke_normalizeText refPlatform [1777, 1778, 1785] = [1777, 1778, 1785]" by blast
  show ?thesis using refPlatform_digits g1 g2 g3 d a b by simp
qed

section \<open>Idempotence of the normalisers\<close>

lemma stable_lower: "stableUnits P S \<Longrightarrow> set t \<subseteq> S \<Longrightarrow> lowerCase P t = t"
  by (simp add: stableUnits_def lowerCase_def)

lemma stable_noSurrogates: "stableUnits P S \<Longrightarrow> set t \<subseteq> S \<Longrightarrow> noSurrogates t"
  by (auto simp: stableUnits_def noSurrogates_def)

lemma stable_fold: "stableUnits P S \<Longrightarrow> set t \<subseteq> S \<Longrightarrow> map foldVariant t = t"
  by (auto simp: stableUnits_def intro!: map_idI)

lemma stable_fold2:
  "stableUnits P S \<Longrightarrow> set t \<subseteq> S \<Longrightarrow> replaceUnit 1603 1705 (replaceUnit 1610 1740 t) = t"
proof -
  assume s: "stableUnits P S" and t: "set t \<subseteq> S"
  have "\<forall>c \<in> set t. c \<noteq> 1610 \<and> c \<noteq> 1603"
  proof
    fix c assume "c \<in> set t"
    with s t have "foldVariant c = c" by (auto simp: stableUnits_def)
    then show "c \<noteq> 1610 \<and> c \<noteq> 1603" by (auto simp: foldVariant_def)
  qed
  then show ?thesis by (auto simp: replaceUnit_def intro!: map_idI)
qed

lemma faDigit_range: "\<not> (1776 \<le> faDigit c \<and> faDigit c \<le> 1785)"
  unfolding faDigit_def by (cases "1776 \<le> c \<and> c \<le> 1785") auto

lemma digit_map_id:
  "\<forall>c \<in> set t. \<not> (1776 \<le> c \<and> c \<le> 1785) \<Longrightarrow> map faDigit t = t \<and> map latinDigit t = t"
  by (auto simp: faDigit_def latinDigit_def intro!: map_idI)

lemma strip_collapse_id:
  assumes "noSurrogates t" and "\<forall>c \<in> set t. keepLNS P c" and "collapsed t"
  shows "collapseWs (stripPunctU P t) = t"
  using assms by (simp add: stripPunctU_id collapseWs_id)

lemma strip_facts:
  assumes "noSurrogates z"
  shows "noSurrogates (stripPunctU P z) \<and> (\<forall>c \<in> set (stripPunctU P z). keepLNS P c)
       \<and> set (stripPunctU P z) \<subseteq> insert 32 (set z)"
proof -
  have "\<not> isHigh 32 \<and> \<not> isLow 32" by (simp add: isHigh_def isLow_def)
  then have "noSurrogates (stripPunctU P z)"
    using assms by (auto simp: stripPunctU_map [OF assms] noSurrogates_def)
  moreover have "\<forall>c \<in> set (stripPunctU P z). keepLNS P c"
    using stripPunctU_kept [OF assms] by blast
  ultimately show ?thesis using set_stripPunctU by blast
qed

lemma collapse_facts:
  assumes "noSurrogates w" and "\<forall>c \<in> set w. keepLNS P c"
  shows "noSurrogates (collapseWs w) \<and> (\<forall>c \<in> set (collapseWs w). keepLNS P c)"
proof -
  have s: "set (collapseWs w) \<subseteq> insert 32 (set w)" by (rule set_collapseWs)
  have "\<not> isHigh 32 \<and> \<not> isLow 32 \<and> keepLNS P 32"
    by (simp add: isHigh_def isLow_def keepLNS_def isWhite_32)
  with assms s show ?thesis by (auto simp: noSurrogates_def)
qed

lemma trim_facts:
  assumes "noSurrogates v" and "\<forall>c \<in> set v. keepLNS P c"
  shows "noSurrogates (trim v) \<and> (\<forall>c \<in> set (trim v). keepLNS P c)"
  using assms set_trim [of v] by (auto simp: noSurrogates_def)

lemma ke_normalizeText_idem:
  assumes st: "stableUnits P S" and u: "set (lowerCase P x) \<subseteq> S"
  shows "ke_normalizeText P (ke_normalizeText P x) = ke_normalizeText P x"
proof -
  define z where "z = removeZeroWidth (lowerCase P x)"
  define w where "w = stripPunctU P z"
  define v where "v = collapseWs w"
  define y where "y = trim v"
  have y: "ke_normalizeText P x = y" by (simp add: ke_normalizeText_def y_def v_def w_def z_def)
  have in32: "32 \<in> S" using st by (simp add: stableUnits_def)
  have zS: "set z \<subseteq> S" using u by (auto simp: z_def removeZeroWidth_def)
  have zw: "\<forall>c \<in> set z. \<not> ((8203 \<le> c \<and> c \<le> 8205) \<or> c = 65279)"
    by (simp add: z_def removeZeroWidth_def)
  have nz: "noSurrogates z" using st zS by (rule stable_noSurrogates)
  note sf = strip_facts [OF nz, of P, folded w_def]
  have vf: "noSurrogates v \<and> (\<forall>c \<in> set v. keepLNS P c)"
    unfolding v_def using sf by (intro collapse_facts) auto
  have yf: "noSurrogates y \<and> (\<forall>c \<in> set y. keepLNS P c)"
    unfolding y_def using vf by (intro trim_facts) auto
  have "set y \<subseteq> set v" unfolding y_def by (rule set_trim)
  moreover have "set v \<subseteq> insert 32 (set w)" unfolding v_def by (rule set_collapseWs)
  ultimately have sub: "set y \<subseteq> insert 32 (set z)" using sf by blast
  then have yS: "set y \<subseteq> S" using zS in32 by blast
  have l: "lowerCase P y = y" using st yS by (rule stable_lower)
  have "\<forall>c \<in> set y. \<not> ((8203 \<le> c \<and> c \<le> 8205) \<or> c = 65279)"
  proof
    fix c assume "c \<in> set y"
    with sub have "c = 32 \<or> c \<in> set z" by blast
    then show "\<not> ((8203 \<le> c \<and> c \<le> 8205) \<or> c = 65279)" using zw by auto
  qed
  then have z: "removeZeroWidth y = y" unfolding removeZeroWidth_def by (intro filter_True) simp
  have c: "collapsed y" unfolding y_def v_def by (intro collapsed_trim collapseWs_collapsed)
  have s: "collapseWs (stripPunctU P y) = y" using yf c by (intro strip_collapse_id) auto
  have t: "trim y = y" unfolding y_def by (rule trim_trim)
  have "ke_normalizeText P y = y"
    unfolding ke_normalizeText_def by (simp only: l z s t)
  then show ?thesis unfolding y .
qed

lemma keepIndexed_32: "keepIndexed 32"
  by (simp add: keepIndexed_def isWhite_32)

lemma keep_sep_unit:
  "keepIndexed (if keepIndexed c then c else 32)"
  "keepIndexed d \<Longrightarrow> e = (if d = 45 \<or> d = 47 \<or> d = 95 then 32 else d) \<Longrightarrow>
     keepIndexed e \<and> e \<noteq> 45 \<and> e \<noteq> 47 \<and> e \<noteq> 95"
  using keepIndexed_32 by auto

lemma normalizeText_idem:
  assumes st: "stableUnits P S" and u: "set (lowerCase P (map foldVariant x)) \<subseteq> S"
  shows "normalizeText P (normalizeText P x) = normalizeText P x"
proof -
  define keep where "keep = (\<lambda>c. if keepIndexed c then c else (32::nat))"
  define sep where "sep = (\<lambda>c::nat. if c = 45 \<or> c = 47 \<or> c = 95 then 32 else c)"
  define p where "p = map sep (map keep (lowerCase P (map foldVariant x)))"
  define y where "y = trim (collapseWs p)"
  have gen: "normalizeText P s = trim (collapseWs (map sep (map keep (lowerCase P (map foldVariant s)))))"
    for s
    by (simp add: normalizeText_def Let_def keep_def sep_def)
  have y: "normalizeText P x = y" by (simp add: gen y_def p_def)
  have in32: "32 \<in> S" using st by (simp add: stableUnits_def)
  have k32: "keepIndexed 32" by (rule keepIndexed_32)
  have pS: "set p \<subseteq> S"
  proof
    fix c assume "c \<in> set p"
    then obtain e where e: "e \<in> set (lowerCase P (map foldVariant x))" and c: "c = sep (keep e)"
      by (auto simp: p_def)
    from e u have "e \<in> S" by blast
    then have "keep e \<in> S" using in32 by (simp add: keep_def)
    then show "c \<in> S" using in32 c by (simp add: sep_def)
  qed
  have pk: "\<forall>c \<in> set p. keepIndexed c \<and> c \<noteq> 45 \<and> c \<noteq> 47 \<and> c \<noteq> 95"
  proof
    fix c assume "c \<in> set p"
    then obtain e where c: "c = sep (keep e)" by (auto simp: p_def)
    have "keepIndexed (keep e)" unfolding keep_def by (rule keep_sep_unit(1))
    then show "keepIndexed c \<and> c \<noteq> 45 \<and> c \<noteq> 47 \<and> c \<noteq> 95"
      by (rule keep_sep_unit(2)) (simp add: c sep_def)
  qed
  have "set y \<subseteq> set (collapseWs p)" unfolding y_def by (rule set_trim)
  then have sub: "set y \<subseteq> insert 32 (set p)" using set_collapseWs [of p] by blast
  then have yS: "set y \<subseteq> S" using pS in32 by blast
  have yk: "\<forall>c \<in> set y. keepIndexed c \<and> c \<noteq> 45 \<and> c \<noteq> 47 \<and> c \<noteq> 95"
  proof
    fix c assume "c \<in> set y"
    with sub have d: "c = 32 \<or> c \<in> set p" by blast
    show "keepIndexed c \<and> c \<noteq> 45 \<and> c \<noteq> 47 \<and> c \<noteq> 95"
    proof (cases "c = 32")
      case True
      then show ?thesis using k32 by simp
    next
      case False
      with d have "c \<in> set p" by simp
      with pk show ?thesis by blast
    qed
  qed
  have f: "map foldVariant y = y" using st yS by (rule stable_fold)
  have l: "lowerCase P y = y" using st yS by (rule stable_lower)
  have k: "map keep y = y" using yk by (intro map_idI) (simp add: keep_def)
  have q: "map sep y = y" using yk by (intro map_idI) (simp add: sep_def)
  have c: "collapseWs y = y"
    unfolding y_def by (intro collapseWs_id collapsed_trim collapseWs_collapsed)
  have t: "trim y = y" unfolding y_def by (rule trim_trim)
  have "normalizeText P y = y" by (simp only: gen f l k q c t)
  then show ?thesis unfolding y .
qed

text \<open>The two normalisers that trim first.\<close>

lemma trimmed_fixed:
  assumes st: "stableUnits P S" and tS: "set t \<subseteq> S" and tk: "\<forall>c \<in> set t. keepLNS P c"
    and tc: "collapsed t" and tt: "trim t = t"
    and nd: "\<forall>c \<in> set t. \<not> (1776 \<le> c \<and> c \<le> 1785)"
  shows "normalizeFa P t = t \<and> normalize P t = t"
proof (cases "t = []")
  case True
  then show ?thesis by (simp add: normalizeFa_def normalize_def)
next
  case False
  have l: "lowerCase P t = t" using st tS by (rule stable_lower)
  have f: "replaceUnit 1603 1705 (replaceUnit 1610 1740 t) = t" using st tS by (rule stable_fold2)
  have d: "map faDigit t = t" "map latinDigit t = t" using digit_map_id [OF nd] by simp_all
  have ns: "noSurrogates t" using st tS by (rule stable_noSurrogates)
  have s: "collapseWs (stripPunctU P t) = t" using ns tk tc by (rule strip_collapse_id)
  show ?thesis using False by (simp add: normalizeFa_def normalize_def Let_def tt l f d s)
qed

lemma normalizeFa_twice:
  assumes st: "stableUnits P S"
    and u: "set (replaceUnit 1603 1705 (replaceUnit 1610 1740 (lowerCase P (trim x)))) \<subseteq> S"
  shows "normalizeFa P (normalizeFa P x) = trim (normalizeFa P x)
       \<and> normalizeFa P (trim (normalizeFa P x)) = trim (normalizeFa P x)"
proof (cases "x = []")
  case True
  then show ?thesis by (simp add: normalizeFa_def trim_def)
next
  case False
  define f where "f = replaceUnit 1603 1705 (replaceUnit 1610 1740 (lowerCase P (trim x)))"
  define d where "d = map faDigit f"
  define w where "w = stripPunctU P d"
  define y where "y = collapseWs w"
  define t where "t = trim y"
  have y: "normalizeFa P x = y"
    using False by (simp add: normalizeFa_def Let_def y_def w_def d_def f_def)
  have in32: "32 \<in> S" using st by (simp add: stableUnits_def)
  have fS: "set f \<subseteq> S" using u by (simp add: f_def)
  have dS: "set d \<subseteq> S" using st fS by (auto simp: d_def stableUnits_def)
  have dr: "\<forall>c \<in> set d. \<not> (1776 \<le> c \<and> c \<le> 1785)"
    unfolding d_def using faDigit_range by auto
  have nd: "noSurrogates d" using st dS by (rule stable_noSurrogates)
  note sf = strip_facts [OF nd, of P, folded w_def]
  have yf: "noSurrogates y \<and> (\<forall>c \<in> set y. keepLNS P c)"
    unfolding y_def using sf by (intro collapse_facts) auto
  have tf: "noSurrogates t \<and> (\<forall>c \<in> set t. keepLNS P c)"
    unfolding t_def using yf by (intro trim_facts) auto
  have "set t \<subseteq> set y" unfolding t_def by (rule set_trim)
  moreover have "set y \<subseteq> insert 32 (set w)" unfolding y_def by (rule set_collapseWs)
  ultimately have sub: "set t \<subseteq> insert 32 (set d)" using sf by blast
  then have tS: "set t \<subseteq> S" using dS in32 by blast
  have tk: "\<forall>c \<in> set t. keepLNS P c" using tf by simp
  have tc: "collapsed t" unfolding t_def y_def by (intro collapsed_trim collapseWs_collapsed)
  have tt: "trim t = t" unfolding t_def by (rule trim_trim)
  have nd': "\<forall>c \<in> set t. \<not> (1776 \<le> c \<and> c \<le> 1785)"
  proof
    fix c assume "c \<in> set t"
    with sub have "c = 32 \<or> c \<in> set d" by blast
    then show "\<not> (1776 \<le> c \<and> c \<le> 1785)" using dr by auto
  qed
  have fixd: "normalizeFa P t = t"
    using trimmed_fixed [OF st tS tk tc tt nd'] by simp
  have "normalizeFa P y = t"
  proof (cases "y = []")
    case True
    then show ?thesis by (simp add: normalizeFa_def trim_def t_def)
  next
    case ne: False
    show ?thesis
    proof (cases "t = []")
      case True
      then have "trim y = []" by (simp add: t_def)
      then show ?thesis using ne True
        by (simp add: normalizeFa_def Let_def lowerCase_def replaceUnit_def collapseWs_def)
    next
      case tne: False
      have "normalizeFa P y = collapseWs (stripPunctU P (map faDigit
          (replaceUnit 1603 1705 (replaceUnit 1610 1740 (lowerCase P t)))))"
        using ne by (simp add: normalizeFa_def Let_def t_def)
      also have "\<dots> = normalizeFa P t"
        using tne by (simp add: normalizeFa_def Let_def tt)
      finally show ?thesis using fixd by simp
    qed
  qed
  with fixd show ?thesis unfolding y t_def by simp
qed

lemma normalize_twice:
  assumes st: "stableUnits P S"
    and u: "set (replaceUnit 1603 1705 (replaceUnit 1610 1740 (lowerCase P (trim x)))) \<subseteq> S"
  shows "normalize P (normalize P x) = trim (normalize P x)
       \<and> normalize P (trim (normalize P x)) = trim (normalize P x)"
proof (cases "x = []")
  case True
  then show ?thesis by (simp add: normalize_def trim_def)
next
  case False
  define f where "f = replaceUnit 1603 1705 (replaceUnit 1610 1740 (lowerCase P (trim x)))"
  define d where "d = map latinDigit f"
  define w where "w = stripPunctU P d"
  define y where "y = collapseWs w"
  define t where "t = trim y"
  have y: "normalize P x = y"
    using False by (simp add: normalize_def Let_def y_def w_def d_def f_def)
  have in32: "32 \<in> S" using st by (simp add: stableUnits_def)
  have fS: "set f \<subseteq> S" using u by (simp add: f_def)
  have dS: "set d \<subseteq> S" using st fS by (auto simp: d_def stableUnits_def)
  have dr: "\<forall>c \<in> set d. \<not> (1776 \<le> c \<and> c \<le> 1785)"
    unfolding d_def using latinDigit_range by auto
  have nd: "noSurrogates d" using st dS by (rule stable_noSurrogates)
  note sf = strip_facts [OF nd, of P, folded w_def]
  have yf: "noSurrogates y \<and> (\<forall>c \<in> set y. keepLNS P c)"
    unfolding y_def using sf by (intro collapse_facts) auto
  have tf: "noSurrogates t \<and> (\<forall>c \<in> set t. keepLNS P c)"
    unfolding t_def using yf by (intro trim_facts) auto
  have "set t \<subseteq> set y" unfolding t_def by (rule set_trim)
  moreover have "set y \<subseteq> insert 32 (set w)" unfolding y_def by (rule set_collapseWs)
  ultimately have sub: "set t \<subseteq> insert 32 (set d)" using sf by blast
  then have tS: "set t \<subseteq> S" using dS in32 by blast
  have tk: "\<forall>c \<in> set t. keepLNS P c" using tf by simp
  have tc: "collapsed t" unfolding t_def y_def by (intro collapsed_trim collapseWs_collapsed)
  have tt: "trim t = t" unfolding t_def by (rule trim_trim)
  have nd': "\<forall>c \<in> set t. \<not> (1776 \<le> c \<and> c \<le> 1785)"
  proof
    fix c assume "c \<in> set t"
    with sub have "c = 32 \<or> c \<in> set d" by blast
    then show "\<not> (1776 \<le> c \<and> c \<le> 1785)" using dr by auto
  qed
  have fixd: "normalize P t = t"
    using trimmed_fixed [OF st tS tk tc tt nd'] by simp
  have "normalize P y = t"
  proof (cases "y = []")
    case True
    then show ?thesis by (simp add: normalize_def trim_def t_def)
  next
    case ne: False
    show ?thesis
    proof (cases "t = []")
      case True
      then have "trim y = []" by (simp add: t_def)
      then show ?thesis using ne True
        by (simp add: normalize_def Let_def lowerCase_def replaceUnit_def collapseWs_def)
    next
      case tne: False
      have "normalize P y = collapseWs (stripPunctU P (map latinDigit
          (replaceUnit 1603 1705 (replaceUnit 1610 1740 (lowerCase P t)))))"
        using ne by (simp add: normalize_def Let_def t_def)
      also have "\<dots> = normalize P t"
        using tne by (simp add: normalize_def Let_def tt)
      finally show ?thesis using fixd by simp
    qed
  qed
  with fixd show ?thesis unfolding y t_def by simp
qed

text \<open>
  For a platform with a set \<open>S\<close> of stable code units and an input whose lower-cased
  form lies in \<open>S\<close>: \<open>normalizeText\<close> of KnowledgeEngine and of IndustryIndexer v3.0,
  which trim last, are idempotent; \<open>normalizeFa\<close> and \<open>normalize\<close>, which trim before
  they strip the punctuation, give when applied twice the trimmed form of what they give
  once, and that trimmed form is a fixed point.
\<close>

lemma normalizers_stable:
  assumes "stableUnits P S"
  shows "(set (lowerCase P x) \<subseteq> S \<longrightarrow>
            ke_normalizeText P (ke_normalizeText P x) = ke_normalizeText P x)
       \<and> (set (lowerCase P (map foldVariant x)) \<subseteq> S \<longrightarrow>
            normalizeText P (normalizeText P x) = normalizeText P x)
       \<and> (set (replaceUnit 1603 1705 (replaceUnit 1610 1740 (lowerCase P (trim x)))) \<subseteq> S \<longrightarrow>
            normalizeFa P (normalizeFa P x) = trim (normalizeFa P x)
            \<and> normalizeFa P (trim (normalizeFa P x)) = trim (normalizeFa P x)
            \<and> normalize P (normalize P x) = trim (normalize P x)
            \<and> normalize P (trim (normalize P x)) = trim (normalize P x))"
  using ke_normalizeText_idem [OF assms, of x] normalizeText_idem [OF assms, of x]
    normalizeFa_twice [OF assms, of x] normalize_twice [OF assms, of x]
  by blast

text \<open>
  C2 at the input \<open>cut!\<close>. \<open>normalizeFa\<close> of IntentMatcher and \<open>normalize\<close> of
  IndustryIndexer trim first and then replace the punctuation by a space that nothing
  removes: they turn \<open>cut!\<close> into \<open>cut\<close> followed by a space, and that into
  \<open>cut\<close>, so applying them twice differs from applying them once. \<open>normalizeText\<close>
  of KnowledgeEngine and of IndustryIndexer v3.0, which trim last, return \<open>cut\<close> both
  times.
\<close>

theorem normalizers_not_idempotent:
  "normalizeFa refPlatform (asc ''cut!'') = asc ''cut ''
   \<and> normalizeFa refPlatform (normalizeFa refPlatform (asc ''cut!'')) = asc ''cut''
   \<and> normalizeFa refPlatform (normalizeFa refPlatform (asc ''cut!''))
       \<noteq> normalizeFa refPlatform (asc ''cut!'')
   \<and> normalize refPlatform (asc ''cut!'') = asc ''cut ''
   \<and> normalize refPlatform (normalize refPlatform (asc ''cut!'')) = asc ''cut''
   \<and> normalize refPlatform (normalize refPlatform (asc ''cut!''))
       \<noteq> normalize refPlatform (asc ''cut!'')
   \<and> ke_normalizeText refPlatform (asc ''cut!'') = asc ''cut''
   \<and> ke_normalizeText refPlatform (ke_normalizeText refPlatform (asc ''cut!'')) = asc ''cut''
   \<and> normalizeText refPlatform (asc ''cut!'') = asc ''cut''
   \<and> normalizeText refPlatform (normalizeText refPlatform (asc ''cut!'')) = asc ''cut''"
proof -
  have a: "normalizeFa refPlatform (asc ''cut!'') = asc ''cut ''"
    by (simp add: normalizeFa_def faDigit_def platform_eval)
  have b: "normalizeFa refPlatform (asc ''cut '') = asc ''cut''"
    by (simp add: normalizeFa_def faDigit_def platform_eval)
  have c: "normalize refPlatform (asc ''cut!'') = asc ''cut ''"
    by (simp add: normalize_def latinDigit_def platform_eval)
  have d: "normalize refPlatform (asc ''cut '') = asc ''cut''"
    by (simp add: normalize_def latinDigit_def platform_eval)
  have e: "ke_normalizeText refPlatform (asc ''cut!'') = asc ''cut''"
    by (simp add: ke_normalizeText_def platform_eval)
  have f: "ke_normalizeText refPlatform (asc ''cut'') = asc ''cut''"
    by (simp add: ke_normalizeText_def platform_eval)
  have g: "normalizeText refPlatform (asc ''cut!'') = asc ''cut''"
    by (simp add: normalizeText_def platform_eval)
  have h: "normalizeText refPlatform (asc ''cut'') = asc ''cut''"
    by (simp add: normalizeText_def platform_eval)
  have n: "asc ''cut'' \<noteq> asc ''cut ''" by (simp add: asc_eq_iff)
  show ?thesis unfolding a b c d e f g h using n by simp
qed

lemma refStable_small: "x \<le> 57 \<Longrightarrow> x \<in> refStable"
  by (simp add: refStable_def isHigh_def isLow_def foldVariant_def)

lemma refStable_digit: "c \<in> refStable \<Longrightarrow> faDigit c \<in> refStable \<and> latinDigit c \<in> refStable"
proof (cases "1776 \<le> c \<and> c \<le> 1785")
  case True
  then have "faDigit c \<le> 57" "latinDigit c \<le> 57" by (auto simp: faDigit_def latinDigit_def)
  then show ?thesis using refStable_small by blast
next
  case False
  assume c: "c \<in> refStable"
  from False have "faDigit c = c" "latinDigit c = c" by (auto simp: faDigit_def latinDigit_def)
  with c show ?thesis by simp
qed

lemma refStable_lower: "set t \<subseteq> refStable \<Longrightarrow> map asciiLower t = t"
proof (rule map_idI)
  fix c assume "set t \<subseteq> refStable" and "c \<in> set t"
  then have "c \<in> refStable" by blast
  then have "\<not> (65 \<le> c \<and> c \<le> 90)" by (simp add: refStable_def)
  then show "asciiLower c = c" by (simp add: asciiLower_def)
qed

lemma refStable_ok: "stableUnits refPlatform refStable"
proof -
  have a: "32 \<in> refStable" by (rule refStable_small) simp
  have b: "\<forall>c \<in> refStable. \<not> isHigh c \<and> \<not> isLow c \<and> foldVariant c = c
      \<and> faDigit c \<in> refStable \<and> latinDigit c \<in> refStable"
  proof
    fix c assume c: "c \<in> refStable"
    then have "\<not> isHigh c \<and> \<not> isLow c \<and> foldVariant c = c" by (simp add: refStable_def)
    with refStable_digit [OF c]
    show "\<not> isHigh c \<and> \<not> isLow c \<and> foldVariant c = c
      \<and> faDigit c \<in> refStable \<and> latinDigit c \<in> refStable" by blast
  qed
  have c: "\<forall>t. set t \<subseteq> refStable \<longrightarrow> toLowerCase refPlatform t = t"
    using refStable_lower by (simp add: refPlatform_def)
  show ?thesis unfolding stableUnits_def using a b c by blast
qed

lemma normalizers_stable_example:
  "stableUnits refPlatform refStable
   \<and> ke_normalizeText refPlatform (asc '' Cut-5! '') = asc ''cut 5''
   \<and> ke_normalizeText refPlatform (ke_normalizeText refPlatform (asc '' Cut-5! '')) = asc ''cut 5''
   \<and> normalizeFa refPlatform (normalizeFa refPlatform (asc ''cut!''))
       = trim (normalizeFa refPlatform (asc ''cut!''))"
proof -
  have e: "ke_normalizeText refPlatform (asc '' Cut-5! '') = asc ''cut 5''"
    by (simp add: ke_normalizeText_def platform_eval)
  have h1: "set (lowerCase refPlatform (asc '' Cut-5! '')) \<subseteq> refStable"
    by (simp add: refStable_def platform_eval)
  have h2: "set (replaceUnit 1603 1705 (replaceUnit 1610 1740
               (lowerCase refPlatform (trim (asc ''cut!''))))) \<subseteq> refStable"
    by (simp add: refStable_def platform_eval)
  from normalizers_stable [OF refStable_ok, of "asc '' Cut-5! ''"] h1
  have a: "ke_normalizeText refPlatform (ke_normalizeText refPlatform (asc '' Cut-5! ''))
      = ke_normalizeText refPlatform (asc '' Cut-5! '')" by blast
  from normalizers_stable [OF refStable_ok, of "asc ''cut!''"] h2
  have b: "normalizeFa refPlatform (normalizeFa refPlatform (asc ''cut!''))
       = trim (normalizeFa refPlatform (asc ''cut!''))" by blast
  show ?thesis using refStable_ok e a b by simp
qed

section \<open>Properties of the catalog loaders\<close>









lemma decimal_0: "decimal 0 = asc ''0''"
  by (simp add: decimal.simps asc_def)









section \<open>Properties of the empty query\<close>

lemma normalizeText_Nil: "normalizeText P [] = []"
  by (simp add: normalizeText_def lowerCase_def collapseWs_def trim_def)

lemma tokenOverlap_empty: "ke_normalizeText P t = [] \<Longrightarrow> tokenOverlapScore P t b = 0"
  by (simp add: tokenOverlapScore_def ke_tokenize_def Let_def)

lemma keywordHit_empty: "ke_normalizeText P t = [] \<Longrightarrow> keywordHitScore P t entry = 0"
  by (simp add: keywordHitScore_def keywordRegexTest_def Let_def)

lemma fallback_empty: "ke_normalizeText P t = [] \<Longrightarrow> fallbackResults P t entries = []"
  by (simp add: fallbackResults_def Let_def)

text \<open>
  C9, as the code has it. For the empty string, \<open>undefined\<close> and \<open>null\<close> the
  query of KnowledgeEngine returns the empty list and leaves the state as it was, and
  \<open>bestMatch\<close> of IndustryIndexer v3.0 returns \<open>null\<close>, as it does for every text
  that normalises to the empty string. For a text that is not empty but normalises to the
  empty string, the query of KnowledgeEngine has no token overlap, no keyword hit and no
  fallback match, and scores each entry by 0.35 times the subsequence ratio of the raw
  text and the title (or the snippet).
\<close>

theorem empty_query:
  "(text = None \<or> text = Some [] \<longrightarrow> ke_query P st text topN intents resp = (st, []))
   \<and> (raw = None \<or> raw = Some [] \<or> (\<exists>s. raw = Some s \<and> normalizeText P s = [])
        \<longrightarrow> bestMatch3 P inds index raw thresholdOpt = None)
   \<and> (ke_normalizeText P t = [] \<longrightarrow>
        tokenOverlapScore P t b = 0 \<and> keywordHitScore P t entry = 0
        \<and> fallbackResults P t entries = []
        \<and> fst (scoreCandidate P t entry)
            = 35 / 100 * lcsRatio P t (if e_title entry \<noteq> [] then e_title entry else e_snippet entry))"
proof -
  have a: "text = None \<or> text = Some [] \<Longrightarrow> ke_query P st text topN intents resp = (st, [])"
    by (auto simp: ke_query_def ensureString_def Let_def)
  have b: "raw = None \<or> raw = Some [] \<or> (\<exists>s. raw = Some s \<and> normalizeText P s = [])
        \<Longrightarrow> bestMatch3 P inds index raw thresholdOpt = None"
    by (auto simp: bestMatch3_def Let_def normalizeText_Nil)
  have c: "ke_normalizeText P t = [] \<Longrightarrow>
        fst (scoreCandidate P t entry)
            = 35 / 100 * lcsRatio P t (if e_title entry \<noteq> [] then e_title entry else e_snippet entry)"
    by (simp add: scoreCandidate_def Let_def tokenOverlap_empty keywordHit_empty)
  show ?thesis
    using a b c tokenOverlap_empty [of P t b] keywordHit_empty [of P t entry]
      fallback_empty [of P t entries]
    by blast
qed

lemma normalizeText_amp: "ke_normalizeText refPlatform (asc ''&'') = []"
  by (simp add: ke_normalizeText_def platform_eval)

lemma tokenize_qa: "ke_tokenize refPlatform (asc ''Q&A'') = [asc ''q'', asc ''a'']"
  by (simp add: ke_tokenize_def ke_normalizeText_def Let_def platform_eval)

lemma entry_qa:
  "normalizeEntry refPlatform 0 (JObj [(asc ''title'', JStr (asc ''Q&A''))])
   = \<lparr> e_id = JStr (asc ''kb_0''), e_title = asc ''Q&A'', e_snippet = [], e_url = [],
       e_type = [], e_keywords = [asc ''q'', asc ''a''], e_meta = None \<rparr>"
proof -
  have t: "stringOr refPlatform [getProp (JObj [(asc ''title'', JStr (asc ''Q&A''))]) (asc ''title''),
       getProp (JObj [(asc ''title'', JStr (asc ''Q&A''))]) (asc ''name_fa''),
       getProp (JObj [(asc ''title'', JStr (asc ''Q&A''))]) (asc ''name'')] = asc ''Q&A''"
    by (simp add: stringOr_def getProp_def asc_eq_iff asc_Nil_iff)
  show ?thesis
    unfolding normalizeEntry_def t Let_def tokenize_qa
    by (simp add: stringOr_def getProp_def metaType_def asc_eq_iff asc_Nil_iff decimal_0)
       (simp add: asc_def)
qed

lemma init_qa:
  "fst (ke_init refPlatform ke_initial (asc ''/kb.json'') []
          (Body (JArr [JObj [(asc ''title'', JStr (asc ''Q&A''))]])))
   = \<lparr> kb = [\<lparr> e_id = JStr (asc ''kb_0''), e_title = asc ''Q&A'', e_snippet = [], e_url = [],
              e_type = [], e_keywords = [asc ''q'', asc ''a''], e_meta = None \<rparr>],
       indexInitialized = True, intentKeywords = [], kbPath = asc ''/kb.json'' \<rparr>"
  by (simp add: ke_init_def ke_initial_def kbItems_def entry_qa asc_Nil_iff)

lemma lcs_qa: "lcsRatio refPlatform (asc ''&'') (asc ''Q&A'') = 1 / 3"
  by (simp add: lcsRatio_def lcsLength_def lcsTable_def asc_def)

lemma score_qa:
  "scoreCandidate refPlatform (asc ''&'')
     \<lparr> e_id = JStr (asc ''kb_0''), e_title = asc ''Q&A'', e_snippet = [], e_url = [],
       e_type = [], e_keywords = [asc ''q'', asc ''a''], e_meta = None \<rparr>
   = (7 / 60, Signals 0 (1 / 3) 0)"
  by (simp add: scoreCandidate_def tokenOverlap_empty keywordHit_empty normalizeText_amp
        asc_Nil_iff lcs_qa)

theorem empty_query_counterexample:
  "ke_normalizeText refPlatform (asc ''&'') = []
   \<and> map r_score (snd (ke_query refPlatform
         (fst (ke_init refPlatform ke_initial (asc ''/kb.json'') []
                 (Body (JArr [JObj [(asc ''title'', JStr (asc ''Q&A''))]]))))
         (Some (asc ''&'')) None [] NetworkError))
     = [7 / 60]"
proof -
  have "map r_score (snd (ke_query refPlatform
         \<lparr> kb = [\<lparr> e_id = JStr (asc ''kb_0''), e_title = asc ''Q&A'', e_snippet = [], e_url = [],
              e_type = [], e_keywords = [asc ''q'', asc ''a''], e_meta = None \<rparr>],
           indexInitialized = True, intentKeywords = [], kbPath = asc ''/kb.json'' \<rparr>
         (Some (asc ''&'')) None [] NetworkError)) = [7 / 60]"
    by (simp add: ke_query_def Let_def ensureString_def scoredResults_def score_qa
          minScoreThreshold_def sortCmp_def toResult_def slice0_def)
       (simp add: asc_def)
  then show ?thesis unfolding init_qa using normalizeText_amp by simp
qed

theorem empty_query_witness:
  "ke_query refPlatform ke_initial None None [] NetworkError = (ke_initial, [])
   \<and> ke_query refPlatform ke_initial (Some []) None [] NetworkError = (ke_initial, [])
   \<and> bestMatch3 refPlatform INDUSTRIES (buildIndex3 refPlatform INDUSTRIES) (Some (asc ''?!'')) None = None
   \<and> keywordHitScore refPlatform (asc ''&'')
        \<lparr> e_id = JStr (asc ''kb_0''), e_title = asc ''Q&A'', e_snippet = [], e_url = [],
          e_type = [], e_keywords = [asc ''q'', asc ''a''], e_meta = None \<rparr> = 0"
proof -
  have n: "normalizeText refPlatform (asc ''?!'') = []"
    by (simp add: normalizeText_def platform_eval)
  then have n': "\<exists>s. Some (asc ''?!'') = Some s \<and> normalizeText refPlatform s = []" by blast
  note T = empty_query [of _ refPlatform ke_initial None "[]" NetworkError
       "Some (asc ''?!'')" INDUSTRIES "buildIndex3 refPlatform INDUSTRIES" None "asc ''&''" "[]" _ "[]"]
  have a: "ke_query refPlatform ke_initial None None [] NetworkError = (ke_initial, [])"
    using T [of None] by blast
  have b: "ke_query refPlatform ke_initial (Some []) None [] NetworkError = (ke_initial, [])"
    using T [of "Some []"] by blast
  have c: "bestMatch3 refPlatform INDUSTRIES (buildIndex3 refPlatform INDUSTRIES) (Some (asc ''?!'')) None = None"
    using T [of None] n' by blast
  have d: "keywordHitScore refPlatform (asc ''&'')
        \<lparr> e_id = JStr (asc ''kb_0''), e_title = asc ''Q&A'', e_snippet = [], e_url = [],
          e_type = [], e_keywords = [asc ''q'', asc ''a''], e_meta = None \<rparr> = 0"
    using T [of None] normalizeText_amp by blast
  show ?thesis using a b c d by blast
qed

end
